(* ===== verification/Prelude.thy ===== *)
theory Prelude
  imports Complex_Main "HOL-Library.Sublist"
begin

text \<open>
  Shared vocabulary of the development: the exceptions the bot's code can raise, results
  as values of a sum type, sequencing of fallible steps, and the arithmetic facts about
  rationals that let the simplifier evaluate the float model on closed inputs.

  Python exceptions are values: a computation that may raise has type \<open>exn + 'a\<close>,
  with \<open>Inl e\<close> for "raised \<open>e\<close>" and \<open>Inr v\<close> for "returned \<open>v\<close>". The message
  text of an exception is not modelled (it depends on the interpreter version); the
  exception class is, and for \<open>KeyError\<close> the missing key.
\<close>

section \<open>Collections of facts\<close>

named_theorems py_eval "unfolding equations that evaluate the model on closed inputs"
named_theorems py_wf "operations keep values well-formed: floats are binary64, dict keys distinct"

section \<open>Exceptions and results\<close>

datatype fetch_failure = Timeout | Transport | BadStatus nat | BadBody

datatype exn =
    TypeError
  | AttributeError
  | KeyError string
  | ValueError
  | OverflowError
  | ZeroDivisionError
  | FetchFailed fetch_failure
  | TelegramError

type_synonym 'a result = "exn + 'a"

definition rbind :: "'a result \<Rightarrow> ('a \<Rightarrow> 'b result) \<Rightarrow> 'b result" where
  "rbind m f = (case m of Inl e \<Rightarrow> Inl e | Inr x \<Rightarrow> f x)"

definition returns :: "'a result \<Rightarrow> bool" where
  "returns m = (case m of Inl _ \<Rightarrow> False | Inr _ \<Rightarrow> True)"

definition catch :: "'a result \<Rightarrow> (exn \<Rightarrow> 'a) \<Rightarrow> 'a" where
  "catch m h = (case m of Inl e \<Rightarrow> h e | Inr x \<Rightarrow> x)"

text \<open>A \<open>for\<close> loop whose body may raise: the first exception ends the loop.\<close>

fun map_result :: "('a \<Rightarrow> 'b result) \<Rightarrow> 'a list \<Rightarrow> 'b list result" where
  "map_result f [] = Inr []"
| "map_result f (x # xs) =
     (case f x of Inl e \<Rightarrow> Inl e
      | Inr y \<Rightarrow> (case map_result f xs of Inl e \<Rightarrow> Inl e | Inr ys \<Rightarrow> Inr (y # ys)))"

lemma rbind_Inr [simp]: "rbind (Inr x) f = f x"
  by (simp add: rbind_def)

lemma rbind_Inl [simp]: "rbind (Inl e) f = Inl e"
  by (simp add: rbind_def)

lemma rbind_return [simp]: "rbind m Inr = m"
  by (cases m) simp_all

lemma rbind_assoc: "rbind (rbind m f) g = rbind m (\<lambda>x. rbind (f x) g)"
  by (cases m) simp_all

lemma rbind_eq_Inr_iff: "rbind m f = Inr y \<longleftrightarrow> (\<exists>x. m = Inr x \<and> f x = Inr y)"
  by (cases m) simp_all

lemma rbind_eq_Inl_iff:
  "rbind m f = Inl e \<longleftrightarrow> m = Inl e \<or> (\<exists>x. m = Inr x \<and> f x = Inl e)"
  by (cases m) simp_all

lemma rbind_cong [fundef_cong]:
  "m = m' \<Longrightarrow> (\<And>x. m' = Inr x \<Longrightarrow> f x = f' x) \<Longrightarrow> rbind m f = rbind m' f'"
  by (cases m') simp_all

lemma returns_simps [simp]: "returns (Inr x)" "\<not> returns (Inl e)"
  by (simp_all add: returns_def)

lemma returns_iff: "returns m \<longleftrightarrow> (\<exists>x. m = Inr x)"
  by (cases m) simp_all

lemma returns_rbind: "returns (rbind m f) \<longleftrightarrow> (\<exists>x. m = Inr x \<and> returns (f x))"
  by (cases m) simp_all

lemma catch_simps [simp]: "catch (Inr x) h = x" "catch (Inl e) h = h e"
  by (simp_all add: catch_def)

lemma map_result_eq_Inr_iff:
  "map_result f xs = Inr ys \<longleftrightarrow> list_all2 (\<lambda>x y. f x = Inr y) xs ys"
proof (induction xs arbitrary: ys)
  case Nil
  show ?case by auto
next
  case (Cons x xs)
  show ?case
    by (cases ys) (auto simp: Cons.IH [symmetric] split: sum.splits)
qed

lemma map_result_total:
  "\<forall>x\<in>set xs. returns (f x) \<Longrightarrow> map_result f xs = Inr (map (\<lambda>x. projr (f x)) xs)"
  by (induction xs) (auto simp: returns_iff split: sum.splits)

lemma map_result_length: "map_result f xs = Inr ys \<Longrightarrow> length ys = length xs"
  by (auto simp: map_result_eq_Inr_iff dest: list_all2_lengthD)

lemma map_result_first_error:
  "\<forall>y\<in>set xs. returns (f y) \<Longrightarrow> f x = Inl e \<Longrightarrow> map_result f (xs @ x # zs) = Inl e"
  by (induction xs) (auto simp: returns_iff split: sum.splits)

section \<open>Rationals on closed terms\<close>

text \<open>
  The simplifier computes on numerals of type \<open>rat\<close>, but the library states the
  interplay of \<open>floor\<close> and division for \<open>real\<close> only. These are the same facts
  for \<open>rat\<close>; with them a closed instance of the float model evaluates by \<open>simp\<close>.
\<close>

lemma floor_rat_numeral_div [simp]:
  "\<lfloor>(numeral a :: rat) / numeral b\<rfloor> = numeral a div numeral b"
  using floor_divide_of_int_eq [of "numeral a" "numeral b", where ?'a = rat] by simp

lemma floor_rat_neg_numeral_div [simp]:
  "\<lfloor>- ((numeral a :: rat) / numeral b)\<rfloor> = (- numeral a) div numeral b"
  using floor_divide_of_int_eq [of "- numeral a" "numeral b", where ?'a = rat] by simp

lemma ceiling_rat_numeral_div [simp]:
  "\<lceil>(numeral a :: rat) / numeral b\<rceil> = - ((- numeral a) div numeral b)"
  unfolding ceiling_def by simp

lemma ceiling_rat_neg_numeral_div [simp]:
  "\<lceil>- ((numeral a :: rat) / numeral b)\<rceil> = - (numeral a div numeral b)"
  unfolding ceiling_def by simp

section \<open>Lists\<close>

lemma replicate_numeral [simp]: "replicate (numeral k) x = x # replicate (pred_numeral k) x"
  by (simp add: numeral_eq_Suc)

lemma take_filter_length_le: "length (take n (filter P xs)) \<le> n"
  by simp

lemma sorted_wrt_take: "sorted_wrt R xs \<Longrightarrow> sorted_wrt R (take n xs)"
  by (metis append_take_drop_id sorted_wrt_append)

lemma sorted_wrt_rev_iff: "sorted_wrt R (rev xs) \<longleftrightarrow> sorted_wrt (\<lambda>x y. R y x) xs"
  by (simp add: sorted_wrt_rev)

end
