(* ===== verification/PyFloat.thy ===== *)
theory PyFloat
  imports Prelude
begin

text \<open>
  Python's \<open>float\<close>: an IEEE 754 binary64 value. A finite value is carried as the
  rational number it denotes (\<open>Finite q\<close>, with \<open>Finite 0\<close> for \<open>+0.0\<close>); the
  negative zero, the two infinities and NaN are constructors of their own. Every
  operation that CPython rounds is the exact operation on rationals followed by
  \<open>round_double\<close>, round-to-nearest with ties to even at 53 bits of precision, with
  gradual underflow below \<open>2 powi - 1022\<close> and overflow to infinity from
  \<open>2 ^ 1024 - 2 ^ 970\<close> on. The theory holds the rounding function with its
  correctness lemmas, the comparisons (NaN is unordered), conversion from \<open>int\<close>,
  addition and division.
\<close>

section \<open>Values\<close>

datatype pyfloat = Finite rat | NegZero | PosInf | NegInf | NaN

fun ilog2 :: "nat \<Rightarrow> nat" where
  "ilog2 n = (if n < 2 then 0 else Suc (ilog2 (n div 2)))"

declare ilog2.simps [simp del]

definition floor_log2 :: "rat \<Rightarrow> int" where
  "floor_log2 a = (if 1 \<le> a then int (ilog2 (nat \<lfloor>a\<rfloor>))
                   else - int (ilog2 (nat (\<lceil>1 / a\<rceil> - 1))) - 1)"

definition round_half_even :: "rat \<Rightarrow> int" where
  "round_half_even q = (let f = \<lfloor>q\<rfloor>; r = q - of_int f in
     if r < 1 / 2 then f else if 1 / 2 < r then f + 1 else if even f then f else f + 1)"

definition ulp_exp :: "rat \<Rightarrow> int" where
  "ulp_exp a = max (floor_log2 a - 52) (- 1074)"

definition round_double :: "rat \<Rightarrow> pyfloat" where
  "round_double q = (if q = 0 then Finite 0 else
     let a = \<bar>q\<bar>; p = ulp_exp a; m = round_half_even (a / 2 powi p)
     in if 971 < p \<or> (p = 971 \<and> m = 2 ^ 53) then (if 0 < q then PosInf else NegInf)
        else if m = 0 then (if 0 < q then Finite 0 else NegZero)
        else Finite (if 0 < q then of_int m * 2 powi p else - (of_int m * 2 powi p)))"

lemma ilog2_small [simp]: "n < 2 \<Longrightarrow> ilog2 n = 0"
  by (simp add: ilog2.simps)

lemma ilog2_step [simp]: "2 \<le> n \<Longrightarrow> ilog2 n = Suc (ilog2 (n div 2))"
  by (simp add: ilog2.simps [of n])

lemma ilog2_bounds: "0 < n \<Longrightarrow> 2 ^ ilog2 n \<le> n \<and> n < 2 * 2 ^ ilog2 n"
proof (induction n rule: ilog2.induct)
  case (1 n)
  show ?case
  proof (cases "n < 2")
    case True
    with "1.prems" show ?thesis by simp
  next
    case False
    then have "0 < n div 2" by simp
    with "1.IH" False have ih: "2 ^ ilog2 (n div 2) \<le> n div 2" "n div 2 < 2 * 2 ^ ilog2 (n div 2)"
      by simp_all
    have "2 * 2 ^ ilog2 (n div 2) \<le> 2 * (n div 2)" using ih(1) by simp
    also have "\<dots> \<le> n" by simp
    finally have lo: "2 * 2 ^ ilog2 (n div 2) \<le> n" .
    have "n < 2 * (n div 2 + 1)" by simp
    also have "\<dots> \<le> 2 * (2 * 2 ^ ilog2 (n div 2))" using ih(2) by simp
    finally have hi: "n < 2 * (2 * 2 ^ ilog2 (n div 2))" .
    from lo hi False show ?thesis by simp
  qed
qed

lemmas rd_eval = round_double_def ulp_exp_def floor_log2_def round_half_even_def Let_def


lemma floor_log2_bounds:
  assumes "0 < a"
  shows "2 powi floor_log2 a \<le> a \<and> a < 2 powi (floor_log2 a + 1)"
proof (cases "1 \<le> a")
  case True
  define n where "n = nat \<lfloor>a\<rfloor>"
  from True have n: "0 < n" "int n = \<lfloor>a\<rfloor>" by (simp_all add: n_def)
  from ilog2_bounds [OF n(1)] have b: "2 ^ ilog2 n \<le> n" "n < 2 * 2 ^ ilog2 n" by simp_all
  have "(2::rat) ^ ilog2 n \<le> of_nat n"
    using b(1) by (metis of_nat_le_iff of_nat_numeral of_nat_power)
  also have "\<dots> = of_int \<lfloor>a\<rfloor>" using n(2) by (metis of_int_of_nat_eq)
  also have "\<dots> \<le> a" by simp
  finally have lo: "2 ^ ilog2 n \<le> a" .
  have "\<lfloor>a\<rfloor> < int (2 * 2 ^ ilog2 n)" using b(2) n(2) by linarith
  then have hi: "a < 2 * 2 ^ ilog2 n" by (simp add: floor_less_iff)
  from lo hi True show ?thesis
    by (simp add: floor_log2_def n_def [symmetric] power_int_add)
next
  case False
  define b where "b = 1 / a"
  define m where "m = nat (\<lceil>b\<rceil> - 1)"
  from False assms have b: "1 < b" by (simp add: b_def)
  then have "2 \<le> \<lceil>b\<rceil>" by (simp add: le_ceiling_iff) 
  then have m: "0 < m" "int m = \<lceil>b\<rceil> - 1" by (simp_all add: m_def)
  from ilog2_bounds [OF m(1)] have k: "2 ^ ilog2 m \<le> m" "m < 2 * 2 ^ ilog2 m" by simp_all
  have "int (2 ^ ilog2 m) < \<lceil>b\<rceil>" using k(1) m(2) by linarith
  then have lo: "2 ^ ilog2 m < b" by (simp add: less_ceiling_iff)
  have "\<lceil>b\<rceil> \<le> int (2 * 2 ^ ilog2 m)" using k(2) m(2) by linarith
  then have hi: "b \<le> 2 * 2 ^ ilog2 m" by (simp add: ceiling_le_iff)
  have e: "floor_log2 a = - int (ilog2 m) - 1"
    using False by (simp add: floor_log2_def m_def b_def)
  have "2 powi (- int (ilog2 m) - 1) = 1 / ((2::rat) * 2 ^ ilog2 m)"
    by (simp add: power_int_diff power_int_minus field_simps)
  moreover have "1 / ((2::rat) * 2 ^ ilog2 m) \<le> a"
    using hi assms by (simp add: b_def field_simps)
  moreover have "2 powi (- int (ilog2 m) - 1 + 1) = 1 / ((2::rat) ^ ilog2 m)"
    by (simp add: power_int_minus field_simps)
  moreover have "a < 1 / ((2::rat) ^ ilog2 m)"
    using lo assms by (simp add: b_def field_simps)
  ultimately show ?thesis by (simp add: e)
qed


lemma floor_log2_unique:
  assumes "0 < a" "2 powi e \<le> a" "a < 2 powi (e + 1)"
  shows "floor_log2 a = e"
proof (rule antisym)
  note b = floor_log2_bounds [OF assms(1)]
  show "floor_log2 a \<le> e"
  proof (rule ccontr)
    assume "\<not> floor_log2 a \<le> e"
    then have "(2::rat) powi (e + 1) \<le> 2 powi floor_log2 a"
      by (intro power_int_increasing) simp_all
    with b assms(3) show False by simp
  qed
  show "e \<le> floor_log2 a"
  proof (rule ccontr)
    assume "\<not> e \<le> floor_log2 a"
    then have "(2::rat) powi (floor_log2 a + 1) \<le> 2 powi e"
      by (intro power_int_increasing) simp_all
    with b assms(2) show False by simp
  qed
qed

section \<open>Rounding to the nearest integer, ties to even\<close>

lemma round_half_even_of_int [simp]: "round_half_even (of_int n) = n"
  by (simp add: round_half_even_def)

lemma round_half_even_cases:
  "round_half_even q = \<lfloor>q\<rfloor> \<or> round_half_even q = \<lfloor>q\<rfloor> + 1"
  by (simp add: round_half_even_def Let_def)

lemma round_half_even_error: "\<bar>of_int (round_half_even q) - q\<bar> \<le> 1 / 2"
proof -
  have "of_int \<lfloor>q\<rfloor> \<le> q" "q < of_int \<lfloor>q\<rfloor> + 1" by linarith+
  then show ?thesis
    by (auto simp: round_half_even_def Let_def abs_le_iff)
qed

lemma round_half_even_mono:
  assumes "q \<le> r"
  shows "round_half_even q \<le> round_half_even r"
proof (cases "\<lfloor>q\<rfloor> = \<lfloor>r\<rfloor>")
  case True
  with assms show ?thesis
    by (auto simp: round_half_even_def Let_def)
next
  case False
  with assms have "\<lfloor>q\<rfloor> + 1 \<le> \<lfloor>r\<rfloor>"
    using floor_mono [OF assms] by linarith
  moreover have "round_half_even q \<le> \<lfloor>q\<rfloor> + 1" "\<lfloor>r\<rfloor> \<le> round_half_even r"
    using round_half_even_cases [of q] round_half_even_cases [of r] by auto
  ultimately show ?thesis by linarith
qed

lemma round_half_even_nonneg: "0 \<le> q \<Longrightarrow> 0 \<le> round_half_even q"
  using round_half_even_mono [of 0 q] round_half_even_of_int [of 0] by simp


section \<open>Representable values\<close>

definition is_double :: "rat \<Rightarrow> bool" where
  "is_double q = (q = 0 \<or>
     (let a = \<bar>q\<bar>; x = a / 2 powi ulp_exp a in x = of_int \<lfloor>x\<rfloor> \<and> a < 2 ^ 1024))"

fun wf_float :: "pyfloat \<Rightarrow> bool" where
  "wf_float (Finite q) = is_double q"
| "wf_float _ = True"

lemma floor_log2_less: "0 < a \<Longrightarrow> a < 2 powi e \<Longrightarrow> floor_log2 a < e"
proof (rule ccontr)
  assume a: "0 < a" "a < 2 powi e" and "\<not> floor_log2 a < e"
  then have "(2::rat) powi e \<le> 2 powi floor_log2 a"
    by (intro power_int_increasing) simp_all
  with floor_log2_bounds [OF a(1)] a(2) show False by simp
qed

lemma floor_log2_ge: "0 < a \<Longrightarrow> 2 powi e \<le> a \<Longrightarrow> e \<le> floor_log2 a"
proof (rule ccontr)
  assume a: "0 < a" "2 powi e \<le> a" and "\<not> e \<le> floor_log2 a"
  then have "(2::rat) powi (floor_log2 a + 1) \<le> 2 powi e"
    by (intro power_int_increasing) simp_all
  with floor_log2_bounds [OF a(1)] a(2) show False by simp
qed

lemma ulp_exp_le_971: "0 < a \<Longrightarrow> a < 2 ^ 1024 \<Longrightarrow> ulp_exp a \<le> 971"
  using floor_log2_less [of a 1024] by (simp add: ulp_exp_def)

lemma scaled_less_two_53:
  assumes "0 < a"
  shows "a / 2 powi ulp_exp a < 2 ^ 53"
proof -
  have "floor_log2 a + 1 \<le> ulp_exp a + 53" by (simp add: ulp_exp_def)
  then have "(2::rat) powi (floor_log2 a + 1) \<le> 2 powi (ulp_exp a + 53)"
    by (intro power_int_increasing) simp_all
  with floor_log2_bounds [OF assms] have "a < 2 powi (ulp_exp a + 53)" by simp
  also have "\<dots> = 2 powi ulp_exp a * 2 ^ 53" by (simp add: power_int_add)
  finally show ?thesis by (simp add: field_simps)
qed

theorem round_double_exact:
  assumes "is_double q"
  shows "round_double q = Finite q"
proof (cases "q = 0")
  case True
  then show ?thesis by (simp add: round_double_def)
next
  case False
  define a where "a = \<bar>q\<bar>"
  define p where "p = ulp_exp a"
  define m where "m = \<lfloor>a / 2 powi p\<rfloor>"
  from False have a: "0 < a" by (simp add: a_def)
  from assms False have x: "a / 2 powi p = of_int m" and lt: "a < 2 ^ 1024"
    by (simp_all add: is_double_def Let_def a_def p_def m_def)
  from x have v: "of_int m * 2 powi p = a" by (simp add: field_simps)
  from a x have m0: "m \<noteq> 0" by auto
  from scaled_less_two_53 [OF a] x have "rat_of_int m < 2 ^ 53"
    by (simp add: p_def)
  then have m53: "m < 2 ^ 53" by simp
  have p971: "p \<le> 971" unfolding p_def by (rule ulp_exp_le_971 [OF a lt])
  have r: "round_half_even (a / 2 powi p) = m" by (simp add: x)
  have s: "(if 0 < q then of_int m * 2 powi p else - (of_int m * 2 powi p)) = q"
    using v by (simp add: a_def)
  from m0 m53 p971 False show ?thesis
    unfolding round_double_def Let_def a_def [symmetric] p_def [symmetric] r s by simp
qed


lemma is_double_of_int:
  assumes "\<bar>n\<bar> \<le> 2 ^ 53"
  shows "is_double (of_int n)"
proof (cases "n = 0")
  case True
  then show ?thesis by (simp add: is_double_def)
next
  case False
  define a :: rat where "a = of_int \<bar>n\<bar>"
  define e where "e = floor_log2 a"
  from False have a1: "1 \<le> a" by (simp add: a_def)
  then have a0: "0 < a" by simp
  from assms have a53: "a \<le> 2 ^ 53"
    unfolding a_def by (metis of_int_le_iff of_int_numeral of_int_power)
  have e0: "0 \<le> e" unfolding e_def using floor_log2_ge [OF a0, of 0] a1 by simp
  have e54: "e < 54" unfolding e_def using floor_log2_less [OF a0, of 54] a53 by simp
  have p: "ulp_exp a = e - 52" using e0 by (simp add: ulp_exp_def e_def)
  have "\<exists>k. a / 2 powi (e - 52) = of_int k"
  proof (cases "e \<le> 52")
    case True
    then have "a / 2 powi (e - 52) = a * 2 ^ nat (52 - e)"
      by (simp add: power_int_def field_simps)
    also have "\<dots> = of_int (\<bar>n\<bar> * 2 ^ nat (52 - e))" by (simp add: a_def)
    finally show ?thesis by blast
  next
    case False
    with e54 have e: "e = 53" by simp
    from floor_log2_bounds [OF a0] have "2 ^ 53 \<le> a" by (simp add: e_def [symmetric] e)
    with a53 have "a = 2 ^ 53" by simp
    then have "a / 2 powi (e - 52) = of_int (2 ^ 52)" by (simp add: e)
    then show ?thesis by blast
  qed
  then obtain k where "a / 2 powi ulp_exp a = of_int k" by (auto simp: p)
  moreover from a53 have "a < 2 ^ 1024" by simp
  ultimately show ?thesis
    by (simp add: is_double_def Let_def a_def)
qed

section \<open>Order\<close>

text \<open>
  Python compares floats with each other and with ints by their exact values; NaN is
  unordered, the two zeros are equal. \<open>float_key\<close> maps a float to a point of the
  extended rationals, a linear order, and is undefined on NaN only.
\<close>

datatype xrat = XNegInf | XFin rat | XPosInf

instantiation xrat :: linorder
begin

definition less_eq_xrat :: "xrat \<Rightarrow> xrat \<Rightarrow> bool" where
  "less_eq_xrat x y = (case x of XNegInf \<Rightarrow> True
     | XFin a \<Rightarrow> (case y of XNegInf \<Rightarrow> False | XFin b \<Rightarrow> a \<le> b | XPosInf \<Rightarrow> True)
     | XPosInf \<Rightarrow> y = XPosInf)"

definition less_xrat :: "xrat \<Rightarrow> xrat \<Rightarrow> bool" where
  "less_xrat x y = (x \<le> y \<and> \<not> y \<le> (x::xrat))"

instance
  by standard (auto simp: less_eq_xrat_def less_xrat_def split: xrat.splits)

end

fun float_key :: "pyfloat \<Rightarrow> xrat option" where
  "float_key (Finite q) = Some (XFin q)"
| "float_key NegZero = Some (XFin 0)"
| "float_key PosInf = Some XPosInf"
| "float_key NegInf = Some XNegInf"
| "float_key NaN = None"

definition key_le :: "xrat option \<Rightarrow> xrat option \<Rightarrow> bool" where
  "key_le a b = (case a of None \<Rightarrow> False
     | Some x \<Rightarrow> (case b of None \<Rightarrow> False | Some y \<Rightarrow> x \<le> y))"

definition float_le :: "pyfloat \<Rightarrow> pyfloat \<Rightarrow> bool" where
  "float_le a b = key_le (float_key a) (float_key b)"

definition float_is_zero :: "pyfloat \<Rightarrow> bool" where
  "float_is_zero a = (float_key a = Some (XFin 0))"

definition float_negative :: "pyfloat \<Rightarrow> bool" where
  "float_negative a = (case a of Finite q \<Rightarrow> q < 0 | NegZero \<Rightarrow> True | NegInf \<Rightarrow> True
     | _ \<Rightarrow> False)"

lemma key_le_simps [simp]:
  "key_le None k = False" "key_le k None = False" "key_le (Some x) (Some y) = (x \<le> y)"
  by (simp_all add: key_le_def split: option.splits)

lemma xrat_le_simps [simp]:
  "XNegInf \<le> y" "x \<le> XPosInf" "XFin a \<le> XFin b \<longleftrightarrow> a \<le> b"
  "XFin a \<le> XNegInf \<longleftrightarrow> False" "XPosInf \<le> XFin b \<longleftrightarrow> False" "XPosInf \<le> XNegInf \<longleftrightarrow> False"
  by (simp_all add: less_eq_xrat_def split: xrat.splits)

lemma xrat_less_simps [simp]:
  "XFin a < XFin b \<longleftrightarrow> a < b" "XNegInf < XFin b" "XFin a < XPosInf" "XNegInf < XPosInf"
  "x < XNegInf \<longleftrightarrow> False" "XPosInf < y \<longleftrightarrow> False"
  by (auto simp: less_xrat_def less_eq_xrat_def split: xrat.splits)

section \<open>Conversion and arithmetic\<close>

definition float_of_int :: "int \<Rightarrow> pyfloat result" where
  "float_of_int n = (case round_double (of_int n) of
       PosInf \<Rightarrow> Inl OverflowError
     | NegInf \<Rightarrow> Inl OverflowError
     | f \<Rightarrow> Inr f)"

fun float_add :: "pyfloat \<Rightarrow> pyfloat \<Rightarrow> pyfloat" where
  "float_add NaN _ = NaN"
| "float_add _ NaN = NaN"
| "float_add PosInf NegInf = NaN"
| "float_add NegInf PosInf = NaN"
| "float_add PosInf _ = PosInf"
| "float_add _ PosInf = PosInf"
| "float_add NegInf _ = NegInf"
| "float_add _ NegInf = NegInf"
| "float_add NegZero b = b"
| "float_add a NegZero = a"
| "float_add (Finite a) (Finite b) = round_double (a + b)"

definition signed_zero :: "bool \<Rightarrow> pyfloat" where
  "signed_zero neg = (if neg then NegZero else Finite 0)"

definition signed_inf :: "bool \<Rightarrow> pyfloat" where
  "signed_inf neg = (if neg then NegInf else PosInf)"

definition float_div :: "pyfloat \<Rightarrow> pyfloat \<Rightarrow> pyfloat result" where
  "float_div a b =
     (if float_is_zero b then Inl ZeroDivisionError
      else if a = NaN \<or> b = NaN then Inr NaN
      else let neg = (float_negative a \<noteq> float_negative b) in
        case (a, b) of
          (Finite x, Finite y) \<Rightarrow>
             Inr (if x = 0 then signed_zero neg else round_double (x / y))
        | (NegZero, Finite y) \<Rightarrow> Inr (signed_zero neg)
        | (Finite x, _) \<Rightarrow> Inr (signed_zero neg)
        | (NegZero, _) \<Rightarrow> Inr (signed_zero neg)
        | (_, Finite y) \<Rightarrow> Inr (signed_inf neg)
        | _ \<Rightarrow> Inr NaN)"

definition int_true_div :: "int \<Rightarrow> int \<Rightarrow> pyfloat result" where
  "int_true_div a b =
     (if b = 0 then Inl ZeroDivisionError
      else if a = 0 then Inr (signed_zero (b < 0))
      else case round_double (of_int a / of_int b) of
             PosInf \<Rightarrow> Inl OverflowError
           | NegInf \<Rightarrow> Inl OverflowError
           | f \<Rightarrow> Inr f)"

lemma float_of_int_exact: "\<bar>n\<bar> \<le> 2 ^ 53 \<Longrightarrow> float_of_int n = Inr (Finite (of_int n))"
  by (simp add: float_of_int_def round_double_exact is_double_of_int)

lemmas float_eval = rd_eval float_of_int_def float_div_def int_true_div_def float_le_def
  float_is_zero_def float_negative_def signed_zero_def signed_inf_def

end
