(* ===== verification/Rounding.thy ===== *)
theory Rounding
  imports PyFloat
begin

text \<open>
  Properties of \<open>round_double\<close> that the components rely on when they compare a
  rounded value with a threshold: rounding is monotone, keeps the sign, and returns a
  representable value within half a unit in the last place of its argument.
\<close>

section \<open>Integers up to \<open>2 ^ 53\<close>\<close>

lemma round_double_of_int: "\<bar>n\<bar> \<le> 2 ^ 53 \<Longrightarrow> round_double (of_int n) = Finite (of_int n)"
  by (simp add: round_double_exact is_double_of_int)

lemma round_double_of_nat:
  assumes "n \<le> 2 ^ 53"
  shows "round_double (of_nat n) = Finite (of_nat n)"
proof -
  from assms have "int n \<le> 2 ^ 53" by (metis of_nat_le_iff of_nat_numeral of_nat_power)
  then have "\<bar>int n\<bar> \<le> 2 ^ 53" by simp
  from round_double_of_int [OF this] show ?thesis by simp
qed

section \<open>The magnitude of a rounded value\<close>

definition rd_mag :: "rat \<Rightarrow> xrat" where
  "rd_mag a = (let p = ulp_exp a; m = round_half_even (a / 2 powi p)
     in if 971 < p \<or> (p = 971 \<and> m = 2 ^ 53) then XPosInf else XFin (of_int m * 2 powi p))"

fun xneg :: "xrat \<Rightarrow> xrat" where
  "xneg XNegInf = XPosInf"
| "xneg (XFin a) = XFin (- a)"
| "xneg XPosInf = XNegInf"

lemma xneg_mono: "x \<le> y \<Longrightarrow> xneg y \<le> xneg x"
  by (cases x; cases y) simp_all

lemma round_double_0 [simp]: "round_double 0 = Finite 0"
  by (simp add: round_double_def)

lemma round_double_pos:
  assumes "0 < q"
  shows "float_key (round_double q) = Some (rd_mag q)"
proof -
  define p m where "p = ulp_exp q" and "m = round_half_even (q / 2 powi p)"
  from assms show ?thesis
    unfolding round_double_def rd_mag_def Let_def abs_of_pos [OF assms]
      p_def [symmetric] m_def [symmetric]
    by auto
qed

lemma round_double_neg:
  assumes "q < 0"
  shows "float_key (round_double q) = Some (xneg (rd_mag (- q)))"
proof -
  define p m where "p = ulp_exp (- q)" and "m = round_half_even (- q / 2 powi p)"
  from assms show ?thesis
    unfolding round_double_def rd_mag_def Let_def abs_of_neg [OF assms]
      p_def [symmetric] m_def [symmetric]
    by auto
qed

lemma floor_log2_mono: "0 < a \<Longrightarrow> a \<le> b \<Longrightarrow> floor_log2 a \<le> floor_log2 b"
  using floor_log2_bounds [of a] floor_log2_ge [of b "floor_log2 a"] by simp

lemma ulp_exp_mono: "0 < a \<Longrightarrow> a \<le> b \<Longrightarrow> ulp_exp a \<le> ulp_exp b"
  using floor_log2_mono [of a b] by (simp add: ulp_exp_def)

lemma scaled_nonneg: "0 < a \<Longrightarrow> 0 \<le> a / 2 powi p" for a :: rat
  by simp

lemma of_int_le_power2: "m \<le> 2 ^ n \<Longrightarrow> rat_of_int m \<le> 2 ^ n"
  by (metis of_int_le_iff of_int_numeral of_int_power)

lemma power2_le_of_int: "2 ^ n \<le> m \<Longrightarrow> 2 ^ n \<le> rat_of_int m"
  by (metis of_int_le_iff of_int_numeral of_int_power)

lemma round_half_even_numeral [simp]: "round_half_even (numeral k) = numeral k"
  using round_half_even_of_int [of "numeral k"] by simp

lemma round_half_even_power2 [simp]: "round_half_even (2 ^ n) = 2 ^ n"
  using round_half_even_of_int [of "2 ^ n"] by simp

lemma mantissa_le: "0 < a \<Longrightarrow> round_half_even (a / 2 powi ulp_exp a) \<le> 2 ^ 53"
  using round_half_even_mono [of "a / 2 powi ulp_exp a" "2 ^ 53"]
    scaled_less_two_53 [of a] by simp

lemma mantissa_nonneg: "0 < a \<Longrightarrow> 0 \<le> round_half_even (a / 2 powi p)"
  by (intro round_half_even_nonneg scaled_nonneg)

lemma mantissa_normal:
  assumes "0 < a" "- 1074 < ulp_exp a"
  shows "2 ^ 52 \<le> round_half_even (a / 2 powi ulp_exp a)"
proof -
  from assms(2) have p: "floor_log2 a = ulp_exp a + 52" by (simp add: ulp_exp_def)
  from floor_log2_bounds [OF assms(1)] have "2 powi (ulp_exp a + 52) \<le> a" by (simp add: p)
  then have "2 powi ulp_exp a * 2 ^ 52 \<le> a" by (simp add: power_int_add)
  then have "2 ^ 52 \<le> a / 2 powi ulp_exp a" by (simp add: field_simps)
  from round_half_even_mono [OF this] show ?thesis by simp
qed

lemma rd_mag_nonneg: "0 < a \<Longrightarrow> XFin 0 \<le> rd_mag a"
  using mantissa_nonneg [of a "ulp_exp a"] by (simp add: rd_mag_def Let_def)

text \<open>The value of the rounded mantissa at its exponent is monotone, before overflow is
  looked at: within one binade by the monotonicity of the rounding, across binades
  because a mantissa is at most \<open>2 ^ 53\<close> and a normal one at least \<open>2 ^ 52\<close>.\<close>

lemma mantissa_value_mono:
  assumes a: "0 < a" and ab: "a \<le> b"
  shows "rat_of_int (round_half_even (a / 2 powi ulp_exp a)) * 2 powi ulp_exp a
       \<le> of_int (round_half_even (b / 2 powi ulp_exp b)) * 2 powi ulp_exp b"
    (is "rat_of_int ?ma * 2 powi ?pa \<le> of_int ?mb * 2 powi ?pb")
proof (cases "?pa = ?pb")
  case True
  from ab have "a / 2 powi ?pa \<le> b / 2 powi ?pb" by (simp add: True divide_right_mono)
  from round_half_even_mono [OF this] show ?thesis by (simp add: True mult_right_mono)
next
  case False
  from a ab have b: "0 < b" by simp
  from False ulp_exp_mono [OF a ab] have lt: "?pa + 1 \<le> ?pb" by simp
  have "- 1074 \<le> ?pa" by (simp add: ulp_exp_def)
  with lt have "- 1074 < ?pb" by simp
  from mantissa_normal [OF b this] have m52: "2 ^ 52 \<le> ?mb" .
  have "rat_of_int ?ma * 2 powi ?pa \<le> 2 ^ 53 * 2 powi ?pa"
    using of_int_le_power2 [OF mantissa_le [OF a]] by (intro mult_right_mono) simp_all
  also have "\<dots> = 2 ^ 52 * 2 powi (?pa + 1)" by (simp add: power_int_add)
  also have "\<dots> \<le> 2 ^ 52 * 2 powi ?pb"
    using lt by (intro mult_left_mono power_int_increasing) simp_all
  also have "\<dots> \<le> of_int ?mb * 2 powi ?pb"
    using power2_le_of_int [OF m52] by (intro mult_right_mono) simp_all
  finally show ?thesis .
qed

lemma rd_mag_mono:
  assumes a: "0 < a" and ab: "a \<le> b"
  shows "rd_mag a \<le> rd_mag b"
proof -
  define pa ma pb mb where "pa = ulp_exp a" and "ma = round_half_even (a / 2 powi pa)"
    and "pb = ulp_exp b" and "mb = round_half_even (b / 2 powi pb)"
  from a ab have b: "0 < b" by simp
  have p: "pa \<le> pb" unfolding pa_def pb_def by (rule ulp_exp_mono [OF a ab])
  have mb: "mb \<le> 2 ^ 53" unfolding mb_def pb_def by (rule mantissa_le [OF b])
  have val: "rat_of_int ma * 2 powi pa \<le> of_int mb * 2 powi pb"
    unfolding ma_def mb_def pa_def pb_def by (rule mantissa_value_mono [OF a ab])
  define oa ob where "oa \<longleftrightarrow> 971 < pa \<or> (pa = 971 \<and> ma = 2 ^ 53)"
    and "ob \<longleftrightarrow> 971 < pb \<or> (pb = 971 \<and> mb = 2 ^ 53)"
  have ovf: "ob" if "oa"
  proof (cases "971 < pb")
    case False
    with p that have h: "pa = 971" "ma = 2 ^ 53" "pb = 971" by (auto simp: oa_def)
    with val have "rat_of_int ma \<le> of_int mb" by simp
    with h mb show ?thesis by (simp add: ob_def)
  qed (simp add: ob_def)
  have "rd_mag a = (if oa then XPosInf else XFin (of_int ma * 2 powi pa))"
    "rd_mag b = (if ob then XPosInf else XFin (of_int mb * 2 powi pb))"
    by (simp_all only: rd_mag_def Let_def pa_def ma_def pb_def mb_def oa_def ob_def)
  with val ovf show ?thesis by (cases ob) auto
qed

lemma xneg_rd_mag_nonpos: "q < 0 \<Longrightarrow> xneg (rd_mag (- q)) \<le> XFin 0"
  using xneg_mono [OF rd_mag_nonneg [of "- q"]] by simp

section \<open>Monotonicity\<close>

lemma round_double_key_mono:
  assumes "q \<le> r"
  shows "the (float_key (round_double q)) \<le> the (float_key (round_double r))"
proof -
  consider "q = 0" "r = 0" | "q = 0" "0 < r" | "q < 0" "r = 0" | "q < 0" "0 < r"
    | "0 < q" "0 < r" | "q < 0" "r < 0"
    using assms by linarith
  then show ?thesis
  proof cases
    case 5
    with assms show ?thesis by (simp add: round_double_pos rd_mag_mono)
  next
    case 6
    with assms show ?thesis by (simp add: round_double_neg rd_mag_mono xneg_mono)
  next
    case 4
    then have "xneg (rd_mag (- q)) \<le> XFin 0" "XFin 0 \<le> rd_mag r"
      by (simp_all add: rd_mag_nonneg xneg_rd_mag_nonpos)
    with 4 show ?thesis by (simp add: round_double_pos round_double_neg)
  next
    case 2
    then show ?thesis by (simp add: round_double_pos rd_mag_nonneg)
  next
    case 3
    then show ?thesis by (simp add: round_double_neg xneg_rd_mag_nonpos)
  qed simp
qed

lemma round_double_not_NaN [simp]: "round_double q \<noteq> NaN"
  by (simp add: round_double_def Let_def)

lemma float_key_round_double: "\<exists>k. float_key (round_double q) = Some k"
  by (cases "round_double q") simp_all

lemma round_double_mono: "q \<le> r \<Longrightarrow> float_le (round_double q) (round_double r)"
  using round_double_key_mono [of q r] float_key_round_double [of q] float_key_round_double [of r]
  by (auto simp: float_le_def)

section \<open>Comparison with a representable threshold\<close>

lemma round_double_ge:
  assumes "is_double c" "c \<le> q"
  shows "float_le (Finite c) (round_double q)"
  using round_double_mono [OF assms(2)] by (simp add: round_double_exact [OF assms(1)])

lemma round_double_le:
  assumes "is_double c" "q \<le> c"
  shows "float_le (round_double q) (Finite c)"
  using round_double_mono [OF assms(2)] by (simp add: round_double_exact [OF assms(1)])

lemma round_double_nonneg: "0 \<le> q \<Longrightarrow> float_le (Finite 0) (round_double q)"
  using round_double_mono [of 0 q] by simp

lemma round_double_nonpos: "q \<le> 0 \<Longrightarrow> float_le (round_double q) (Finite 0)"
  using round_double_mono [of q 0] by simp

section \<open>The result is representable\<close>

lemma is_double_minus [simp]: "is_double (- q) = is_double q"
  by (simp add: is_double_def)

lemma is_double_mantissa:
  assumes m: "0 < m" "m < 2 ^ 53" and p: "- 1074 \<le> p" "p \<le> 971"
    and n: "- 1074 < p \<Longrightarrow> 2 ^ 52 \<le> m"
  shows "is_double (of_int m * 2 powi p)"
proof -
  define v :: rat where "v = of_int m * 2 powi p"
  from m have v0: "0 < v" by (simp add: v_def)
  have "rat_of_int m < 2 ^ 53"
    using m(2) by (metis of_int_less_iff of_int_numeral of_int_power)
  then have "v < 2 ^ 53 * 2 powi p" by (simp add: v_def)
  then have hi: "v < 2 powi (p + 53)" by (simp add: power_int_add)
  have u: "ulp_exp v = p"
  proof (cases "- 1074 < p")
    case True
    from power2_le_of_int [OF n [OF True]] have "2 ^ 52 * 2 powi p \<le> v"
      by (simp add: v_def)
    then have "2 powi (p + 52) \<le> v" by (simp add: power_int_add)
    with hi have "floor_log2 v = p + 52"
      by (intro floor_log2_unique [OF v0]) (simp_all add: add.commute add.assoc)
    with True show ?thesis by (simp add: ulp_exp_def)
  next
    case False
    from floor_log2_less [OF v0 hi] False p(1) show ?thesis by (simp add: ulp_exp_def)
  qed
  from p(2) have "(2::rat) powi (p + 53) \<le> 2 powi 1024"
    by (intro power_int_increasing) simp_all
  with hi have "v < 2 ^ 1024" by simp
  moreover have "v / 2 powi p = of_int m" by (simp add: v_def)
  ultimately show ?thesis
    using v0 unfolding v_def [symmetric] is_double_def Let_def abs_of_pos [OF v0] u by simp
qed

lemma is_double_power2:
  assumes "- 1074 \<le> e" "e < 1024"
  shows "is_double (2 powi e)"
proof -
  have fl: "floor_log2 (2 powi e) = e"
    by (intro floor_log2_unique) (simp_all add: power_int_add)
  have lt: "(2::rat) powi e < 2 ^ 1024"
    using power_int_strict_increasing [of e 1024 "2::rat"] assms(2) by simp
  define u where "u = ulp_exp (2 powi e)"
  have d: "(2::rat) powi e / 2 powi u = 2 powi (e - u)" by (simp add: power_int_diff)
  have "\<exists>k. (2::rat) powi e / 2 powi u = of_int k"
  proof (cases "e - 52 \<le> - 1074")
    case True
    then have "e - u = int (nat (e + 1074))"
      using assms(1) by (simp add: u_def ulp_exp_def fl)
    then have "(2::rat) powi (e - u) = of_int (2 ^ nat (e + 1074))" 
      by (simp only: power_int_of_nat of_int_power of_int_numeral)
    with d show ?thesis by metis
  next
    case False
    then have "e - u = 52" by (simp add: u_def ulp_exp_def fl)
    then have "(2::rat) powi (e - u) = of_int (2 ^ 52)" by simp
    with d show ?thesis by metis
  qed
  with lt show ?thesis by (auto simp: is_double_def Let_def u_def)
qed

lemma wf_round_double: "wf_float (round_double q)"
proof (cases "q = 0")
  case False
  define a where "a = \<bar>q\<bar>"
  define p m where "p = ulp_exp a" and "m = round_half_even (a / 2 powi p)"
  from False have a: "0 < a" by (simp add: a_def)
  have p0: "- 1074 \<le> p" by (simp add: p_def ulp_exp_def)
  have m0: "0 \<le> m" "m \<le> 2 ^ 53"
    using mantissa_nonneg [OF a, of p] mantissa_le [OF a] by (simp_all add: m_def p_def)
  have rd: "round_double q = (if 971 < p \<or> (p = 971 \<and> m = 2 ^ 53)
        then (if 0 < q then PosInf else NegInf)
      else if m = 0 then (if 0 < q then Finite 0 else NegZero)
      else Finite (if 0 < q then of_int m * 2 powi p else - (of_int m * 2 powi p)))"
    using False by (simp only: round_double_def Let_def a_def p_def m_def if_False)
  have "is_double (of_int m * 2 powi p)"
    if h: "\<not> (971 < p \<or> (p = 971 \<and> m = 2 ^ 53))" "m \<noteq> 0"
  proof (cases "m = 2 ^ 53")
    case True
    with h have "p + 53 < 1024" by auto
    with p0 have "is_double (2 powi (p + 53))" by (intro is_double_power2) simp_all
    with True show ?thesis by (simp add: power_int_add mult.commute)
  next
    case False
    with m0 h have "0 < m" "m < 2 ^ 53" "p \<le> 971" by auto
    moreover have "2 ^ 52 \<le> m" if "- 1074 < p"
      using mantissa_normal [OF a] that by (simp add: m_def p_def)
    ultimately show ?thesis using p0 by (intro is_double_mantissa)
  qed
  then show ?thesis unfolding rd by (auto simp: is_double_def)
qed (simp add: is_double_def)

section \<open>Division\<close>

text \<open>A float that is a number: not NaN and not an infinity.\<close>

definition float_finite :: "pyfloat \<Rightarrow> bool" where
  "float_finite f = (case float_key f of Some (XFin v) \<Rightarrow> True | _ \<Rightarrow> False)"

lemma float_finite_simps [simp]:
  "float_finite (Finite v)" "float_finite NegZero" "\<not> float_finite PosInf"
  "\<not> float_finite NegInf" "\<not> float_finite NaN"
  by (simp_all add: float_finite_def)

lemma float_finite_between:
  "float_le (Finite l) f \<Longrightarrow> float_le f (Finite u) \<Longrightarrow> float_finite f"
  by (cases f) (simp_all add: float_le_def)

lemma round_double_finite:
  assumes "\<bar>q\<bar> \<le> 2 ^ 1023"
  shows "float_finite (round_double q)"
proof -
  have d: "is_double (2 ^ 1023)" using is_double_power2 [of 1023] by simp
  then have "is_double (- (2 ^ 1023))" by simp
  from round_double_ge [OF this, of q] round_double_le [OF d, of q] assms
  show ?thesis by (auto intro: float_finite_between simp: abs_le_iff)
qed

lemma float_le_refl_iff [simp]: "float_le f f \<longleftrightarrow> f \<noteq> NaN"
  by (cases f) (simp_all add: float_le_def)

lemma float_le_trans: "float_le a b \<Longrightarrow> float_le b c \<Longrightarrow> float_le a c"
  by (cases "float_key a"; cases "float_key b"; cases "float_key c")
    (auto simp: float_le_def)

lemma int_true_div_pos:
  "0 < b \<Longrightarrow> int_true_div a b = (case round_double (of_int a / of_int b) of
       PosInf \<Rightarrow> Inl OverflowError | NegInf \<Rightarrow> Inl OverflowError | f \<Rightarrow> Inr f)"
  by (simp add: int_true_div_def signed_zero_def)

lemma int_true_div_finite:
  assumes "0 < b" "\<bar>a\<bar> \<le> 2 ^ 1023"
  shows "\<exists>f. int_true_div a b = Inr f \<and> float_finite f \<and>
     float_key f = float_key (round_double (of_int a / of_int b))"
proof -
  from assms(1) have "1 \<le> rat_of_int b" by simp
  from mult_right_mono [OF this, of "\<bar>of_int a\<bar>"]
  have "\<bar>rat_of_int a / of_int b\<bar> \<le> \<bar>of_int a\<bar>"
    using assms(1) by (simp add: field_simps)
  also have "\<dots> \<le> 2 ^ 1023"
    using assms(2) by (metis of_int_abs of_int_le_iff of_int_numeral of_int_power)
  finally have "float_finite (round_double (of_int a / of_int b))" by (rule round_double_finite)
  then show ?thesis
    by (cases "round_double (of_int a / of_int b)") (simp_all add: int_true_div_pos assms(1))
qed

lemma float_div_finite:
  assumes "0 < y" "float_key a = Some (XFin x)"
  shows "\<exists>f. float_div a (Finite y) = Inr f \<and> float_key f = float_key (round_double (x / y))"
  using assms
  by (cases a) (auto simp: float_div_def float_is_zero_def float_negative_def signed_zero_def)

end
