(* ===== verification/FloatText.thy ===== *)
theory FloatText
  imports Rounding
begin

text \<open>
  The text side of Python's \<open>float\<close>: \<open>float(s)\<close> for a string \<open>s\<close>, as
  CPython's \<open>float_from_string\<close> reads it. A Python \<open>str\<close> is modelled as a
  \<open>string\<close> holding its UTF-8 bytes, so ASCII characters are single bytes and every
  other code point is a sequence of bytes from \<open>0x80\<close> up.

  \<open>float(s)\<close> drops underscores that stand between two digits, strips whitespace at
  both ends, and reads what is left as a decimal literal (sign, digits, fraction,
  exponent), or as one of \<open>inf\<close>, \<open>infinity\<close>, \<open>nan\<close> in any case with an optional
  sign. The decimal value is rounded once, by \<open>round_double\<close>. Anything else raises
  \<open>ValueError\<close>.

  Bound of the model: CPython also accepts decimal digits outside ASCII (for example
  Arabic-Indic digits); the model reads ASCII digits only, so a string with such digits
  is a \<open>ValueError\<close> here.
\<close>

section \<open>Characters\<close>

definition is_digit :: "char \<Rightarrow> bool" where
  "is_digit c = (48 \<le> (of_char c :: nat) \<and> (of_char c :: nat) \<le> 57)"

definition digit_val :: "char \<Rightarrow> nat" where
  "digit_val c = of_char c - 48"

definition to_lower :: "char \<Rightarrow> char" where
  "to_lower c = (case map_of (zip ''ABCDEFGHIJKLMNOPQRSTUVWXYZ'' ''abcdefghijklmnopqrstuvwxyz'') c
                 of None \<Rightarrow> c | Some l \<Rightarrow> l)"

definition digits_val :: "string \<Rightarrow> nat" where
  "digits_val ds = foldl (\<lambda>a c. 10 * a + digit_val c) 0 ds"

text \<open>
  The code points Python counts as whitespace (\<open>str.isspace\<close>), each as its UTF-8
  bytes: U+0009 to U+000D, U+001C to U+001F, U+0020, U+0085, U+00A0, U+1680,
  U+2000 to U+200A, U+2028, U+2029, U+202F, U+205F, U+3000.
\<close>

definition ws_seqs :: "string list" where
  "ws_seqs =
     [[CHR 0x09], [CHR 0x0A], [CHR 0x0B], [CHR 0x0C], [CHR 0x0D],
      [CHR 0x1C], [CHR 0x1D], [CHR 0x1E], [CHR 0x1F], [CHR 0x20],
      [CHR 0xC2, CHR 0x85], [CHR 0xC2, CHR 0xA0], [CHR 0xE1, CHR 0x9A, CHR 0x80],
      [CHR 0xE2, CHR 0x80, CHR 0x80], [CHR 0xE2, CHR 0x80, CHR 0x81],
      [CHR 0xE2, CHR 0x80, CHR 0x82], [CHR 0xE2, CHR 0x80, CHR 0x83],
      [CHR 0xE2, CHR 0x80, CHR 0x84], [CHR 0xE2, CHR 0x80, CHR 0x85],
      [CHR 0xE2, CHR 0x80, CHR 0x86], [CHR 0xE2, CHR 0x80, CHR 0x87],
      [CHR 0xE2, CHR 0x80, CHR 0x88], [CHR 0xE2, CHR 0x80, CHR 0x89],
      [CHR 0xE2, CHR 0x80, CHR 0x8A], [CHR 0xE2, CHR 0x80, CHR 0xA8],
      [CHR 0xE2, CHR 0x80, CHR 0xA9], [CHR 0xE2, CHR 0x80, CHR 0xAF],
      [CHR 0xE2, CHR 0x81, CHR 0x9F], [CHR 0xE3, CHR 0x80, CHR 0x80]]"

fun strip_prefix_of :: "string list \<Rightarrow> string \<Rightarrow> string option" where
  "strip_prefix_of [] s = None"
| "strip_prefix_of (p # ps) s =
     (if p \<noteq> [] \<and> take (length p) s = p then Some (drop (length p) s)
      else strip_prefix_of ps s)"

lemma strip_prefix_of_shorter: "strip_prefix_of ps s = Some r \<Longrightarrow> length r < length s"
proof (induction ps)
  case Nil
  then show ?case by simp
next
  case (Cons p ps)
  show ?case
  proof (cases "p \<noteq> [] \<and> take (length p) s = p")
    case True
    then have "s \<noteq> []" by auto
    with True Cons.prems show ?thesis by auto
  next
    case False
    with Cons show ?thesis by auto
  qed
qed

function strip_left :: "string list \<Rightarrow> string \<Rightarrow> string" where
  "strip_left tbl s = (case strip_prefix_of tbl s of None \<Rightarrow> s | Some r \<Rightarrow> strip_left tbl r)"
  by pat_completeness auto
termination
  by (relation "measure (\<lambda>(tbl, s). length s)") (auto dest: strip_prefix_of_shorter)

declare strip_left.simps [simp del]

lemma strip_left_unfold:
  "strip_left tbl s = (if strip_prefix_of tbl s = None then s
                       else strip_left tbl (the (strip_prefix_of tbl s)))"
  by (subst strip_left.simps) (simp split: option.split)

definition lstrip :: "string \<Rightarrow> string" where
  "lstrip s = strip_left ws_seqs s"

definition rstrip :: "string \<Rightarrow> string" where
  "rstrip s = rev (strip_left (map rev ws_seqs) (rev s))"

definition strip :: "string \<Rightarrow> string" where
  "strip s = rstrip (lstrip s)"

section \<open>The literal grammar\<close>

text \<open>
  \<open>_Py_string_to_number_with_underscores\<close>: an underscore is accepted only between
  two digits and is dropped; \<open>prev\<close> is the character before, NUL at the start.
\<close>

fun drop_underscores :: "char \<Rightarrow> string \<Rightarrow> string option" where
  "drop_underscores prev [] = (if prev = CHR ''_'' then None else Some [])"
| "drop_underscores prev (c # s) =
     (if c = CHR ''_'' then (if is_digit prev then drop_underscores c s else None)
      else if prev = CHR ''_'' \<and> \<not> is_digit c then None
      else map_option ((#) c) (drop_underscores c s))"

definition remove_underscores :: "string \<Rightarrow> string option" where
  "remove_underscores s = (if CHR ''_'' \<in> set s then drop_underscores (CHR 0x00) s else Some s)"

definition span_digits :: "string \<Rightarrow> string \<times> string" where
  "span_digits s = (takeWhile is_digit s, dropWhile is_digit s)"

definition take_sign :: "string \<Rightarrow> bool \<times> string" where
  "take_sign s = (case s of [] \<Rightarrow> (False, [])
     | c # r \<Rightarrow> if c = CHR ''-'' then (True, r) else if c = CHR ''+'' then (False, r)
                else (False, s))"

definition parse_exponent :: "string \<Rightarrow> int option" where
  "parse_exponent s = (case s of [] \<Rightarrow> Some 0
     | c # r \<Rightarrow>
         if c = CHR ''e'' \<or> c = CHR ''E'' then
           (case take_sign r of (neg, ds) \<Rightarrow>
              if ds \<noteq> [] \<and> list_all is_digit ds
              then Some (if neg then - int (digits_val ds) else int (digits_val ds))
              else None)
         else None)"

definition parse_decimal :: "string \<Rightarrow> (nat \<times> int) option" where
  "parse_decimal s =
     (case span_digits s of (ip, r1) \<Rightarrow>
        case (case r1 of [] \<Rightarrow> ([], [])
                | c # r \<Rightarrow> if c = CHR ''.'' then span_digits r else ([], r1)) of
          (fp, r2) \<Rightarrow>
            if ip = [] \<and> fp = [] then None
            else map_option (\<lambda>e. (digits_val (ip @ fp), e - int (length fp)))
                   (parse_exponent r2))"

definition parse_special :: "string \<Rightarrow> pyfloat option" where
  "parse_special s = (case take_sign s of (neg, r) \<Rightarrow>
     let l = map to_lower r in
     if l = ''inf'' \<or> l = ''infinity'' then Some (signed_inf neg)
     else if l = ''nan'' then Some NaN
     else None)"

definition float_literal :: "string \<Rightarrow> pyfloat option" where
  "float_literal s = (case take_sign s of (neg, r) \<Rightarrow>
     (case parse_decimal r of
        Some (m, e) \<Rightarrow>
          Some (if m = 0 then signed_zero neg
                else round_double ((if neg then - 1 else 1) * of_nat m * 10 powi e))
      | None \<Rightarrow> parse_special s))"

definition float_of_str :: "string \<Rightarrow> pyfloat result" where
  "float_of_str s = (case remove_underscores s of None \<Rightarrow> Inl ValueError
     | Some t \<Rightarrow> (case float_literal (strip t) of None \<Rightarrow> Inl ValueError
                  | Some f \<Rightarrow> Inr f))"

lemmas text_eval = float_of_str_def float_literal_def parse_special_def parse_decimal_def
  parse_exponent_def take_sign_def span_digits_def remove_underscores_def strip_def
  rstrip_def lstrip_def ws_seqs_def digits_val_def to_lower_def
  digit_val_def is_digit_def strip_left_unfold

section \<open>Strings that need no stripping\<close>

definition ws_edge :: "char \<Rightarrow> bool" where
  "ws_edge c = (c \<in> set (map hd ws_seqs) \<or> c \<in> set (map last ws_seqs))"

lemma strip_prefix_of_None:
  "\<forall>p\<in>set tbl. p \<noteq> [] \<longrightarrow> hd p \<noteq> c \<Longrightarrow> strip_prefix_of tbl (c # r) = None"
proof (induction tbl)
  case (Cons p ps)
  then have "take (length p) (c # r) \<noteq> p" if "p \<noteq> []"
    using that by (cases p) auto
  with Cons show ?case by auto
qed simp

lemma strip_left_id:
  "\<forall>p\<in>set tbl. p \<noteq> [] \<longrightarrow> hd p \<noteq> c \<Longrightarrow> strip_left tbl (c # r) = c # r"
  by (subst strip_left_unfold) (simp add: strip_prefix_of_None)

lemma lstrip_id: "s \<noteq> [] \<Longrightarrow> \<not> ws_edge (hd s) \<Longrightarrow> lstrip s = s"
  by (cases s) (auto simp: lstrip_def ws_edge_def intro!: strip_left_id)

lemma rstrip_id:
  assumes "s \<noteq> []" "\<not> ws_edge (last s)"
  shows "rstrip s = s"
proof -
  from assms(1) obtain r where r: "rev s = last s # r"
    by (metis rev.simps(2) rev_rev_ident snoc_eq_iff_butlast)
  have "\<forall>p\<in>set (map rev ws_seqs). p \<noteq> [] \<longrightarrow> hd p \<noteq> last s"
    using assms(2) by (auto simp: ws_edge_def hd_rev) (metis imageI)
  from strip_left_id [OF this, of r] show ?thesis by (simp add: rstrip_def flip: r)
qed

lemma strip_id: "s \<noteq> [] \<Longrightarrow> \<not> ws_edge (hd s) \<Longrightarrow> \<not> ws_edge (last s) \<Longrightarrow> strip s = s"
  by (simp add: strip_def lstrip_id rstrip_id)

lemma is_digit_not_edge: "is_digit c \<Longrightarrow> \<not> ws_edge c"
  by (auto simp: ws_edge_def ws_seqs_def is_digit_def)

section \<open>Plain decimal strings\<close>

text \<open>
  The strings an API sends for an amount: digits, and possibly a point and more digits.
  For these the reading is the decimal value, rounded once.
\<close>

lemma span_digits_all: "list_all is_digit s \<Longrightarrow> span_digits s = (s, [])"
  by (simp add: span_digits_def list_all_iff)

lemma span_digits_point:
  "list_all is_digit ip \<Longrightarrow> span_digits (ip @ CHR ''.'' # r) = (ip, CHR ''.'' # r)"
  by (simp add: span_digits_def list_all_iff takeWhile_append2 dropWhile_append2 is_digit_def)

lemma take_sign_digit: "s \<noteq> [] \<Longrightarrow> is_digit (hd s) \<Longrightarrow> take_sign s = (False, s)"
  by (cases s) (auto simp: take_sign_def is_digit_def)

lemma no_underscore_digits:
  "list_all is_digit ip \<Longrightarrow> list_all is_digit fp \<Longrightarrow> CHR ''_'' \<notin> set (ip @ CHR ''.'' # fp)"
  by (auto simp: list_all_iff is_digit_def)

lemma float_of_str_digits:
  assumes "s \<noteq> []" "list_all is_digit s"
  shows "float_of_str s = Inr (round_double (of_nat (digits_val s)))"
proof -
  from assms have e: "is_digit (hd s)" "is_digit (last s)" by (auto simp: list_all_iff)
  from assms(2) have u: "CHR ''_'' \<notin> set s" by (auto simp: list_all_iff is_digit_def)
  have "parse_decimal s = Some (digits_val s, 0)"
    using assms by (simp add: parse_decimal_def span_digits_all parse_exponent_def)
  then show ?thesis
    using assms(1) e u
    by (simp add: float_of_str_def remove_underscores_def strip_id is_digit_not_edge
        float_literal_def take_sign_digit signed_zero_def)
qed

lemma float_of_str_decimal:
  assumes "ip \<noteq> []" "list_all is_digit ip" "list_all is_digit fp"
  shows "float_of_str (ip @ CHR ''.'' # fp) =
     Inr (round_double (of_nat (digits_val (ip @ fp)) / 10 ^ length fp))"
proof -
  let ?s = "ip @ CHR ''.'' # fp"
  from assms have h: "is_digit (hd ?s)" by (cases ip) auto
  have p: "\<not> ws_edge (CHR ''.'')" by (simp add: ws_edge_def ws_seqs_def)
  have "last ?s = CHR ''.'' \<or> is_digit (last ?s)"
    using assms(3) by (auto simp: list_all_iff)
  with p have l: "\<not> ws_edge (last ?s)"
    using is_digit_not_edge [of "last ?s"] by metis
  have "parse_decimal ?s = Some (digits_val (ip @ fp), - int (length fp))"
    using assms
    by (simp add: parse_decimal_def span_digits_point span_digits_all parse_exponent_def)
  moreover have "strip ?s = ?s" using h l by (intro strip_id) (simp_all add: is_digit_not_edge)
  ultimately show ?thesis
    using no_underscore_digits [OF assms(2,3)] h
    by (simp add: float_of_str_def remove_underscores_def float_literal_def take_sign_digit
        signed_zero_def power_int_minus field_simps)
qed

end
