(* ===== verification/PyValue.thy ===== *)
theory PyValue
  imports FloatText
begin

text \<open>
  The values the bot handles: what \<open>response.json()\<close> returns and what the code
  computes from it. A JSON object is a Python \<open>dict\<close> with string keys, kept as an
  association list in insertion order; a JSON array is a \<open>list\<close>; numbers are \<open>int\<close>
  or \<open>float\<close>. The operations are the Python operators and methods the source applies
  to such values, each with the exceptions CPython raises.
\<close>

section \<open>Values\<close>

datatype pyval =
    PNone
  | PBool bool
  | PInt int
  | PFloat pyfloat
  | PStr string
  | PList "pyval list"
  | PDict "(string \<times> pyval) list"

text \<open>Truth value testing, as \<open>if x\<close> and \<open>x or y\<close> do it.\<close>

fun truthy :: "pyval \<Rightarrow> bool" where
  "truthy PNone = False"
| "truthy (PBool b) = b"
| "truthy (PInt n) = (n \<noteq> 0)"
| "truthy (PFloat f) = (\<not> float_is_zero f)"
| "truthy (PStr s) = (s \<noteq> [])"
| "truthy (PList xs) = (xs \<noteq> [])"
| "truthy (PDict kvs) = (kvs \<noteq> [])"

definition py_or :: "pyval \<Rightarrow> pyval \<Rightarrow> pyval" where
  "py_or a b = (if truthy a then a else b)"

section \<open>Dictionaries\<close>

text \<open>\<open>d.get(k, default)\<close>: only a dict has the method.\<close>

definition lookup_or :: "(string \<times> pyval) list \<Rightarrow> string \<Rightarrow> pyval \<Rightarrow> pyval" where
  "lookup_or kvs k d = (case map_of kvs k of None \<Rightarrow> d | Some v \<Rightarrow> v)"

fun dict_get :: "pyval \<Rightarrow> string \<Rightarrow> pyval \<Rightarrow> pyval result" where
  "dict_get (PDict kvs) k d = Inr (lookup_or kvs k d)"
| "dict_get _ k d = Inl AttributeError"

text \<open>\<open>d[k]\<close> with a string key: \<open>KeyError\<close> on a dict without the key, \<open>TypeError\<close>
  on every other value (a string or list index must be an integer, the rest is not
  subscriptable).\<close>

fun subscript :: "pyval \<Rightarrow> string \<Rightarrow> pyval result" where
  "subscript (PDict kvs) k = (case map_of kvs k of None \<Rightarrow> Inl (KeyError k) | Some v \<Rightarrow> Inr v)"
| "subscript _ k = Inl TypeError"

section \<open>Numbers\<close>

text \<open>\<open>bool\<close> is a subclass of \<open>int\<close>: \<open>True\<close> counts as 1 in arithmetic.\<close>

fun as_int :: "pyval \<Rightarrow> int option" where
  "as_int (PBool b) = Some (if b then 1 else 0)"
| "as_int (PInt n) = Some n"
| "as_int _ = None"

fun py_float :: "pyval \<Rightarrow> pyfloat result" where
  "py_float (PFloat f) = Inr f"
| "py_float (PInt n) = float_of_int n"
| "py_float (PBool b) = Inr (Finite (if b then 1 else 0))"
| "py_float (PStr s) = float_of_str s"
| "py_float _ = Inl TypeError"

text \<open>
  \<open>a + b\<close>: concatenation of two strings or two lists, addition of two numbers. Two
  ints add exactly; when a float is involved the int operand is converted first
  (\<open>OverflowError\<close> when it is too large) and the sum is rounded. Every other pairing
  raises \<open>TypeError\<close>.
\<close>

datatype num = NInt int | NFloat pyfloat

fun as_num :: "pyval \<Rightarrow> num option" where
  "as_num (PBool b) = Some (NInt (if b then 1 else 0))"
| "as_num (PInt n) = Some (NInt n)"
| "as_num (PFloat f) = Some (NFloat f)"
| "as_num _ = None"

fun num_float :: "num \<Rightarrow> pyfloat result" where
  "num_float (NInt n) = float_of_int n"
| "num_float (NFloat f) = Inr f"

fun num_add :: "num \<Rightarrow> num \<Rightarrow> pyval result" where
  "num_add (NInt m) (NInt n) = Inr (PInt (m + n))"
| "num_add a b = rbind (num_float a) (\<lambda>x. rbind (num_float b) (\<lambda>y. Inr (PFloat (float_add x y))))"

definition py_add :: "pyval \<Rightarrow> pyval \<Rightarrow> pyval result" where
  "py_add x y =
     (case as_num x of
        Some a \<Rightarrow> (case as_num y of Some b \<Rightarrow> num_add a b | None \<Rightarrow> Inl TypeError)
      | None \<Rightarrow>
         (case x of
            PStr a \<Rightarrow> (case y of PStr b \<Rightarrow> Inr (PStr (a @ b)) | _ \<Rightarrow> Inl TypeError)
          | PList a \<Rightarrow> (case y of PList b \<Rightarrow> Inr (PList (a @ b)) | _ \<Rightarrow> Inl TypeError)
          | _ \<Rightarrow> Inl TypeError))"

text \<open>
  Ordering against a number: ints and floats compare by exact value, NaN compares false
  with everything, every other type raises \<open>TypeError\<close>. \<open>num_key\<close> is the point of the
  extended rationals a number stands for.
\<close>

fun num_key :: "pyval \<Rightarrow> xrat option result" where
  "num_key (PBool b) = Inr (Some (XFin (if b then 1 else 0)))"
| "num_key (PInt n) = Inr (Some (XFin (of_int n)))"
| "num_key (PFloat f) = Inr (float_key f)"
| "num_key _ = Inl TypeError"

definition int_key :: "int \<Rightarrow> xrat option" where
  "int_key c = Some (XFin (of_int c))"

definition py_ge_int :: "pyval \<Rightarrow> int \<Rightarrow> bool result" where
  "py_ge_int x c = rbind (num_key x) (\<lambda>k. Inr (key_le (int_key c) k))"

definition py_le_int :: "pyval \<Rightarrow> int \<Rightarrow> bool result" where
  "py_le_int x c = rbind (num_key x) (\<lambda>k. Inr (key_le k (int_key c)))"

definition float_ge_int :: "pyfloat \<Rightarrow> int \<Rightarrow> bool" where
  "float_ge_int f c = key_le (int_key c) (float_key f)"

definition float_le_int :: "pyfloat \<Rightarrow> int \<Rightarrow> bool" where
  "float_le_int f c = key_le (float_key f) (int_key c)"

section \<open>Iteration and equality\<close>

definition is_cont :: "char \<Rightarrow> bool" where
  "is_cont c = (128 \<le> (of_char c :: nat) \<and> (of_char c :: nat) < 192)"

function utf8_chars :: "string \<Rightarrow> string list" where
  "utf8_chars [] = []"
| "utf8_chars (c # s) = (c # takeWhile is_cont s) # utf8_chars (dropWhile is_cont s)"
  by pat_completeness auto
termination
  by (relation "measure length") (auto simp: less_Suc_eq_le length_dropWhile_le)

text \<open>\<open>for item in v\<close>: a list yields its elements, a dict its keys, a string its
  characters; nothing else is iterable.\<close>

fun py_iter :: "pyval \<Rightarrow> pyval list result" where
  "py_iter (PList xs) = Inr xs"
| "py_iter (PDict kvs) = Inr (map (\<lambda>kv. PStr (fst kv)) kvs)"
| "py_iter (PStr s) = Inr (map PStr (utf8_chars s))"
| "py_iter _ = Inl TypeError"

lemmas value_eval [py_eval] = py_or_def py_add_def lookup_or_def py_ge_int_def py_le_int_def float_ge_int_def float_le_int_def
  int_key_def is_cont_def

section \<open>Facts\<close>

lemma py_or_truthy [simp]: "truthy a \<Longrightarrow> py_or a b = a"
  by (simp add: py_or_def)

lemma py_or_falsy [simp]: "\<not> truthy a \<Longrightarrow> py_or a b = b"
  by (simp add: py_or_def)

lemma dict_get_returns_iff: "returns (dict_get v k d) \<longleftrightarrow> (\<exists>kvs. v = PDict kvs)"
  by (cases v) simp_all

lemma py_ge_int_float [simp]: "py_ge_int (PFloat f) c = Inr (float_ge_int f c)"
  by (simp add: py_ge_int_def float_ge_int_def)

lemma py_le_int_float [simp]: "py_le_int (PFloat f) c = Inr (float_le_int f c)"
  by (simp add: py_le_int_def float_le_int_def)

lemma float_ge_int_NaN [simp]: "\<not> float_ge_int NaN c"
  by (simp add: float_ge_int_def int_key_def)

lemma float_le_int_NaN [simp]: "\<not> float_le_int NaN c"
  by (simp add: float_le_int_def int_key_def)

lemma float_ge_int_Finite [simp]: "float_ge_int (Finite q) c \<longleftrightarrow> of_int c \<le> q"
  by (simp add: float_ge_int_def int_key_def)

lemma float_le_int_Finite [simp]: "float_le_int (Finite q) c \<longleftrightarrow> q \<le> of_int c"
  by (simp add: float_le_int_def int_key_def)

lemma float_le_int_PosInf [simp]: "\<not> float_le_int PosInf c"
  by (simp add: float_le_int_def int_key_def)

lemma float_ge_int_PosInf [simp]: "float_ge_int PosInf c"
  by (simp add: float_ge_int_def int_key_def)

section \<open>Types\<close>

text \<open>
  \<open>type(x)\<close>, and the type of \<open>a + b\<close> from the types of its operands: the sum of two
  ints or bools is an int, a float operand makes the sum a float, two strings and two
  lists concatenate, and nothing else is defined.
\<close>

datatype pytype = TNone | TBool | TInt | TFloat | TStr | TList | TDict

fun type_of :: "pyval \<Rightarrow> pytype" where
  "type_of PNone = TNone"
| "type_of (PBool b) = TBool"
| "type_of (PInt n) = TInt"
| "type_of (PFloat f) = TFloat"
| "type_of (PStr s) = TStr"
| "type_of (PList xs) = TList"
| "type_of (PDict kvs) = TDict"

definition integral :: "pytype \<Rightarrow> bool" where
  "integral t = (t = TBool \<or> t = TInt)"

definition numeric :: "pytype \<Rightarrow> bool" where
  "numeric t = (integral t \<or> t = TFloat)"

definition add_type :: "pytype \<Rightarrow> pytype \<Rightarrow> pytype option" where
  "add_type a b =
     (if integral a \<and> integral b then Some TInt
      else if numeric a \<and> numeric b then Some TFloat
      else if a = TStr \<and> b = TStr then Some TStr
      else if a = TList \<and> b = TList then Some TList
      else None)"

lemmas type_eval [py_eval] = integral_def numeric_def add_type_def

lemma py_add_type: "py_add x y = Inr v \<Longrightarrow> add_type (type_of x) (type_of y) = Some (type_of v)"
  by (cases x; cases y) (auto simp: py_add_def type_eval rbind_eq_Inr_iff)

lemma py_add_untyped: "add_type (type_of x) (type_of y) = None \<Longrightarrow> py_add x y = Inl TypeError"
  by (cases x; cases y) (auto simp: py_add_def type_eval)

lemma float_of_int_raises: "float_of_int n = Inl e \<Longrightarrow> e = OverflowError"
  by (auto simp: float_of_int_def split: pyfloat.splits)

lemma py_add_raises:
  "py_add x y = Inl e \<Longrightarrow>
     add_type (type_of x) (type_of y) = None \<and> e = TypeError \<or>
     add_type (type_of x) (type_of y) = Some TFloat \<and> e = OverflowError"
  by (cases x; cases y)
     (auto simp: py_add_def type_eval rbind_eq_Inl_iff float_of_int_raises split: if_splits)

lemma num_key_numeric: "returns (num_key v) \<longleftrightarrow> numeric (type_of v)"
  by (cases v) (simp_all add: type_eval)

section \<open>Well-formed values\<close>

text \<open>
  What the JSON decoder can return and what the operations keep: every float is a
  binary64 value, and the keys of a dict are distinct.
\<close>

fun wf_val :: "pyval \<Rightarrow> bool" where
  "wf_val (PFloat f) = wf_float f"
| "wf_val (PList xs) = list_all wf_val xs"
| "wf_val (PDict kvs) = (distinct (map fst kvs) \<and> list_all wf_val (map snd kvs))"
| "wf_val _ = True"

lemma wf_float_one [simp]: "is_double 1"
  using is_double_of_int [of 1] by simp

lemma wf_float_zero [simp]: "is_double 0"
  by (simp add: is_double_def)

lemma wf_float_of_int: "float_of_int n = Inr f \<Longrightarrow> wf_float f"
  by (auto simp: float_of_int_def wf_round_double split: pyfloat.splits)

lemma wf_float_of_str: "float_of_str s = Inr f \<Longrightarrow> wf_float f"
  by (auto simp: float_of_str_def float_literal_def parse_special_def signed_zero_def
      signed_inf_def Let_def wf_round_double split: option.splits prod.splits if_splits)

lemma wf_py_float: "wf_val x \<Longrightarrow> py_float x = Inr f \<Longrightarrow> wf_float f"
  by (cases x) (auto simp: wf_float_of_int wf_float_of_str)

lemma wf_float_add [py_wf]: "wf_float a \<Longrightarrow> wf_float b \<Longrightarrow> wf_float (float_add a b)"
  by (cases a; cases b) (simp_all add: wf_round_double)

lemma wf_float_div: "float_div a b = Inr f \<Longrightarrow> wf_float f"
  by (auto simp: float_div_def signed_zero_def signed_inf_def Let_def wf_round_double
      split: pyfloat.splits if_splits)

lemma wf_int_true_div: "int_true_div a b = Inr f \<Longrightarrow> wf_float f"
  by (auto simp: int_true_div_def signed_zero_def wf_round_double split: pyfloat.splits if_splits)

lemma wf_num_float: "as_num x = Some a \<Longrightarrow> wf_val x \<Longrightarrow> num_float a = Inr f \<Longrightarrow> wf_float f"
  by (cases x) (auto simp: wf_float_of_int)

lemma wf_num_add:
  assumes "as_num x = Some a" "as_num y = Some b" "wf_val x" "wf_val y" "num_add a b = Inr v"
  shows "wf_val v"
proof (cases "\<exists>m n. a = NInt m \<and> b = NInt n")
  case True
  with assms(5) show ?thesis by auto
next
  case False
  then have "num_add a b =
      rbind (num_float a) (\<lambda>x. rbind (num_float b) (\<lambda>y. Inr (PFloat (float_add x y))))"
    by (cases a; cases b) simp_all
  with assms show ?thesis
    by (auto simp: rbind_eq_Inr_iff intro!: wf_float_add dest: wf_num_float)
qed

lemma wf_py_add: "wf_val x \<Longrightarrow> wf_val y \<Longrightarrow> py_add x y = Inr v \<Longrightarrow> wf_val v"
  by (auto simp: py_add_def split: option.splits pyval.splits dest: wf_num_add)

lemma wf_lookup_or [py_wf]: "wf_val (PDict kvs) \<Longrightarrow> wf_val d \<Longrightarrow> wf_val (lookup_or kvs k d)"
  by (auto simp: lookup_or_def list_all_iff split: option.splits dest!: map_of_SomeD)

lemma wf_dict_get: "wf_val x \<Longrightarrow> wf_val d \<Longrightarrow> dict_get x k d = Inr v \<Longrightarrow> wf_val v"
  by (cases x) (auto simp: wf_lookup_or simp del: wf_val.simps(3))

lemma wf_py_or [py_wf]: "wf_val a \<Longrightarrow> wf_val b \<Longrightarrow> wf_val (py_or a b)"
  by (simp add: py_or_def)

lemma wf_py_iter: "wf_val x \<Longrightarrow> py_iter x = Inr xs \<Longrightarrow> list_all wf_val xs"
  by (cases x) (auto simp: list_all_iff)

end
