(* ===== verification/PyText.thy ===== *)
theory PyText
  imports PyValue
begin

text \<open>
  Conversion of values to text, as the f-strings of the source use it: \<open>str(v)\<close> for a
  replacement field without a format, fixed-point formatting of a float for the formats
  \<open>,.8f\<close>, \<open>,.0f\<close> and \<open>.1f\<close>, and \<open>repr\<close> for the elements of lists and dicts.

  CPython prints a float from its exact binary value: with a precision the decimal
  expansion is rounded to that many places, ties to even; \<open>repr\<close> prints the shortest
  decimal that reads back as the same float. Both are functions of the rational a finite
  float carries.

  Bounds of the model: an int is printed whatever its size (CPython 3.11 refuses to
  print ints of more than 4300 digits); \<open>repr\<close> of a string keeps every byte from
  \<open>0x80\<close> up as it is (CPython escapes the code points outside ASCII that are not
  printable).
\<close>

section \<open>Integers\<close>

definition digit_char :: "nat \<Rightarrow> char" where
  "digit_char d = ''0123456789'' ! d"

fun show_nat :: "nat \<Rightarrow> string" where
  "show_nat n = (if n < 10 then [digit_char n] else show_nat (n div 10) @ [digit_char (n mod 10)])"

declare show_nat.simps [simp del]

definition show_int :: "int \<Rightarrow> string" where
  "show_int n = (if n < 0 then CHR ''-'' # show_nat (nat (- n)) else show_nat (nat n))"

lemma show_nat_small [simp]: "n < 10 \<Longrightarrow> show_nat n = [digit_char n]"
  by (simp add: show_nat.simps)

lemma show_nat_step [simp]:
  "10 \<le> n \<Longrightarrow> show_nat n = show_nat (n div 10) @ [digit_char (n mod 10)]"
  by (simp add: show_nat.simps [of n])

text \<open>Printing a natural number gives digits only, and they read back as the number.\<close>

lemma digit_char_digit:
  assumes "d < 10"
  shows "is_digit (digit_char d)" "digit_val (digit_char d) = d"
proof -
  from assms have "d \<in> {0, 1, 2, 3, 4, 5, 6, 7, 8, 9}" by auto
  then show "is_digit (digit_char d)" "digit_val (digit_char d) = d"
    by (auto simp: digit_char_def is_digit_def digit_val_def)
qed

lemma show_nat_digits: "list_all is_digit (show_nat n)"
  by (induction n rule: show_nat.induct) (subst show_nat.simps, simp add: digit_char_digit)

lemma show_nat_nonempty [simp]: "show_nat n \<noteq> []"
  by (subst show_nat.simps) simp

lemma digits_val_snoc: "digits_val (s @ [c]) = 10 * digits_val s + digit_val c"
  by (simp add: digits_val_def)

lemma digits_val_show_nat: "digits_val (show_nat n) = n"
proof (induction n rule: show_nat.induct)
  case (1 n)
  show ?case
  proof (cases "n < 10")
    case True
    then show ?thesis by (simp add: digits_val_def digit_char_digit)
  next
    case False
    with 1 show ?thesis by (simp add: digits_val_snoc digit_char_digit)
  qed
qed

lemma float_of_str_show_nat: "float_of_str (show_nat n) = Inr (round_double (of_nat n))"
  by (simp add: float_of_str_digits show_nat_digits digits_val_show_nat)

section \<open>Fixed-point formatting\<close>

fun group3_rev :: "string \<Rightarrow> string" where
  "group3_rev (a # b # c # d # r) = a # b # c # CHR '','' # group3_rev (d # r)"
| "group3_rev s = s"

definition group3 :: "string \<Rightarrow> string" where
  "group3 s = rev (group3_rev (rev s))"

definition pad_zeros :: "nat \<Rightarrow> string \<Rightarrow> string" where
  "pad_zeros n s = replicate (n - length s) (CHR ''0'') @ s"

text \<open>The digits of a non-negative value rounded to \<open>d\<close> places, with or without
  thousands separators in the integer part.\<close>

definition fixed_digits :: "bool \<Rightarrow> nat \<Rightarrow> rat \<Rightarrow> string" where
  "fixed_digits grouped d a =
     (let ds = pad_zeros (Suc d) (show_nat (nat (round_half_even (a * 10 ^ d))));
          ip = take (length ds - d) ds;
          fp = drop (length ds - d) ds;
          ip' = (if grouped then group3 ip else ip)
      in if d = 0 then ip' else ip' @ CHR ''.'' # fp)"

fun fmt_fixed :: "bool \<Rightarrow> nat \<Rightarrow> pyfloat \<Rightarrow> string" where
  "fmt_fixed grouped d NaN = ''nan''"
| "fmt_fixed grouped d PosInf = ''inf''"
| "fmt_fixed grouped d NegInf = ''-inf''"
| "fmt_fixed grouped d NegZero = CHR ''-'' # fixed_digits grouped d 0"
| "fmt_fixed grouped d (Finite q) =
     (if q < 0 then CHR ''-'' # fixed_digits grouped d (- q) else fixed_digits grouped d q)"

lemmas fmt_eval = fixed_digits_def pad_zeros_def group3_def show_int_def digit_char_def
  round_half_even_def Let_def

section \<open>The shortest representation of a float\<close>

fun ilog10 :: "nat \<Rightarrow> nat" where
  "ilog10 n = (if n < 10 then 0 else Suc (ilog10 (n div 10)))"

declare ilog10.simps [simp del]

lemma ilog10_small [simp]: "n < 10 \<Longrightarrow> ilog10 n = 0"
  by (simp add: ilog10.simps)

lemma ilog10_step [simp]: "10 \<le> n \<Longrightarrow> ilog10 n = Suc (ilog10 (n div 10))"
  by (simp add: ilog10.simps [of n])

definition floor_log10 :: "rat \<Rightarrow> int" where
  "floor_log10 a = (if 1 \<le> a then int (ilog10 (nat \<lfloor>a\<rfloor>))
                    else - int (ilog10 (nat (\<lceil>1 / a\<rceil> - 1))) - 1)"

text \<open>The decimals of \<open>n\<close> significant digits next to \<open>a\<close>: \<open>a\<close> itself if it is one,
  else its two neighbours.\<close>

definition repr_candidates :: "rat \<Rightarrow> nat \<Rightarrow> rat list" where
  "repr_candidates a n =
     (let s = 10 powi (floor_log10 a - int n + 1); lo = \<lfloor>a / s\<rfloor>
      in if a / s = of_int lo then [a] else [of_int lo * s, of_int (lo + 1) * s])"

definition reads_back :: "rat \<Rightarrow> rat \<Rightarrow> bool" where
  "reads_back a c = (round_double c = Finite a)"

text \<open>Of two candidates the one nearer to \<open>a\<close>; on a tie the first when its last digit
  is even.\<close>

definition nearest_of :: "rat \<Rightarrow> nat \<Rightarrow> rat list \<Rightarrow> rat" where
  "nearest_of a n cs =
     (case cs of
        [] \<Rightarrow> a
      | [c] \<Rightarrow> c
      | lo # hi # _ \<Rightarrow>
          if a - lo < hi - a then lo
          else if hi - a < a - lo then hi
          else if even \<lfloor>lo / 10 powi (floor_log10 a - int n + 1)\<rfloor> then lo else hi)"

text \<open>The lengths are tried in increasing order; 17 digits always read back.\<close>

fun repr_search :: "rat \<Rightarrow> nat list \<Rightarrow> rat" where
  "repr_search a [] = nearest_of a 17 (repr_candidates a 17)"
| "repr_search a (n # ns) =
     (case filter (reads_back a) (repr_candidates a n) of
        [] \<Rightarrow> repr_search a ns
      | c # cs \<Rightarrow> nearest_of a n (c # cs))"

definition shortest_decimal :: "rat \<Rightarrow> rat" where
  "shortest_decimal a = repr_search a [1, 2, 3, 4, 5, 6, 7, 8, 9, 10, 11, 12, 13, 14, 15, 16, 17]"

fun strip_trailing_zeros_rev :: "string \<Rightarrow> string" where
  "strip_trailing_zeros_rev [] = []"
| "strip_trailing_zeros_rev (c # s) = (if c = CHR ''0'' \<and> s \<noteq> [] then strip_trailing_zeros_rev s else c # s)"

definition sig_digits :: "rat \<Rightarrow> string" where
  "sig_digits c = rev (strip_trailing_zeros_rev
     (rev (show_nat (nat \<lfloor>c / 10 powi (floor_log10 c - 16)\<rfloor>))))"

definition repr_layout :: "string \<Rightarrow> int \<Rightarrow> string" where
  "repr_layout ds decpt =
     (if decpt \<le> - 4 \<or> 16 < decpt then
        (if tl ds = [] then [hd ds] else hd ds # CHR ''.'' # tl ds) @
        CHR ''e'' # (if decpt - 1 < 0 then CHR ''-'' else CHR ''+'') #
        pad_zeros 2 (show_nat (nat \<bar>decpt - 1\<bar>))
      else if decpt \<le> 0 then ''0.'' @ replicate (nat (- decpt)) (CHR ''0'') @ ds
      else if int (length ds) \<le> decpt then
        ds @ replicate (nat decpt - length ds) (CHR ''0'') @ ''.0''
      else take (nat decpt) ds @ CHR ''.'' # drop (nat decpt) ds)"

definition repr_positive :: "rat \<Rightarrow> string" where
  "repr_positive a = (let c = shortest_decimal a in repr_layout (sig_digits c) (floor_log10 c + 1))"

fun float_repr :: "pyfloat \<Rightarrow> string" where
  "float_repr NaN = ''nan''"
| "float_repr PosInf = ''inf''"
| "float_repr NegInf = ''-inf''"
| "float_repr NegZero = ''-0.0''"
| "float_repr (Finite q) =
     (if q = 0 then ''0.0'' else if q < 0 then CHR ''-'' # repr_positive (- q)
      else repr_positive q)"

section \<open>Strings, lists and dicts\<close>

fun join :: "string \<Rightarrow> string list \<Rightarrow> string" where
  "join sep [] = []"
| "join sep [x] = x"
| "join sep (x # y # ys) = x @ sep @ join sep (y # ys)"

definition hex_char :: "nat \<Rightarrow> char" where
  "hex_char d = ''0123456789abcdef'' ! d"

definition escape_char :: "char \<Rightarrow> char \<Rightarrow> string" where
  "escape_char quote c =
     (if c = quote \<or> c = CHR 0x5C then [CHR 0x5C, c]
      else if c = CHR 0x09 then [CHR 0x5C, CHR ''t'']
      else if c = CHR 0x0A then [CHR 0x5C, CHR ''n'']
      else if c = CHR 0x0D then [CHR 0x5C, CHR ''r'']
      else if (of_char c :: nat) < 32 \<or> c = CHR 0x7F
        then [CHR 0x5C, CHR ''x'', hex_char (of_char c div 16), hex_char (of_char c mod 16)]
      else [c])"

definition str_repr :: "string \<Rightarrow> string" where
  "str_repr s =
     (let quote = (if CHR 0x27 \<in> set s \<and> CHR 0x22 \<notin> set s then CHR 0x22 else CHR 0x27)
      in quote # concat (map (escape_char quote) s) @ [quote])"

fun py_repr :: "pyval \<Rightarrow> string" where
  "py_repr PNone = ''None''"
| "py_repr (PBool b) = (if b then ''True'' else ''False'')"
| "py_repr (PInt n) = show_int n"
| "py_repr (PFloat f) = float_repr f"
| "py_repr (PStr s) = str_repr s"
| "py_repr (PList xs) = ''['' @ join '', '' (map py_repr xs) @ '']''"
| "py_repr (PDict kvs) =
     ''{'' @ join '', '' (map (\<lambda>kv. str_repr (fst kv) @ '': '' @ py_repr (snd kv)) kvs) @ ''}''"

definition py_str :: "pyval \<Rightarrow> string" where
  "py_str v = (case v of PStr s \<Rightarrow> s | _ \<Rightarrow> py_repr v)"

lemmas repr_eval = repr_positive_def repr_layout_def sig_digits_def shortest_decimal_def
  nearest_of_def reads_back_def repr_candidates_def floor_log10_def rd_eval
  str_repr_def escape_char_def hex_char_def py_str_def


end
