(* ===== verification/Normalizer.thy ===== *)
theory Normalizer
  imports PyText
begin

text \<open>
  The numeric normalizer, \<open>usd\<close> of \<open>src/memecoin_bot.py\<close> (lines 27 to 31):
  \<^verbatim>\<open>
  def usd(x):
      try:
          return float(x) if x else 0.0
      except:
          return 0.0
  \<close>
  A falsy argument gives \<open>0.0\<close> without calling \<open>float\<close>; otherwise the result is
  \<open>float(x)\<close>, and the bare \<open>except\<close> turns every exception of \<open>float\<close> into \<open>0.0\<close>.
\<close>

definition usd :: "pyval \<Rightarrow> pyfloat" where
  "usd x = (if truthy x then catch (py_float x) (\<lambda>e. Finite 0) else Finite 0)"

lemmas usd_eval = usd_def value_eval text_eval float_eval

section \<open>Behaviour on each kind of input\<close>

lemma usd_falsy: "\<not> truthy x \<Longrightarrow> usd x = Finite 0"
  by (simp add: usd_def)

lemma usd_raises: "py_float x = Inl e \<Longrightarrow> usd x = Finite 0"
  by (simp add: usd_def)

lemma usd_returns: "truthy x \<Longrightarrow> py_float x = Inr f \<Longrightarrow> usd x = f"
  by (simp add: usd_def)

lemma usd_float: "usd (PFloat f) = (if float_is_zero f then Finite 0 else f)"
  by (simp add: usd_def)

lemma usd_str: "s \<noteq> [] \<Longrightarrow> float_of_str s = Inr f \<Longrightarrow> usd (PStr s) = f"
  by (simp add: usd_def)

lemma usd_decimal:
  assumes "ip \<noteq> []" "list_all is_digit ip" "list_all is_digit fp"
  shows "usd (PStr (ip @ CHR ''.'' # fp)) =
     round_double (of_nat (digits_val (ip @ fp)) / 10 ^ length fp)"
  using float_of_str_decimal [OF assms] by (simp add: usd_def)

lemma float_ge_int_round_double:
  "\<bar>c\<bar> \<le> 2 ^ 53 \<Longrightarrow> of_int c \<le> q \<Longrightarrow> float_ge_int (round_double q) c"
  using round_double_ge [OF is_double_of_int, of c q]
  by (simp add: float_ge_int_def float_le_def int_key_def)

lemma float_le_int_round_double:
  "\<bar>c\<bar> \<le> 2 ^ 53 \<Longrightarrow> q \<le> of_int c \<Longrightarrow> float_le_int (round_double q) c"
  using round_double_le [OF is_double_of_int, of c q]
  by (simp add: float_le_int_def float_le_def int_key_def)

lemma usd_decimal_le:
  assumes "ip \<noteq> []" "list_all is_digit ip" "list_all is_digit fp" "\<bar>c\<bar> \<le> 2 ^ 53"
    "of_nat (digits_val (ip @ fp)) \<le> rat_of_int c * 10 ^ length fp"
  shows "float_le_int (usd (PStr (ip @ CHR ''.'' # fp))) c"
  unfolding usd_decimal [OF assms(1-3)]
  using assms(5) by (intro float_le_int_round_double [OF assms(4)]) (simp add: field_simps)

lemma usd_special_strings:
  "usd (PStr ''inf'') = PosInf" "usd (PStr ''nan'') = NaN" "usd (PStr ''-5'') = Finite (- 5)"
  by (simp_all add: usd_eval)

text \<open>
  An integer of magnitude at most \<open>2 ^ 53\<close> that is not zero is normalised to
  the float of exactly that value.
\<close>

lemma usd_int_exact: "n \<noteq> 0 \<Longrightarrow> \<bar>n\<bar> \<le> 2 ^ 53 \<Longrightarrow> usd (PInt n) = Finite (of_int n)"
  by (simp add: usd_def float_of_int_exact)

text \<open>
  Printing and reading. The decimal numeral of a natural number up to \<open>2 ^ 53\<close>,
  as a string, is normalised to that number: nothing is lost between the text of the
  response and the float.
\<close>

lemma usd_show_nat: "n \<le> 2 ^ 53 \<Longrightarrow> usd (PStr (show_nat n)) = Finite (of_nat n)"
  by (simp add: usd_str [OF _ float_of_str_show_nat] round_double_of_nat)


text \<open>
  C8: rounding never moves an amount across a threshold it has reached. A decimal
  string whose value is at least an integer \<open>c\<close> is normalised to a float that compares
  \<open>>= c\<close>. (The converse fails: \<open>2999.9999999999999999\<close> is normalised to \<open>3000.0\<close>.)
\<close>

theorem usd_decimal_ge:
  assumes "ip \<noteq> []" "list_all is_digit ip" "list_all is_digit fp" "\<bar>c\<bar> \<le> 2 ^ 53"
    "rat_of_int c * 10 ^ length fp \<le> of_nat (digits_val (ip @ fp))"
  shows "float_ge_int (usd (PStr (ip @ CHR ''.'' # fp))) c"
  unfolding usd_decimal [OF assms(1-3)]
  using assms(5) by (intro float_ge_int_round_double [OF assms(4)]) (simp add: field_simps)

theorem usd_decimal_ge_witness:
  "''3000'' \<noteq> [] \<and> list_all is_digit ''3000'' \<and> list_all is_digit ''0000000000000000001'' \<and>
   \<bar>3000::int\<bar> \<le> 2 ^ 53 \<and>
   rat_of_int 3000 * 10 ^ length ''0000000000000000001''
     \<le> of_nat (digits_val (''3000'' @ ''0000000000000000001'')) \<and>
   float_ge_int (usd (PStr (''3000'' @ CHR ''.'' # ''0000000000000000001''))) 3000"
  using usd_decimal_ge [of "''3000''" "''0000000000000000001''" 3000]
  by (simp add: is_digit_def digits_val_def digit_val_def)

lemma usd_rounds_up_to_threshold: "usd (PStr ''2999.9999999999999999'') = Finite 3000"
  by (simp add: usd_eval)

text \<open>
  The result of the normaliser is a binary64 value whenever the floats of its
  argument are.
\<close>

lemma wf_usd [py_wf]: "wf_val x \<Longrightarrow> wf_float (usd x)"
  by (cases "py_float x") (auto simp: usd_def dest: wf_py_float)

end
