(* ===== verification/Age.thy ===== *)
theory Age
  imports PyValue
begin

text \<open>
  The age calculator, \<open>hours_since\<close> of \<open>src/memecoin_bot.py\<close> (lines 33 to 40):
  \<^verbatim>\<open>
  def hours_since(dt_iso):
      try:
          dt = isoparse(dt_iso)
          if dt.tzinfo is None:
              dt = dt.replace(tzinfo=timezone.utc)
          return (datetime.now(timezone.utc) - dt).total_seconds() / 3600.0
      except Exception:
          return math.inf
  \<close>
  Two things come from outside the program and are inputs of the model: the parser
  \<open>isoparse\<close> of the \<open>dateutil\<close> library, a function from the argument to a datetime
  or to nothing (it raised), and the reading of the clock, \<open>now\<close>, in microseconds since
  0001-01-01T00:00:00 UTC. A datetime is its wall-clock reading in microseconds on the
  same scale and the offset of its zone from UTC, absent for a naive datetime.

  The subtraction of two aware datetimes is exact (a \<open>timedelta\<close> counts microseconds)
  and raises \<open>TypeError\<close> when the right operand is naive; \<open>total_seconds\<close> is the
  true division of that count by \<open>10 ** 6\<close>, rounded once, and the division by
  \<open>3600.0\<close> rounds again.
\<close>

record datetime =
  wall_us :: int
  utcoffset_us :: "int option"

type_synonym iso_parser = "pyval \<Rightarrow> datetime option"

definition assume_utc :: "datetime \<Rightarrow> datetime" where
  "assume_utc dt = (if utcoffset_us dt = None then dt\<lparr>utcoffset_us := Some 0\<rparr> else dt)"

definition aware_sub :: "int \<Rightarrow> datetime \<Rightarrow> int result" where
  "aware_sub now dt = (case utcoffset_us dt of
       None \<Rightarrow> Inl TypeError
     | Some off \<Rightarrow> Inr (now - (wall_us dt - off)))"

definition total_seconds :: "int \<Rightarrow> pyfloat result" where
  "total_seconds us = int_true_div us 1000000"

definition hours_since :: "iso_parser \<Rightarrow> int \<Rightarrow> pyval \<Rightarrow> pyfloat" where
  "hours_since isoparse now dt_iso =
     (case isoparse dt_iso of
        None \<Rightarrow> PosInf
      | Some dt \<Rightarrow>
          catch (rbind (aware_sub now (assume_utc dt)) (\<lambda>delta.
                 rbind (total_seconds delta) (\<lambda>secs. float_div secs (Finite 3600))))
            (\<lambda>e. PosInf))"

lemmas age_eval = hours_since_def total_seconds_def aware_sub_def assume_utc_def float_eval

section \<open>The instant of a datetime\<close>

text \<open>The point on the UTC scale that the code assigns to a parsed datetime.\<close>

definition utc_us :: "datetime \<Rightarrow> int" where
  "utc_us dt = wall_us dt - (case utcoffset_us dt of None \<Rightarrow> 0 | Some off \<Rightarrow> off)"

definition hours_of :: "int \<Rightarrow> pyfloat" where
  "hours_of delta = catch (rbind (total_seconds delta) (\<lambda>secs. float_div secs (Finite 3600)))
     (\<lambda>e. PosInf)"

lemma assume_utc_idem [simp]: "assume_utc (assume_utc dt) = assume_utc dt"
  by (simp add: assume_utc_def)

lemma aware_sub_assume_utc [simp]: "aware_sub now (assume_utc dt) = Inr (now - utc_us dt)"
  by (simp add: aware_sub_def assume_utc_def utc_us_def split: option.splits)

lemma hours_since_unparsed [simp]: "isoparse x = None \<Longrightarrow> hours_since isoparse now x = PosInf"
  by (simp add: hours_since_def)

lemma hours_since_parsed:
  "isoparse x = Some dt \<Longrightarrow> hours_since isoparse now x = hours_of (now - utc_us dt)"
  by (simp add: hours_since_def hours_of_def)

section \<open>Whole hours are exact\<close>

lemma total_seconds_whole:
  assumes "\<bar>s\<bar> \<le> 2 ^ 53"
  shows "total_seconds (s * 1000000) = Inr (Finite (of_int s))"
proof (cases "s = 0")
  case True
  then show ?thesis by (simp add: total_seconds_def int_true_div_def signed_zero_def)
next
  case False
  have "round_double (of_int s) = Finite (of_int s)"
    using assms by (simp add: round_double_exact is_double_of_int)
  with False show ?thesis by (simp add: total_seconds_def int_true_div_def)
qed

lemma float_div_whole:
  assumes "\<bar>h\<bar> \<le> 2 ^ 53"
  shows "float_div (Finite (of_int (h * 3600))) (Finite 3600) = Inr (Finite (of_int h))"
proof (cases "h = 0")
  case True
  then show ?thesis
    by (simp add: float_div_def float_is_zero_def float_negative_def signed_zero_def)
next
  case False
  have "round_double (of_int h) = Finite (of_int h)"
    using assms by (simp add: round_double_exact is_double_of_int)
  with False show ?thesis by (simp add: float_div_def float_is_zero_def)
qed

lemma hours_of_whole:
  assumes "\<bar>h\<bar> \<le> 2000000000000"
  shows "hours_of (h * 3600000000) = Finite (of_int h)"
proof -
  have a: "\<bar>h * 3600\<bar> \<le> 2 ^ 53" and b: "\<bar>h\<bar> \<le> 2 ^ 53"
    using assms by (simp_all add: abs_mult)
  have "hours_of (h * 3600 * 1000000) = Finite (of_int h)"
    unfolding hours_of_def total_seconds_whole [OF a] rbind_Inr float_div_whole [OF b]
    by simp
  then show ?thesis by (simp add: mult.assoc)
qed

text \<open>
  C14: a pool created a whole number \<open>h\<close> of hours before the reading of the clock,
  whatever its zone, has the age \<open>h\<close> exactly (up to two hundred million years, in the
  past or in the future): neither of the two roundings loses anything.
\<close>

theorem hours_since_whole_hours:
  "isoparse x = Some dt \<Longrightarrow> now = utc_us dt + h * 3600000000 \<Longrightarrow> \<bar>h\<bar> \<le> 2000000000000
     \<Longrightarrow> hours_since isoparse now x = Finite (of_int h)"
  by (simp add: hours_since_parsed hours_of_whole)

theorem hours_since_whole_hours_witness:
  "(\<lambda>v. Some \<lparr>wall_us = 1000000, utcoffset_us = Some 3600000000\<rparr>) (PStr ''t'')
      = Some \<lparr>wall_us = 1000000, utcoffset_us = Some 3600000000\<rparr> \<and>
   (3601000000::int) = utc_us \<lparr>wall_us = 1000000, utcoffset_us = Some 3600000000\<rparr> + 2 * 3600000000 \<and>
   \<bar>2::int\<bar> \<le> 2000000000000 \<and>
   hours_since (\<lambda>v. Some \<lparr>wall_us = 1000000, utcoffset_us = Some 3600000000\<rparr>) 3601000000
     (PStr ''t'') = Finite 2"
  using hours_since_whole_hours
    [of "\<lambda>v. Some \<lparr>wall_us = 1000000, utcoffset_us = Some 3600000000\<rparr>" "PStr ''t''"
        "\<lparr>wall_us = 1000000, utcoffset_us = Some 3600000000\<rparr>" 3601000000 2]
  by (simp add: utc_us_def)

text \<open>
  C15: a timestamp without a zone is read as UTC: it gives the age of the same wall
  clock with offset zero, and not the infinite age that subtracting a naive datetime
  from an aware one would give.
\<close>

theorem hours_since_naive_is_utc:
  "hours_since (\<lambda>v. Some \<lparr>wall_us = w, utcoffset_us = None\<rparr>) now x =
   hours_since (\<lambda>v. Some \<lparr>wall_us = w, utcoffset_us = Some 0\<rparr>) now x"
  by (simp add: hours_since_def assume_utc_def)

section \<open>A parser for the examples\<close>

text \<open>
  Two timestamps as a parser might return them: \<open>a\<close> is the instant 0 in UTC, every
  other argument is one hour later, without a zone.
\<close>

definition ex_parser :: iso_parser where
  "ex_parser v = (if v = PStr ''a'' then Some \<lparr>wall_us = 0, utcoffset_us = Some 0\<rparr>
                  else Some \<lparr>wall_us = 3600000000, utcoffset_us = None\<rparr>)"

section \<open>Order of ages\<close>

lemma hours_of_key:
  assumes "\<bar>delta\<bar> \<le> 2 ^ 1023"
  shows "\<exists>s. float_key (round_double (of_int delta / 1000000)) = Some (XFin s) \<and>
     float_key (hours_of delta) = float_key (round_double (s / 3600))"
proof -
  from int_true_div_finite [of 1000000 delta] assms obtain f
    where f: "total_seconds delta = Inr f" "float_finite f"
      "float_key f = float_key (round_double (of_int delta / 1000000))"
    by (auto simp: total_seconds_def)
  from f(2) obtain s where s: "float_key f = Some (XFin s)"
    by (auto simp: float_finite_def split: option.splits xrat.splits)
  from float_div_finite [OF _ s, of 3600] obtain g
    where "float_div f (Finite 3600) = Inr g" "float_key g = float_key (round_double (s / 3600))"
    by auto
  with f s have "float_key (round_double (of_int delta / 1000000)) = Some (XFin s)"
    "float_key (hours_of delta) = float_key (round_double (s / 3600))"
    by (simp_all add: hours_of_def)
  then show ?thesis by blast
qed

lemma hours_of_mono:
  assumes "d1 \<le> d2" "\<bar>d1\<bar> \<le> 2 ^ 1023" "\<bar>d2\<bar> \<le> 2 ^ 1023"
  shows "float_le (hours_of d1) (hours_of d2)"
proof -
  from hours_of_key [OF assms(2)] hours_of_key [OF assms(3)] obtain s1 s2
    where s: "float_key (round_double (of_int d1 / 1000000)) = Some (XFin s1)"
      "float_key (hours_of d1) = float_key (round_double (s1 / 3600))"
      "float_key (round_double (of_int d2 / 1000000)) = Some (XFin s2)"
      "float_key (hours_of d2) = float_key (round_double (s2 / 3600))"
    by blast
  from assms(1) have "rat_of_int d1 / 1000000 \<le> of_int d2 / 1000000"
    by (simp add: divide_right_mono)
  from round_double_key_mono [OF this] s have "s1 / 3600 \<le> s2 / 3600" by simp
  from round_double_mono [OF this] s show ?thesis by (simp add: float_le_def)
qed

lemma wf_hours_of [py_wf]: "wf_float (hours_of delta)"
  by (auto simp: hours_of_def total_seconds_def catch_def rbind_def
      dest: wf_float_div split: sum.splits)

text \<open>
  C37: of two pools, the one created earlier never has the smaller age: the two
  roundings preserve the order of the instants.
\<close>

theorem hours_since_mono:
  assumes "isoparse x = Some dt" "isoparse y = Some du" "utc_us dt \<le> utc_us du"
    "\<bar>now - utc_us dt\<bar> \<le> 2 ^ 1023" "\<bar>now - utc_us du\<bar> \<le> 2 ^ 1023"
  shows "float_le (hours_since isoparse now y) (hours_since isoparse now x)"
  using assms by (simp add: hours_since_parsed hours_of_mono)

theorem hours_since_mono_witness:
  "ex_parser (PStr ''a'') = Some \<lparr>wall_us = 0, utcoffset_us = Some 0\<rparr> \<and>
   ex_parser (PStr ''b'') = Some \<lparr>wall_us = 3600000000, utcoffset_us = None\<rparr> \<and>
   utc_us \<lparr>wall_us = 0, utcoffset_us = Some 0\<rparr>
     \<le> utc_us \<lparr>wall_us = 3600000000, utcoffset_us = None\<rparr> \<and>
   \<bar>7200000000 - utc_us \<lparr>wall_us = 0, utcoffset_us = Some 0\<rparr>\<bar> \<le> 2 ^ 1023 \<and>
   \<bar>7200000000 - utc_us \<lparr>wall_us = 3600000000, utcoffset_us = None\<rparr>\<bar> \<le> 2 ^ 1023 \<and>
   float_le (hours_since ex_parser 7200000000 (PStr ''b''))
     (hours_since ex_parser 7200000000 (PStr ''a''))"
  using hours_since_mono [of ex_parser "PStr ''a''" "\<lparr>wall_us = 0, utcoffset_us = Some 0\<rparr>"
      "PStr ''b''" "\<lparr>wall_us = 3600000000, utcoffset_us = None\<rparr>" 7200000000]
  by (simp add: ex_parser_def utc_us_def)

text \<open>
  C21: a pool created at most \<open>h\<close> hours before the reading of the clock, for a whole
  number \<open>h\<close>, has an age that compares \<open><= h\<close>. A timestamp in the future is such a
  pool for every \<open>h\<close>: its age is negative or zero.
\<close>

theorem hours_since_le:
  assumes "isoparse x = Some dt" "now - utc_us dt \<le> h * 3600000000" "0 \<le> h"
    "h \<le> 2000000000000" "\<bar>now - utc_us dt\<bar> \<le> 2 ^ 1023"
  shows "float_le_int (hours_since isoparse now x) h"
proof -
  have "\<bar>h * 3600000000\<bar> \<le> 2 ^ 1023" using assms(3,4) by simp
  from hours_of_mono [OF assms(2,5) this] assms(1,3,4)
  show ?thesis
    by (simp add: hours_since_parsed hours_of_whole float_le_int_def float_le_def int_key_def)
qed

theorem hours_since_le_witness:
  "ex_parser (PStr ''b'') = Some \<lparr>wall_us = 3600000000, utcoffset_us = None\<rparr> \<and>
   0 - utc_us \<lparr>wall_us = 3600000000, utcoffset_us = None\<rparr> \<le> 48 * 3600000000 \<and>
   (0::int) \<le> 48 \<and> (48::int) \<le> 2000000000000 \<and>
   \<bar>0 - utc_us \<lparr>wall_us = 3600000000, utcoffset_us = None\<rparr>\<bar> \<le> 2 ^ 1023 \<and>
   float_le_int (hours_since ex_parser 0 (PStr ''b'')) 48"
  using hours_since_le [of ex_parser "PStr ''b''"
      "\<lparr>wall_us = 3600000000, utcoffset_us = None\<rparr>" 0 48]
  by (simp add: ex_parser_def utc_us_def)

text \<open>
  The age is a binary64 value, whatever the parser and the clock return.
\<close>

lemma wf_hours_since [py_wf]: "wf_float (hours_since isoparse now x)"
  by (cases "isoparse x") (simp_all add: hours_since_parsed wf_hours_of)

end
