(* ===== verification/Eligibility.thy ===== *)
theory Eligibility
  imports PyValue
begin

text \<open>
  The eligibility filter: the thresholds of \<open>src/memecoin_bot.py\<close> (lines 13 to 16) and
  \<open>looks_like_memecoin\<close> (lines 71 to 77):
  \<^verbatim>\<open>
  def looks_like_memecoin(m):
      return (
          m["liq"] >= MIN_LIQ_USD and
          m["txs"] >= MIN_1H_TXNS and
          m["fdv"] <= MAX_FDV_USD and
          m["age"] <= MAX_POOL_AGE_HOURS
      )
  \<close>
  The metrics dict has the four keys the summarizer writes, so it is a record. Three of
  its values are floats by construction; \<open>txs\<close> is whatever \<open>buys + sells\<close> gave, so its
  comparison can raise. \<open>and\<close> evaluates left to right and stops at the first false
  operand: a pool that fails the liquidity check is rejected before \<open>txs\<close> is compared.
\<close>

definition MIN_LIQ_USD :: int where "MIN_LIQ_USD = 3000"
definition MIN_1H_TXNS :: int where "MIN_1H_TXNS = 20"
definition MAX_FDV_USD :: int where "MAX_FDV_USD = 20000000"
definition MAX_POOL_AGE_HOURS :: int where "MAX_POOL_AGE_HOURS = 48"

record metrics =
  fdv :: pyfloat
  liq :: pyfloat
  txs :: pyval
  age :: pyfloat

definition looks_like_memecoin :: "metrics \<Rightarrow> bool result" where
  "looks_like_memecoin m =
     (if \<not> float_ge_int (liq m) MIN_LIQ_USD then Inr False
      else rbind (py_ge_int (txs m) MIN_1H_TXNS) (\<lambda>enough_txs.
        if \<not> enough_txs then Inr False
        else if \<not> float_le_int (fdv m) MAX_FDV_USD then Inr False
        else Inr (float_le_int (age m) MAX_POOL_AGE_HOURS)))"

lemmas thresholds [py_eval] = MIN_LIQ_USD_def MIN_1H_TXNS_def MAX_FDV_USD_def MAX_POOL_AGE_HOURS_def

lemmas filter_eval = looks_like_memecoin_def py_eval

section \<open>When the filter accepts, rejects and raises\<close>

lemma looks_like_memecoin_True_iff:
  "looks_like_memecoin m = Inr True \<longleftrightarrow>
     float_ge_int (liq m) MIN_LIQ_USD \<and> py_ge_int (txs m) MIN_1H_TXNS = Inr True \<and>
     float_le_int (fdv m) MAX_FDV_USD \<and> float_le_int (age m) MAX_POOL_AGE_HOURS"
  by (cases "py_ge_int (txs m) MIN_1H_TXNS") (auto simp: looks_like_memecoin_def)

lemma looks_like_memecoin_raises_iff:
  "looks_like_memecoin m = Inl e \<longleftrightarrow>
     float_ge_int (liq m) MIN_LIQ_USD \<and> py_ge_int (txs m) MIN_1H_TXNS = Inl e"
  by (cases "py_ge_int (txs m) MIN_1H_TXNS") (auto simp: looks_like_memecoin_def)

lemma py_ge_int_True_key:
  "py_ge_int v c = Inr True \<Longrightarrow> \<exists>k. num_key v = Inr (Some k) \<and> XFin (of_int c) \<le> k"
  by (cases "num_key v")
     (auto simp: py_ge_int_def int_key_def key_le_def split: option.splits)

lemma float_ge_int_key: "float_ge_int f c \<Longrightarrow> \<exists>k. float_key f = Some k \<and> XFin (of_int c) \<le> k"
  by (auto simp: float_ge_int_def int_key_def key_le_def split: option.splits)

text \<open>
  C2: when the transaction count is a number, the filter is the conjunction of the four
  threshold checks, each an exact comparison: liquidity at least 3000, count at least
  20, valuation at most 20 million, age at most 48 hours.
\<close>

theorem looks_like_memecoin_conj:
  "num_key (txs m) = Inr k \<Longrightarrow>
     looks_like_memecoin m =
       Inr (float_ge_int (liq m) 3000 \<and> key_le (int_key 20) k \<and>
            float_le_int (fdv m) 20000000 \<and> float_le_int (age m) 48)"
  by (auto simp: looks_like_memecoin_def py_ge_int_def thresholds)

theorem looks_like_memecoin_conj_witness:
  "num_key (txs \<lparr>fdv = Finite 1000000, liq = Finite 5000, txs = PInt 40, age = Finite 2\<rparr>)
     = Inr (Some (XFin 40)) \<and>
   looks_like_memecoin \<lparr>fdv = Finite 1000000, liq = Finite 5000, txs = PInt 40, age = Finite 2\<rparr>
     = Inr True"
  using looks_like_memecoin_conj
    [of "\<lparr>fdv = Finite 1000000, liq = Finite 5000, txs = PInt 40, age = Finite 2\<rparr>" "Some (XFin 40)"]
  by (simp add: int_key_def)

text \<open>
  The checks run in order and stop at the first that fails: a pool below the
  liquidity threshold is rejected whatever its transaction count is, also when the count
  is a value that cannot be compared with a number.
\<close>

lemma low_liquidity_rejected:
  "\<not> float_ge_int (liq m) MIN_LIQ_USD \<Longrightarrow> looks_like_memecoin m = Inr False"
  by (simp add: looks_like_memecoin_def)

text \<open>
  C39: with enough liquidity, a transaction count that is not a number makes the filter
  raise the exception of the comparison, instead of rejecting the pool.
\<close>

theorem uncomparable_txs_raises:
  "float_ge_int (liq m) MIN_LIQ_USD \<Longrightarrow> num_key (txs m) = Inl e \<Longrightarrow> looks_like_memecoin m = Inl e"
  by (simp add: looks_like_memecoin_def py_ge_int_def)

theorem uncomparable_txs_raises_witness:
  "float_ge_int (liq \<lparr>fdv = Finite 0, liq = Finite 5000, txs = PStr ''12'', age = Finite 1\<rparr>) MIN_LIQ_USD \<and>
   num_key (txs \<lparr>fdv = Finite 0, liq = Finite 5000, txs = PStr ''12'', age = Finite 1\<rparr>) = Inl TypeError \<and>
   looks_like_memecoin \<lparr>fdv = Finite 0, liq = Finite 5000, txs = PStr ''12'', age = Finite 1\<rparr> = Inl TypeError"
  using uncomparable_txs_raises
    [of "\<lparr>fdv = Finite 0, liq = Finite 5000, txs = PStr ''12'', age = Finite 1\<rparr>" TypeError]
  by (simp add: thresholds)

text \<open>
  C38: a metric that is NaN, in any of the three float fields, never passes: every
  comparison with NaN is false. So does an age of plus infinity.
\<close>

theorem nan_never_eligible:
  "liq m = NaN \<or> fdv m = NaN \<or> age m = NaN \<or> age m = PosInf \<Longrightarrow>
     looks_like_memecoin m \<noteq> Inr True"
  by (auto simp: looks_like_memecoin_True_iff)

theorem nan_never_eligible_witness:
  "(liq \<lparr>fdv = Finite 1, liq = Finite 5000, txs = PInt 40, age = PosInf\<rparr> = NaN \<or>
    fdv \<lparr>fdv = Finite 1, liq = Finite 5000, txs = PInt 40, age = PosInf\<rparr> = NaN \<or>
    age \<lparr>fdv = Finite 1, liq = Finite 5000, txs = PInt 40, age = PosInf\<rparr> = NaN \<or>
    age \<lparr>fdv = Finite 1, liq = Finite 5000, txs = PInt 40, age = PosInf\<rparr> = PosInf) \<and>
   looks_like_memecoin \<lparr>fdv = Finite 1, liq = Finite 5000, txs = PInt 40, age = PosInf\<rparr> \<noteq> Inr True"
  using nan_never_eligible [of "\<lparr>fdv = Finite 1, liq = Finite 5000, txs = PInt 40, age = PosInf\<rparr>"]
  by simp

end
