(* ===== verification/Summarizer.thy ===== *)
theory Summarizer
  imports Normalizer Age Eligibility PyText
begin

text \<open>
  The pool summarizer, \<open>summarize_pool\<close> of \<open>src/memecoin_bot.py\<close> (lines 47 to 69).
  It reads the record's \<open>attributes\<close>, derives the metrics and renders the text block.
  Statement by statement:
  \<^item> \<open>p.get("attributes", {})\<close> and every \<open>attrs.get(...)\<close> raise \<open>AttributeError\<close> when
    the receiver is not a dict;
  \<^item> \<open>buys + sells\<close> raises \<open>TypeError\<close> (or \<open>OverflowError\<close>) when the two values do not
    add;
  \<^item> \<open>usd\<close> and \<open>hours_since\<close> never raise, and neither does the f-string: the three
    formatted fields are floats, the others are printed by \<open>str\<close>.
  The result is the pair of the text and the metrics; the clock reading \<open>now\<close> and the
  timestamp parser are passed on to \<open>hours_since\<close>.
\<close>

definition bullet :: string where
  "bullet = [CHR 0xE2, CHR 0x80, CHR 0xA2]"

definition summary_text ::
  "pyval \<Rightarrow> pyval \<Rightarrow> pyval \<Rightarrow> pyfloat \<Rightarrow> pyfloat \<Rightarrow> pyfloat \<Rightarrow> pyval \<Rightarrow> pyval \<Rightarrow> pyval
     \<Rightarrow> pyfloat \<Rightarrow> pyval \<Rightarrow> string" where
  "summary_text name base quote price liq_v fdv_v buys sells txs_v age_h url =
     bullet @ '' '' @ py_str name @ '' ('' @ py_str base @ '') / '' @ py_str quote @ [CHR 0x0A] @
     ''  Price: $'' @ fmt_fixed True 8 price @ [CHR 0x0A] @
     ''  Liquidity: $'' @ fmt_fixed True 0 liq_v @ '' | FDV: $'' @ fmt_fixed True 0 fdv_v @ [CHR 0x0A] @
     ''  1h: '' @ py_str buys @ '' buys / '' @ py_str sells @ '' sells (tx='' @ py_str txs_v @ '')'' @ [CHR 0x0A] @
     ''  Age: '' @ fmt_fixed False 1 age_h @ ''h'' @ [CHR 0x0A] @
     ''  Chart: '' @ py_str url"

definition summarize_pool :: "iso_parser \<Rightarrow> int \<Rightarrow> pyval \<Rightarrow> (string \<times> metrics) result" where
  "summarize_pool isoparse now p =
     rbind (dict_get p ''attributes'' (PDict [])) (\<lambda>attrs.
     rbind (dict_get attrs ''fdv_usd'' PNone) (\<lambda>fdv_raw.
     rbind (dict_get attrs ''reserve_in_usd'' PNone) (\<lambda>liq_raw.
     rbind (dict_get attrs ''price_in_usd'' PNone) (\<lambda>price_raw.
     rbind (dict_get attrs ''buys_1h'' PNone) (\<lambda>buys_raw.
     rbind (dict_get attrs ''sells_1h'' PNone) (\<lambda>sells_raw.
     let fdv_v = usd fdv_raw; liq_v = usd liq_raw; price = usd price_raw;
         buys = py_or buys_raw (PInt 0); sells = py_or sells_raw (PInt 0)
     in
     rbind (py_add buys sells) (\<lambda>txs_v.
     rbind (dict_get attrs ''pool_created_at'' PNone) (\<lambda>created.
     let age_h = hours_since isoparse now created in
     rbind (dict_get attrs ''base_token_symbol'' PNone) (\<lambda>base.
     rbind (dict_get attrs ''quote_token_symbol'' PNone) (\<lambda>quote.
     rbind (dict_get attrs ''url'' PNone) (\<lambda>url.
     rbind (dict_get attrs ''base_token_name'' PNone) (\<lambda>name_raw.
     let name = py_or name_raw base in
     Inr (summary_text name base quote price liq_v fdv_v buys sells txs_v age_h url,
          \<lparr>fdv = fdv_v, liq = liq_v, txs = txs_v, age = age_h\<rparr>)))))))))))))"

text \<open>
  The same computation in three parts, for a record whose \<open>attributes\<close> is the dict
  \<open>avs\<close>: the transaction count, which may raise, the metrics and the text.
\<close>

abbreviation attr :: "(string \<times> pyval) list \<Rightarrow> string \<Rightarrow> pyval" where
  "attr avs k \<equiv> lookup_or avs k PNone"

definition pool_attributes :: "pyval \<Rightarrow> pyval result" where
  "pool_attributes p = dict_get p ''attributes'' (PDict [])"

definition pool_txs :: "(string \<times> pyval) list \<Rightarrow> pyval result" where
  "pool_txs avs =
     py_add (py_or (attr avs ''buys_1h'') (PInt 0)) (py_or (attr avs ''sells_1h'') (PInt 0))"

definition pool_metrics :: "iso_parser \<Rightarrow> int \<Rightarrow> (string \<times> pyval) list \<Rightarrow> pyval \<Rightarrow> metrics" where
  "pool_metrics isoparse now avs txs_v =
     \<lparr>fdv = usd (attr avs ''fdv_usd''), liq = usd (attr avs ''reserve_in_usd''), txs = txs_v,
      age = hours_since isoparse now (attr avs ''pool_created_at'')\<rparr>"

definition pool_text :: "iso_parser \<Rightarrow> int \<Rightarrow> (string \<times> pyval) list \<Rightarrow> pyval \<Rightarrow> string" where
  "pool_text isoparse now avs txs_v =
     summary_text (py_or (attr avs ''base_token_name'') (attr avs ''base_token_symbol''))
       (attr avs ''base_token_symbol'') (attr avs ''quote_token_symbol'')
       (usd (attr avs ''price_in_usd'')) (usd (attr avs ''reserve_in_usd''))
       (usd (attr avs ''fdv_usd''))
       (py_or (attr avs ''buys_1h'') (PInt 0)) (py_or (attr avs ''sells_1h'') (PInt 0)) txs_v
       (hours_since isoparse now (attr avs ''pool_created_at'')) (attr avs ''url'')"

lemmas summarizer_eval = summarize_pool_def summary_text_def bullet_def pool_attributes_def
  pool_txs_def pool_metrics_def pool_text_def

section \<open>The three outcomes\<close>

lemma summarize_pool_attrs:
  "pool_attributes p = Inr (PDict avs) \<Longrightarrow>
     summarize_pool isoparse now p =
       rbind (pool_txs avs) (\<lambda>t. Inr (pool_text isoparse now avs t, pool_metrics isoparse now avs t))"
  by (simp add: summarize_pool_def pool_attributes_def pool_txs_def pool_text_def
      pool_metrics_def Let_def)

lemma summarize_pool_bad_attrs:
  "pool_attributes p = Inr a \<Longrightarrow> \<forall>avs. a \<noteq> PDict avs \<Longrightarrow>
     summarize_pool isoparse now p = Inl AttributeError"
  by (cases a) (simp_all add: summarize_pool_def pool_attributes_def)

lemma summarize_pool_no_attrs:
  "pool_attributes p = Inl e \<Longrightarrow> summarize_pool isoparse now p = Inl e"
  by (simp add: summarize_pool_def pool_attributes_def)

lemma pool_attributes_cases:
  "pool_attributes p = (case p of PDict kvs \<Rightarrow> Inr (lookup_or kvs ''attributes'' (PDict []))
                        | _ \<Rightarrow> Inl AttributeError)"
  by (cases p) (simp_all add: pool_attributes_def)

lemma summarize_pool_cases:
  "summarize_pool isoparse now p =
     (case p of
        PDict kvs \<Rightarrow>
          (case lookup_or kvs ''attributes'' (PDict []) of
             PDict avs \<Rightarrow> rbind (pool_txs avs)
               (\<lambda>t. Inr (pool_text isoparse now avs t, pool_metrics isoparse now avs t))
           | _ \<Rightarrow> Inl AttributeError)
      | _ \<Rightarrow> Inl AttributeError)"
proof (cases "pool_attributes p")
  case (Inl e)
  then show ?thesis
    by (cases p) (simp_all add: summarize_pool_no_attrs pool_attributes_cases)
next
  case (Inr a)
  show ?thesis
  proof (cases "\<exists>avs. a = PDict avs")
    case True
    with Inr show ?thesis
      by (cases p) (auto simp: summarize_pool_attrs pool_attributes_cases)
  next
    case False
    with Inr summarize_pool_bad_attrs [OF Inr] show ?thesis
      by (cases p; cases a) (auto simp: pool_attributes_cases)
  qed
qed

section \<open>The transaction count\<close>

lemma pool_txs_ints:
  "attr avs ''buys_1h'' = PInt b \<Longrightarrow> attr avs ''sells_1h'' = PInt s
     \<Longrightarrow> pool_txs avs = Inr (PInt (b + s))"
  by (simp add: pool_txs_def py_or_def py_add_def)

lemma pool_txs_absent:
  "attr avs ''buys_1h'' = PNone \<Longrightarrow> attr avs ''sells_1h'' = PNone \<Longrightarrow> pool_txs avs = Inr (PInt 0)"
  by (simp add: pool_txs_def py_add_def)

lemma pool_txs_strings:
  "pool_txs [(''buys_1h'', PStr ''12''), (''sells_1h'', PStr ''3'')] = Inr (PStr ''123'')"
  by (simp add: pool_txs_def py_add_def lookup_or_def)

lemma pool_txs_mixed:
  "pool_txs [(''buys_1h'', PStr ''12''), (''sells_1h'', PInt 3)] = Inl TypeError"
  by (simp add: pool_txs_def py_add_def lookup_or_def)

section \<open>Well-formed metrics\<close>

definition wf_metrics :: "metrics \<Rightarrow> bool" where
  "wf_metrics m = (wf_float (fdv m) \<and> wf_float (liq m) \<and> wf_val (txs m) \<and> wf_float (age m))"

lemma wf_attr [py_wf]: "wf_val (PDict avs) \<Longrightarrow> wf_val (attr avs k)"
  by (rule wf_lookup_or) simp_all

lemma wf_pool_txs: "wf_val (PDict avs) \<Longrightarrow> pool_txs avs = Inr t \<Longrightarrow> wf_val t"
  unfolding pool_txs_def by (erule wf_py_add [rotated 2]) (simp_all add: py_wf)

lemma wf_pool_metrics:
  "wf_val (PDict avs) \<Longrightarrow> wf_val t \<Longrightarrow> wf_metrics (pool_metrics isoparse now avs t)"
  by (simp add: wf_metrics_def pool_metrics_def py_wf del: wf_val.simps(3))

section \<open>The text\<close>

lemma pool_text_bullet: "take 3 (pool_text isoparse now avs t) = bullet"
  by (simp add: pool_text_def summary_text_def bullet_def)

text \<open>
  C7: the outcomes of the summarizer. A record that is not an object, or whose
  \<open>attributes\<close> is not an object, raises \<open>AttributeError\<close>; otherwise the only step
  that can raise is the sum of the two counts, and the result is the text and the
  metrics of the attributes. No field is required: lookups default, numbers are
  normalised, the timestamp is aged.
\<close>

theorem summarize_pool_outcomes:
  "summarize_pool isoparse now (PDict kvs) =
     (case lookup_or kvs ''attributes'' (PDict []) of
        PDict avs \<Rightarrow>
          (case pool_txs avs of
             Inl e \<Rightarrow> Inl e
           | Inr t \<Rightarrow> Inr (pool_text isoparse now avs t, pool_metrics isoparse now avs t))
      | _ \<Rightarrow> Inl AttributeError) \<and>
   (case p of PDict kvs \<Rightarrow> True | _ \<Rightarrow> summarize_pool isoparse now p = Inl AttributeError)"
  by (simp add: summarize_pool_cases rbind_def split: pyval.split sum.split)

text \<open>
  A record without any of the fields is summarised, with zero valuation, zero
  liquidity, zero transactions and the age of a missing timestamp.
\<close>

lemma summarize_pool_empty:
  "summarize_pool isoparse now (PDict []) =
     Inr (pool_text isoparse now [] (PInt 0),
          \<lparr>fdv = Finite 0, liq = Finite 0, txs = PInt 0, age = hours_since isoparse now PNone\<rparr>)"
  by (simp add: summarize_pool_cases lookup_or_def pool_txs_def py_add_def pool_metrics_def
      usd_def)

lemma wf_summarize_pool_metrics:
  assumes "wf_val p" "summarize_pool isoparse now p = Inr (t, m)"
  shows "wf_metrics m"
proof -
  from assms(2) obtain kvs where p: "p = PDict kvs"
    by (cases p) (simp_all add: summarize_pool_cases)
  with assms(2) obtain avs where a: "lookup_or kvs ''attributes'' (PDict []) = PDict avs"
    by (cases "lookup_or kvs ''attributes'' (PDict [])") (simp_all add: summarize_pool_cases)
  with assms(2) p obtain c where c: "pool_txs avs = Inr c"
    and m: "m = pool_metrics isoparse now avs c"
    by (cases "pool_txs avs") (simp_all add: summarize_pool_cases)
  from assms(1) have "wf_val (lookup_or kvs ''attributes'' (PDict []))"
    unfolding p by (rule wf_lookup_or) simp
  then have w: "wf_val (PDict avs)" by (simp only: a)
  show ?thesis unfolding m by (rule wf_pool_metrics [OF w wf_pool_txs [OF w c]])
qed

section \<open>The type of the transaction count\<close>

lemma pool_txs_raises:
  assumes "pool_txs avs = Inl e"
  shows "add_type (type_of (py_or (attr avs ''buys_1h'') (PInt 0)))
           (type_of (py_or (attr avs ''sells_1h'') (PInt 0))) = None \<and> e = TypeError \<or>
         add_type (type_of (py_or (attr avs ''buys_1h'') (PInt 0)))
           (type_of (py_or (attr avs ''sells_1h'') (PInt 0))) = Some TFloat \<and> e = OverflowError"
  using assms unfolding pool_txs_def by (rule py_add_raises)

text \<open>
  C20: the types of the metrics. Valuation, liquidity and age are floats by
  construction. The transaction count is the sum of the two counts after their
  defaults, so its type is the one \<open>+\<close> gives to the types of the operands, and the
  summarizer raises \<open>TypeError\<close> when \<open>+\<close> gives none. The count is an int exactly when
  both operands are ints or bools; two strings give a string.
\<close>

theorem summarize_pool_txs_type:
  assumes "pool_attributes p = Inr (PDict avs)"
    and "b = type_of (py_or (attr avs ''buys_1h'') (PInt 0))"
    and "s = type_of (py_or (attr avs ''sells_1h'') (PInt 0))"
  shows "(case summarize_pool isoparse now p of
            Inr (text, m) \<Rightarrow> add_type b s = Some (type_of (txs m))
          | Inl e \<Rightarrow> add_type b s = None \<and> e = TypeError \<or>
                     add_type b s = Some TFloat \<and> e = OverflowError)"
proof (cases "pool_txs avs")
  case (Inr t)
  with assms py_add_type [of _ _ t] show ?thesis
    by (simp add: summarize_pool_attrs pool_txs_def pool_metrics_def)
next
  case (Inl e)
  with assms pool_txs_raises [of avs e] show ?thesis
    by (simp add: summarize_pool_attrs)
qed

theorem summarize_pool_txs_type_witness:
  "pool_attributes (PDict [(''attributes'', PDict [(''buys_1h'', PStr ''1''), (''sells_1h'', PStr ''2'')])])
     = Inr (PDict [(''buys_1h'', PStr ''1''), (''sells_1h'', PStr ''2'')]) \<and>
   TStr = type_of (py_or (attr [(''buys_1h'', PStr ''1''), (''sells_1h'', PStr ''2'')] ''buys_1h'') (PInt 0)) \<and>
   TStr = type_of (py_or (attr [(''buys_1h'', PStr ''1''), (''sells_1h'', PStr ''2'')] ''sells_1h'') (PInt 0)) \<and>
   (case summarize_pool ex_parser 0
           (PDict [(''attributes'', PDict [(''buys_1h'', PStr ''1''), (''sells_1h'', PStr ''2'')])]) of
      Inr (text, m) \<Rightarrow> txs m = PStr ''12'' \<and> add_type TStr TStr = Some (type_of (txs m))
    | Inl e \<Rightarrow> False)"
  using summarize_pool_txs_type
    [where p = "PDict [(''attributes'', PDict [(''buys_1h'', PStr ''1''), (''sells_1h'', PStr ''2'')])]"
       and avs = "[(''buys_1h'', PStr ''1''), (''sells_1h'', PStr ''2'')]" and b = TStr and s = TStr
       and isoparse = ex_parser and now = 0]
  by (simp add: pool_attributes_def lookup_or_def summarize_pool_attrs pool_txs_def py_add_def
      pool_metrics_def)

section \<open>Records that can never be eligible\<close>

text \<open>
  C22: fail-closed on the timestamp. A record whose creation time the parser rejects
  (null, missing, not a timestamp) is never eligible, whatever its other fields are.
\<close>

theorem unparsed_timestamp_ineligible:
  "isoparse (attr avs ''pool_created_at'') = None
     \<Longrightarrow> looks_like_memecoin (pool_metrics isoparse now avs t) \<noteq> Inr True"
  by (simp add: looks_like_memecoin_True_iff pool_metrics_def)

theorem unparsed_timestamp_ineligible_witness:
  "(\<lambda>v. if v = PNone then None else ex_parser v) (attr [] ''pool_created_at'') = None \<and>
   looks_like_memecoin (pool_metrics (\<lambda>v. if v = PNone then None else ex_parser v) 0 [] (PInt 50))
     \<noteq> Inr True"
  using unparsed_timestamp_ineligible
    [of "\<lambda>v. if v = PNone then None else ex_parser v" "[]" 0 "PInt 50"]
  by (simp add: lookup_or_def)

text \<open>
  A record whose liquidity is missing, null, zero, empty or unreadable is
  rejected, and the rejection does not depend on the other fields: not even a
  transaction count that cannot be compared makes the filter raise.
\<close>

lemma missing_liquidity_rejected:
  "usd (attr avs ''reserve_in_usd'') = Finite 0
     \<Longrightarrow> looks_like_memecoin (pool_metrics isoparse now avs t) = Inr False"
  by (simp add: looks_like_memecoin_def pool_metrics_def MIN_LIQ_USD_def)

end
