(* ===== verification/Task.thy ===== *)
theory Task
  imports Prelude "HOL-Library.State_Monad"
begin

text \<open>
  Coroutines. An \<open>async def\<close> of \<open>src/memecoin_bot.py\<close> acts on the world around it
  (it sends messages, opens sessions, makes requests) and returns or raises. Such a
  function is a computation in the state monad of the library whose value is a result:
  \<open>('s, 'a) task\<close> maps a state of the world to the result and the state after it.
  The state after an exception is kept, since what was done before it stays done.

  \<open>task_bind\<close> is one awaited statement after the other, \<open>task_try\<close> is
  \<open>try / except Exception as e\<close> and \<open>task_lift\<close> is a step that does nothing to the
  world. There is one thread of control: a task runs from its start to its end, and
  the awaits inside it are points where it waits, not points where the world changes
  under it.
\<close>

type_synonym ('s, 'a) task = "('s, 'a result) state"

definition task_lift :: "'a result \<Rightarrow> ('s, 'a) task" where
  "task_lift r = State_Monad.return r"

definition task_bind :: "('s, 'a) task \<Rightarrow> ('a \<Rightarrow> ('s, 'b) task) \<Rightarrow> ('s, 'b) task" where
  "task_bind m f = State_Monad.bind m
     (\<lambda>r. case r of Inl e \<Rightarrow> State_Monad.return (Inl e) | Inr x \<Rightarrow> f x)"

definition task_try :: "('s, 'a) task \<Rightarrow> (exn \<Rightarrow> ('s, 'a) task) \<Rightarrow> ('s, 'a) task" where
  "task_try m h = State_Monad.bind m
     (\<lambda>r. case r of Inl e \<Rightarrow> h e | Inr x \<Rightarrow> State_Monad.return (Inr x))"

section \<open>Running a task\<close>

lemma run_task_lift [simp]: "run_state (task_lift r) s = (r, s)"
  by (simp add: task_lift_def)

lemma run_task_bind [simp]:
  "run_state (task_bind m f) s =
     (case run_state m s of (Inl e, s') \<Rightarrow> (Inl e, s') | (Inr x, s') \<Rightarrow> run_state (f x) s')"
  by (simp add: task_bind_def split: prod.split sum.split)

lemma run_task_try [simp]:
  "run_state (task_try m h) s =
     (case run_state m s of (Inl e, s') \<Rightarrow> run_state (h e) s' | (Inr x, s') \<Rightarrow> (Inr x, s'))"
  by (simp add: task_try_def split: prod.split sum.split)

section \<open>Laws\<close>

lemma task_bind_lift [simp]: "task_bind (task_lift r) f = (case r of Inl e \<Rightarrow> task_lift (Inl e) | Inr x \<Rightarrow> f x)"
  by (rule state_ext) (simp split: sum.split)

lemma task_bind_return [simp]: "task_bind m (\<lambda>x. task_lift (Inr x)) = m"
  by (rule state_ext) (simp split: prod.split sum.split)

lemma task_bind_assoc: "task_bind (task_bind m f) g = task_bind m (\<lambda>x. task_bind (f x) g)"
  by (rule state_ext) (simp split: prod.split sum.split)

lemma task_try_lift [simp]: "task_try (task_lift r) h = (case r of Inl e \<Rightarrow> h e | Inr x \<Rightarrow> task_lift (Inr x))"
  by (rule state_ext) (simp split: sum.split)

lemma task_lift_rbind: "task_bind (task_lift r) (\<lambda>x. task_lift (f x)) = task_lift (rbind r f)"
  by (cases r) simp_all

text \<open>A task that does a fixed thing to the world: its result does not depend on the
  state it starts in, and the state after it is a function of the state before.\<close>

definition acts :: "('s, 'a) task \<Rightarrow> 'a result \<Rightarrow> ('s \<Rightarrow> 's) \<Rightarrow> bool" where
  "acts m r g \<longleftrightarrow> (\<forall>s. run_state m s = (r, g s))"

lemma actsD: "acts m r g \<Longrightarrow> run_state m s = (r, g s)"
  by (simp add: acts_def)

lemma acts_lift [simp]: "acts (task_lift r) r (\<lambda>s. s)"
  by (simp add: acts_def)

lemma acts_bind:
  "acts m r g \<Longrightarrow> (\<And>x. r = Inr x \<Longrightarrow> acts (f x) r' g') \<Longrightarrow> (\<And>e. r = Inl e \<Longrightarrow> r' = Inl e \<and> g' = (\<lambda>s. s))
     \<Longrightarrow> acts (task_bind m f) r' (g' \<circ> g)"
  by (cases r) (auto simp: acts_def)

lemma acts_bind_lift: "acts m r g \<Longrightarrow> acts (task_bind m (\<lambda>x. task_lift (f x))) (rbind r f) g"
  by (cases r) (auto simp: acts_def)

end
