(* ===== verification/Fetch.thy ===== *)
theory Fetch
  imports PyValue Task
begin

text \<open>
  The request, \<open>fetch_json\<close> of \<open>src/memecoin_bot.py\<close> (lines 42 to 45) with the timeout
  of line 17, and the session it is made in (lines 81 and 129):
  \<^verbatim>\<open>
  async def fetch_json(client, url, params=None):
      r = await client.get(url, params=params, timeout=HTTP_TIMEOUT)
      r.raise_for_status()
      return r.json()

      async with httpx.AsyncClient() as client:
          data = await fetch_json(client, url, params=...)
  \<close>
  The HTTP client belongs to the \<open>httpx\<close> library. What the network answers is an
  input of the model: a \<open>client\<close> maps the URL, the query parameters and the timeout to
  what \<open>get\<close> ends in, a response or the exception of the transport (connection
  refused, timeout). A response is known by what its two methods do:
  \<open>raise_for_status\<close> raises or not, and \<open>json\<close> returns the decoded body or raises.

  What the program does to the network is state, the record \<open>net\<close>: the sessions it
  has opened and closed and the requests it has made. \<open>get\<close> records the request;
  \<open>async_client\<close> is the \<open>async with\<close> statement, which enters the session, runs the
  body and leaves the session whether the body returned or raised.
\<close>

definition HTTP_TIMEOUT :: int where
  "HTTP_TIMEOUT = 15"

record response =
  status_error :: "exn option"
  payload :: "pyval result"

type_synonym params = "(string \<times> string) list"

type_synonym client = "string \<Rightarrow> params \<Rightarrow> int \<Rightarrow> response result"

record net =
  opened :: nat
  closed :: nat
  requests :: "(string \<times> params \<times> int) list"

definition get :: "client \<Rightarrow> string \<Rightarrow> params \<Rightarrow> int \<Rightarrow> ('a net_scheme, response) task" where
  "get client url params timeout = State (\<lambda>n.
     (client url params timeout, n\<lparr>requests := requests n @ [(url, params, timeout)]\<rparr>))"

definition raise_for_status :: "response \<Rightarrow> unit result" where
  "raise_for_status r = (case status_error r of None \<Rightarrow> Inr () | Some e \<Rightarrow> Inl e)"

definition json :: "response \<Rightarrow> pyval result" where
  "json r = payload r"

definition fetch_json :: "client \<Rightarrow> string \<Rightarrow> params \<Rightarrow> ('a net_scheme, pyval) task" where
  "fetch_json client url params =
     task_bind (get client url params HTTP_TIMEOUT) (\<lambda>r.
     task_bind (task_lift (raise_for_status r)) (\<lambda>u.
     task_lift (json r)))"

text \<open>\<open>async with httpx.AsyncClient() as client: body\<close>\<close>

definition async_client ::
  "client \<Rightarrow> (client \<Rightarrow> ('a net_scheme, 'b) task) \<Rightarrow> ('a net_scheme, 'b) task" where
  "async_client client body = State (\<lambda>n.
     case run_state (body client) (n\<lparr>opened := Suc (opened n)\<rparr>) of
       (r, n') \<Rightarrow> (r, n'\<lparr>closed := Suc (closed n')\<rparr>))"

section \<open>The value and the effect of a request\<close>

text \<open>What \<open>fetch_json\<close> returns, as a function of what the network answers, and what
  one session with one request does to the network.\<close>

definition fetched :: "client \<Rightarrow> string \<Rightarrow> params \<Rightarrow> pyval result" where
  "fetched client url params =
     rbind (client url params HTTP_TIMEOUT) (\<lambda>r.
     rbind (raise_for_status r) (\<lambda>u.
     json r))"

definition session :: "string \<Rightarrow> params \<Rightarrow> 'a net_scheme \<Rightarrow> 'a net_scheme" where
  "session url params n =
     n\<lparr>opened := Suc (opened n), closed := Suc (closed n),
       requests := requests n @ [(url, params, HTTP_TIMEOUT)]\<rparr>"

lemmas fetch_eval [py_eval] = fetched_def raise_for_status_def json_def HTTP_TIMEOUT_def

lemma run_get [simp]:
  "run_state (get client url params timeout) n =
     (client url params timeout, n\<lparr>requests := requests n @ [(url, params, timeout)]\<rparr>)"
  by (simp add: get_def)

lemma run_fetch_json:
  "run_state (fetch_json client url params) n =
     (fetched client url params, n\<lparr>requests := requests n @ [(url, params, HTTP_TIMEOUT)]\<rparr>)"
  by (simp add: fetch_json_def fetched_def rbind_def split: sum.split)

lemma run_async_client:
  "run_state (async_client client body) n =
     (case run_state (body client) (n\<lparr>opened := Suc (opened n)\<rparr>) of
        (r, n') \<Rightarrow> (r, n'\<lparr>closed := Suc (closed n')\<rparr>))"
  by (simp add: async_client_def)

lemma run_session:
  "run_state (async_client client (\<lambda>c. fetch_json c url params)) n =
     (fetched client url params, session url params n)"
  by (simp add: run_async_client run_fetch_json session_def)

lemma acts_session:
  "acts (async_client client (\<lambda>c. fetch_json c url params)) (fetched client url params)
     (session url params)"
  by (simp add: acts_def run_session)

lemma session_simps [simp]:
  "opened (session url params n) = Suc (opened n)"
  "closed (session url params n) = Suc (closed n)"
  "requests (session url params n) = requests n @ [(url, params, HTTP_TIMEOUT)]"
  by (simp_all add: session_def)

text \<open>The body of a session cannot keep it open: whatever the body does and however
  it ends, one more session is open while it runs and none after it.\<close>

lemma async_client_balanced:
  assumes "\<And>n r n'. run_state (body client) n = (r, n') \<Longrightarrow>
             opened n' - closed n' = opened n - closed n \<and> closed n' \<le> opened n'"
    and "run_state (async_client client body) n = (r, n')" "closed n \<le> opened n"
  shows "opened n' - closed n' = opened n - closed n \<and> closed n' \<le> opened n'"
proof -
  obtain r1 n1 where b: "run_state (body client) (n\<lparr>opened := Suc (opened n)\<rparr>) = (r1, n1)"
    by (cases "run_state (body client) (n\<lparr>opened := Suc (opened n)\<rparr>)")
  from assms(1) [OF b] assms(3) have "opened n1 - closed n1 = Suc (opened n) - closed n"
    "closed n1 \<le> opened n1" by simp_all
  moreover from assms(2) b have "n' = n1\<lparr>closed := Suc (closed n1)\<rparr>"
    by (simp add: run_async_client)
  ultimately show ?thesis using assms(3) by auto
qed

section \<open>The outcomes of a request\<close>

lemma fetched_transport:
  "client url params HTTP_TIMEOUT = Inl e \<Longrightarrow> fetched client url params = Inl e"
  by (simp add: fetched_def)

lemma fetched_status:
  "client url params HTTP_TIMEOUT = Inr r \<Longrightarrow> status_error r = Some e
     \<Longrightarrow> fetched client url params = Inl e"
  by (simp add: fetched_def raise_for_status_def)

lemma fetched_body:
  "client url params HTTP_TIMEOUT = Inr r \<Longrightarrow> status_error r = None
     \<Longrightarrow> fetched client url params = payload r"
  by (simp add: fetched_def raise_for_status_def json_def)

lemma fetched_returns_iff:
  "fetched client url params = Inr v \<longleftrightarrow>
     (\<exists>r. client url params HTTP_TIMEOUT = Inr r \<and> status_error r = None \<and> payload r = Inr v)"
  by (auto simp: fetched_def raise_for_status_def json_def rbind_def
      split: sum.splits option.splits)

text \<open>
  The outcomes of a request, in the order of the three statements. A request that
  fails in transport raises that failure; a response with an error status raises the
  error of the status, even when its body is a listing; otherwise the result is what
  decoding the body gives, a value or the error of the decoder. The timeout passed to
  the client is the constant of the configuration.
\<close>

lemma fetched_outcomes:
  "fetched client url params =
     (case client url params 15 of
        Inl e \<Rightarrow> Inl e
      | Inr r \<Rightarrow> (case status_error r of Some e \<Rightarrow> Inl e | None \<Rightarrow> payload r))"
  by (simp add: fetched_def raise_for_status_def json_def rbind_def HTTP_TIMEOUT_def
      split: sum.split option.split)

section \<open>Servers for the examples\<close>

text \<open>A server that answers every request with status 200 and the same body, one that
  answers with an error status and that body, and a network that fails.\<close>

definition ex_respond :: "pyval \<Rightarrow> client" where
  "ex_respond body = (\<lambda>url params timeout. Inr \<lparr>status_error = None, payload = Inr body\<rparr>)"

definition ex_status :: "nat \<Rightarrow> pyval \<Rightarrow> client" where
  "ex_status code body = (\<lambda>url params timeout.
     Inr \<lparr>status_error = Some (FetchFailed (BadStatus code)), payload = Inr body\<rparr>)"

definition ex_unreachable :: client where
  "ex_unreachable = (\<lambda>url params timeout. Inl (FetchFailed Timeout))"

definition ex_net :: net where
  "ex_net = \<lparr>opened = 0, closed = 0, requests = []\<rparr>"

lemma fetched_examples [simp]:
  "fetched (ex_respond body) url params = Inr body"
  "fetched (ex_status code body) url params = Inl (FetchFailed (BadStatus code))"
  "fetched ex_unreachable url params = Inl (FetchFailed Timeout)"
  by (simp_all add: py_eval ex_respond_def ex_status_def ex_unreachable_def)

end
