(* ===== verification/Scan.thy ===== *)
theory Scan
  imports Summarizer Fetch "HOL-Library.Product_Lexorder" "HOL-Library.Multiset"
begin

text \<open>
  The scan orchestrator, \<open>scan_geckoterminal\<close> of \<open>src/memecoin_bot.py\<close> (lines 79
  to 90), with the network slug and the endpoint constants (lines 11, 20, 21):
  \<^verbatim>\<open>
  async def scan_geckoterminal(kind="trending"):
      url = GT_TRENDING if kind == "trending" else GT_NEW
      async with httpx.AsyncClient() as client:
          data = await fetch_json(client, url, params={"include": "base_token,quote_token"})
      pools = data.get("data", [])
      results = []
      for item in pools:
          text, m = summarize_pool(item)
          if looks_like_memecoin(m):
              results.append((m, text))
      results.sort(key=lambda x: (x[0]["txs"], x[0]["liq"]), reverse=True)
      return [t for _, t in results][:10] or ["(no candidates found)"]
  \<close>
  The request is \<open>fetch_json\<close> of theory \<open>Fetch\<close>, in a session of its own, so the
  scan is a task over the network: it returns \<open>scanned\<close>, a function of the response,
  and its effect is \<open>session\<close>, one session entered and left around one request.
  The clock is an input too: \<open>clock i\<close> is its reading while the \<open>i\<close>-th item of the
  list is summarised.

  \<open>list.sort\<close> with \<open>reverse=True\<close> is a stable sort into descending order: elements
  with equal keys keep the order they had. The keys are pairs compared lexicographically.
  A key is defined for a pair of numbers that are not NaN; the filter lets nothing else
  through (\<open>eligible_rank_key\<close>), so the comparison of the sort never raises, and the
  model's \<open>TypeError\<close> for an undefined key is unreachable from \<open>scan_geckoterminal\<close>.
\<close>

section \<open>Endpoints\<close>

definition PULSECHAIN_SLUG :: string where
  "PULSECHAIN_SLUG = ''pulsechain''"

definition GT_TRENDING :: string where
  "GT_TRENDING = ''https://api.geckoterminal.com/api/v2/networks/'' @ PULSECHAIN_SLUG @
     ''/trending_pools''"

definition GT_NEW :: string where
  "GT_NEW = ''https://api.geckoterminal.com/api/v2/networks/'' @ PULSECHAIN_SLUG @ ''/new_pools''"

type_synonym clock = "nat \<Rightarrow> int"

definition scan_url :: "string \<Rightarrow> string" where
  "scan_url kind = (if kind = ''trending'' then GT_TRENDING else GT_NEW)"

section \<open>The loop\<close>

definition scan_item :: "iso_parser \<Rightarrow> int \<Rightarrow> pyval \<Rightarrow> (metrics \<times> string) option result" where
  "scan_item isoparse now item =
     rbind (summarize_pool isoparse now item) (\<lambda>tm.
     rbind (looks_like_memecoin (snd tm)) (\<lambda>ok.
     Inr (if ok then Some (snd tm, fst tm) else None)))"

fun scan_loop ::
  "iso_parser \<Rightarrow> clock \<Rightarrow> nat \<Rightarrow> pyval list \<Rightarrow> (metrics \<times> string) list result" where
  "scan_loop isoparse clock i [] = Inr []"
| "scan_loop isoparse clock i (item # items) =
     rbind (scan_item isoparse (clock i) item) (\<lambda>r.
     rbind (scan_loop isoparse clock (Suc i) items) (\<lambda>rs.
     Inr (case r of None \<Rightarrow> rs | Some x \<Rightarrow> x # rs)))"

section \<open>Ranking\<close>

definition rank_key :: "metrics \<times> string \<Rightarrow> (xrat \<times> xrat) option" where
  "rank_key r =
     (case num_key (txs (fst r)) of
        Inr (Some t) \<Rightarrow> (case float_key (liq (fst r)) of Some l \<Rightarrow> Some (t, l) | None \<Rightarrow> None)
      | _ \<Rightarrow> None)"

definition sort_desc :: "('a \<Rightarrow> 'k::linorder) \<Rightarrow> 'a list \<Rightarrow> 'a list" where
  "sort_desc f xs = rev (sort_key f (rev xs))"

definition ranked :: "(metrics \<times> string) list \<Rightarrow> (metrics \<times> string) list result" where
  "ranked results =
     (if list_all (\<lambda>r. rank_key r \<noteq> None) results
      then Inr (sort_desc (\<lambda>r. the (rank_key r)) results)
      else Inl TypeError)"

definition NO_CANDIDATES :: string where
  "NO_CANDIDATES = ''(no candidates found)''"

definition top_picks :: "(metrics \<times> string) list \<Rightarrow> string list" where
  "top_picks results = (let ts = take 10 (map snd results) in if ts = [] then [NO_CANDIDATES] else ts)"

section \<open>The orchestrator\<close>

definition scan_geckoterminal ::
  "iso_parser \<Rightarrow> clock \<Rightarrow> client \<Rightarrow> string \<Rightarrow> ('a net_scheme, string list) task" where
  "scan_geckoterminal isoparse clock client kind =
     (let url = scan_url kind in
      task_bind (async_client client (\<lambda>c.
        fetch_json c url [(''include'', ''base_token,quote_token'')])) (\<lambda>data.
      task_lift (
        rbind (dict_get data ''data'' (PList [])) (\<lambda>pools.
        rbind (py_iter pools) (\<lambda>items.
        rbind (scan_loop isoparse clock 0 items) (\<lambda>results.
        rbind (ranked results) (\<lambda>sorted_results.
        Inr (top_picks sorted_results))))))))"

text \<open>What a scan returns, as a function of what the network answers.\<close>

definition scanned :: "iso_parser \<Rightarrow> clock \<Rightarrow> client \<Rightarrow> string \<Rightarrow> string list result" where
  "scanned isoparse clock client kind =
     rbind (fetched client (scan_url kind) [(''include'', ''base_token,quote_token'')]) (\<lambda>data.
     rbind (dict_get data ''data'' (PList [])) (\<lambda>pools.
     rbind (py_iter pools) (\<lambda>items.
     rbind (scan_loop isoparse clock 0 items) (\<lambda>results.
     rbind (ranked results) (\<lambda>sorted_results.
     Inr (top_picks sorted_results))))))"

lemmas scan_eval = scanned_def top_picks_def NO_CANDIDATES_def ranked_def
  sort_desc_def rank_key_def scan_item_def scan_url_def GT_TRENDING_def GT_NEW_def
  PULSECHAIN_SLUG_def

section \<open>Descending stable sort\<close>

lemma mset_sort_desc [simp]: "mset (sort_desc f xs) = mset xs"
  by (simp add: sort_desc_def)

lemma set_sort_desc [simp]: "set (sort_desc f xs) = set xs"
  by (simp add: sort_desc_def)

lemma length_sort_desc [simp]: "length (sort_desc f xs) = length xs"
  by (simp add: sort_desc_def)

lemma sort_desc_Nil [simp]: "sort_desc f [] = []"
  by (simp add: sort_desc_def)

lemma sort_desc_eq_Nil [simp]: "sort_desc f xs = [] \<longleftrightarrow> xs = []"
  by (metis length_sort_desc length_0_conv)

lemma sort_desc_descending: "sorted_wrt (\<lambda>x y. f y \<le> f x) (sort_desc f xs)"
proof -
  have "sorted (map f (sort_key f (rev xs)))" by simp
  then have "sorted_wrt (\<lambda>x y. f x \<le> f y) (sort_key f (rev xs))"
    by (simp add: sorted_map)
  then show ?thesis
    by (simp add: sort_desc_def sorted_wrt_rev)
qed

lemma sort_desc_stable: "filter (\<lambda>x. f x = k) (sort_desc f xs) = filter (\<lambda>x. f x = k) xs"
  by (simp add: sort_desc_def sort_key_stable flip: rev_filter)


section \<open>The loop keeps exactly the eligible pools\<close>

lemma scan_item_Some:
  "scan_item isoparse now item = Inr (Some r) \<longleftrightarrow>
     summarize_pool isoparse now item = Inr (snd r, fst r) \<and> looks_like_memecoin (fst r) = Inr True"
  by (cases r) (auto simp: scan_item_def rbind_def split: sum.splits)

lemma scan_item_None:
  "scan_item isoparse now item = Inr None \<longleftrightarrow>
     (\<exists>t m. summarize_pool isoparse now item = Inr (t, m) \<and> looks_like_memecoin m = Inr False)"
  by (auto simp: scan_item_def rbind_def split: sum.splits)

lemma scan_item_raises:
  "scan_item isoparse now item = Inl e \<longleftrightarrow>
     summarize_pool isoparse now item = Inl e \<or>
     (\<exists>t m. summarize_pool isoparse now item = Inr (t, m) \<and> looks_like_memecoin m = Inl e)"
  by (auto simp: scan_item_def rbind_def split: sum.splits)

text \<open>What the loop collects, as a specification: the eligible pools in the order of
  the response, each with the clock reading of its turn.\<close>

fun eligible_reports ::
  "iso_parser \<Rightarrow> clock \<Rightarrow> nat \<Rightarrow> pyval list \<Rightarrow> (metrics \<times> string) list" where
  "eligible_reports isoparse clock i [] = []"
| "eligible_reports isoparse clock i (item # items) =
     (case scan_item isoparse (clock i) item of
        Inr (Some r) \<Rightarrow> r # eligible_reports isoparse clock (Suc i) items
      | _ \<Rightarrow> eligible_reports isoparse clock (Suc i) items)"

lemma scan_loop_returns:
  "scan_loop isoparse clock i items = Inr rs \<Longrightarrow> rs = eligible_reports isoparse clock i items"
proof (induction items arbitrary: i rs)
  case Nil
  then show ?case by simp
next
  case (Cons item items)
  from Cons.prems obtain r rs' where
    r: "scan_item isoparse (clock i) item = Inr r" and
    rs': "scan_loop isoparse clock (Suc i) items = Inr rs'" and
    rs: "rs = (case r of None \<Rightarrow> rs' | Some x \<Rightarrow> x # rs')"
    by (auto simp: rbind_eq_Inr_iff)
  from Cons.IH [OF rs'] r rs show ?case
    by (cases r) simp_all
qed

lemma scan_loop_total:
  "\<forall>j < length items. returns (scan_item isoparse (clock (i + j)) (items ! j)) \<Longrightarrow>
     scan_loop isoparse clock i items = Inr (eligible_reports isoparse clock i items)"
proof (induction items arbitrary: i)
  case Nil
  show ?case by simp
next
  case (Cons item items)
  from Cons.prems [rule_format, of 0] obtain r where r: "scan_item isoparse (clock i) item = Inr r"
    by (auto simp: returns_iff)
  have "\<forall>j < length items. returns (scan_item isoparse (clock (Suc i + j)) (items ! j))"
  proof (intro allI impI)
    fix j assume "j < length items"
    then have "Suc j < length (item # items)" by simp
    from Cons.prems [rule_format, OF this] 
    show "returns (scan_item isoparse (clock (Suc i + j)) (items ! j))" by simp
  qed
  from Cons.IH [OF this] r show ?case
    by (cases r) simp_all
qed

lemma scan_loop_total0:
  "\<forall>j < length items. returns (scan_item isoparse (clock j) (items ! j)) \<Longrightarrow>
     scan_loop isoparse clock 0 items = Inr (eligible_reports isoparse clock 0 items)"
  using scan_loop_total [of items isoparse clock 0] by simp

lemma scan_loop_first_error:
  "\<forall>j < n. returns (scan_item isoparse (clock (i + j)) (items ! j)) \<Longrightarrow> n < length items \<Longrightarrow>
   scan_item isoparse (clock (i + n)) (items ! n) = Inl e \<Longrightarrow>
     scan_loop isoparse clock i items = Inl e"
proof (induction items arbitrary: i n)
  case Nil
  then show ?case by simp
next
  case (Cons item items)
  show ?case
  proof (cases n)
    case 0
    with Cons.prems show ?thesis by simp
  next
    case (Suc k)
    from Cons.prems(1) [rule_format, of 0] Suc obtain r where
      r: "scan_item isoparse (clock i) item = Inr r"
      by (auto simp: returns_iff)
    have "\<forall>j < k. returns (scan_item isoparse (clock (Suc i + j)) (items ! j))"
    proof (intro allI impI)
      fix j assume "j < k"
      then have "Suc j < n" using Suc by simp
      from Cons.prems(1) [rule_format, OF this]
      show "returns (scan_item isoparse (clock (Suc i + j)) (items ! j))" by simp
    qed
    moreover have "k < length items" "scan_item isoparse (clock (Suc i + k)) (items ! k) = Inl e"
      using Cons.prems(2,3) Suc by simp_all
    ultimately have "scan_loop isoparse clock (Suc i) items = Inl e"
      by (rule Cons.IH)
    with r show ?thesis by simp
  qed
qed

lemma eligible_reports_eligible:
  "r \<in> set (eligible_reports isoparse clock i items) \<Longrightarrow> looks_like_memecoin (fst r) = Inr True"
proof (induction items arbitrary: i)
  case Nil
  then show ?case by simp
next
  case (Cons item items)
  then show ?case
    by (auto simp: scan_item_Some split: sum.splits option.splits)
qed

lemma eligible_reports_length: "length (eligible_reports isoparse clock i items) \<le> length items"
  by (induction items arbitrary: i) (auto split: sum.splits option.splits intro: le_SucI)

section \<open>Eligible pools have ranking keys\<close>

lemma eligible_rank_key:
  assumes "looks_like_memecoin (fst r) = Inr True"
  shows "\<exists>t l. rank_key r = Some (t, l) \<and> XFin 20 \<le> t \<and> XFin 3000 \<le> l"
proof -
  from assms have "float_ge_int (liq (fst r)) MIN_LIQ_USD" "py_ge_int (txs (fst r)) MIN_1H_TXNS = Inr True"
    by (simp_all add: looks_like_memecoin_True_iff)
  from float_ge_int_key [OF this(1)] py_ge_int_True_key [OF this(2)] show ?thesis
    by (auto simp: rank_key_def thresholds)
qed

lemma ranked_eligible:
  "\<forall>r\<in>set rs. looks_like_memecoin (fst r) = Inr True \<Longrightarrow>
     ranked rs = Inr (sort_desc (\<lambda>r. the (rank_key r)) rs)"
proof -
  assume a: "\<forall>r\<in>set rs. looks_like_memecoin (fst r) = Inr True"
  have "list_all (\<lambda>r. rank_key r \<noteq> None) rs"
    unfolding list_all_iff
  proof
    fix r assume "r \<in> set rs"
    with a have "looks_like_memecoin (fst r) = Inr True" by blast
    from eligible_rank_key [OF this] show "rank_key r \<noteq> None" by auto
  qed
  then show ?thesis by (simp add: ranked_def)
qed

lemma ranked_eligible_reports:
  "ranked (eligible_reports isoparse clock i items) =
     Inr (sort_desc (\<lambda>r. the (rank_key r)) (eligible_reports isoparse clock i items))"
  by (rule ranked_eligible) (blast dest: eligible_reports_eligible)

section \<open>The result list\<close>

lemma top_picks_Nil [simp]: "top_picks [] = [NO_CANDIDATES]"
  by (simp add: top_picks_def)

lemma top_picks_nonempty: "rs \<noteq> [] \<Longrightarrow> top_picks rs = take 10 (map snd rs)"
  by (cases rs) (simp_all add: top_picks_def)

lemma length_top_picks: "length (top_picks rs) = (if rs = [] then 1 else min 10 (length rs))"
  by (cases rs) (simp_all add: top_picks_def Let_def)


lemma top_picks_bounds: "1 \<le> length (top_picks rs) \<and> length (top_picks rs) \<le> 10"
  by (cases rs) (simp_all add: length_top_picks)

section \<open>The contract of the orchestrator\<close>

text \<open>
  What the design promises of a scan, as a function of the eligible pools in response
  order: rank them by transaction count, then liquidity, both descending, ties in
  response order; report the first ten texts, or the placeholder when there is none.
\<close>

definition scan_spec :: "(metrics \<times> string) list \<Rightarrow> string list" where
  "scan_spec rs = top_picks (sort_desc (\<lambda>r. the (rank_key r)) rs)"

definition scan_params :: "(string \<times> string) list" where
  "scan_params = [(''include'', ''base_token,quote_token'')]"

lemma scanned_unfold:
  "scanned isoparse clock client kind =
     rbind (fetched client (scan_url kind) scan_params) (\<lambda>data.
     rbind (dict_get data ''data'' (PList [])) (\<lambda>pools.
     rbind (py_iter pools) (\<lambda>items.
     rbind (scan_loop isoparse clock 0 items) (\<lambda>results.
     Inr (scan_spec results)))))"
proof -
  have "rbind (scan_loop isoparse clock 0 items) (\<lambda>results. rbind (ranked results) (\<lambda>s. Inr (top_picks s)))
      = rbind (scan_loop isoparse clock 0 items) (\<lambda>results. Inr (scan_spec results))" for items
  proof (cases "scan_loop isoparse clock 0 items")
    case (Inl e)
    then show ?thesis by simp
  next
    case (Inr rs)
    then have "rs = eligible_reports isoparse clock 0 items" by (rule scan_loop_returns)
    with Inr show ?thesis by (simp add: ranked_eligible_reports scan_spec_def)
  qed
  then show ?thesis
    by (simp add: scanned_def scan_params_def)
qed

text \<open>A scan is one session with one request, and its result is \<open>scanned\<close>: this is
  so for every answer of the network, so nothing is retried and no session stays open.\<close>

lemma run_scan_geckoterminal:
  "run_state (scan_geckoterminal isoparse clock client kind) s =
     (scanned isoparse clock client kind, session (scan_url kind) scan_params s)"
  by (simp add: scan_geckoterminal_def scanned_def scan_params_def run_session
      split: sum.split)

lemma acts_scan_geckoterminal:
  "acts (scan_geckoterminal isoparse clock client kind) (scanned isoparse clock client kind)
     (session (scan_url kind) scan_params)"
  by (simp add: acts_def run_scan_geckoterminal)

text \<open>
  C1: the orchestrator implements its contract. When the request returns a JSON object
  whose \<open>data\<close> member (an empty list if absent) can be iterated, and no item makes the
  summarizer or the filter raise, the scan returns \<open>scan_spec\<close> of the eligible pools of
  the response.
\<close>

theorem scan_geckoterminal_refines:
  assumes "fetched client (scan_url kind) scan_params = Inr (PDict env)"
    and "py_iter (lookup_or env ''data'' (PList [])) = Inr items"
    and "\<forall>j < length items. returns (scan_item isoparse (clock j) (items ! j))"
  shows "run_state (scan_geckoterminal isoparse clock client kind) s =
     (Inr (scan_spec (eligible_reports isoparse clock 0 items)), session (scan_url kind) scan_params s)"
  using assms by (simp add: run_scan_geckoterminal scanned_unfold scan_loop_total0)

text \<open>
  Whenever a scan returns, the result has between one and ten entries: it is never
  empty and never longer than the cap.
\<close>

lemma scan_geckoterminal_bounds:
  "run_state (scan_geckoterminal isoparse clock client kind) s = (Inr out, s')
     \<Longrightarrow> 1 \<le> length out \<and> length out \<le> 10"
proof -
  assume "run_state (scan_geckoterminal isoparse clock client kind) s = (Inr out, s')"
  then obtain rs where "out = top_picks rs"
    by (auto simp: run_scan_geckoterminal scanned_unfold rbind_eq_Inr_iff scan_spec_def)
  then show ?thesis using top_picks_bounds [of rs] by simp
qed

text \<open>
  C16: a failure of the request is the failure of the scan, whether the transport
  failed, the status was an error or the body could not be decoded: nothing is retried
  and no partial result is returned, even when an error response carries a listing.
\<close>

theorem scan_fetch_failure:
  assumes "client (scan_url kind) scan_params HTTP_TIMEOUT = Inl e \<or>
     (\<exists>r. client (scan_url kind) scan_params HTTP_TIMEOUT = Inr r \<and>
        (status_error r = Some e \<or> status_error r = None \<and> payload r = Inl e))"
  shows "run_state (scan_geckoterminal isoparse clock client kind) s =
     (Inl e, session (scan_url kind) scan_params s)"
  using assms
  by (auto simp: run_scan_geckoterminal scanned_unfold fetched_transport fetched_status fetched_body)

text \<open>
  C3: the ranking is a permutation of the eligible pools in descending order of the key
  (transaction count, then liquidity).
\<close>

theorem ranked_sorted_perm:
  "ranked rs = Inr ss \<Longrightarrow>
     mset ss = mset rs \<and> sorted_wrt (\<lambda>x y. the (rank_key y) \<le> the (rank_key x)) ss"
  by (auto simp: ranked_def sort_desc_descending split: if_splits)

text \<open>
  C25: the ranking is stable: pools with the same key appear in the order of the
  response.
\<close>

theorem ranked_stable:
  "ranked rs = Inr ss \<Longrightarrow>
     filter (\<lambda>r. the (rank_key r) = k) ss = filter (\<lambda>r. the (rank_key r) = k) rs"
  by (auto simp: ranked_def sort_desc_stable split: if_splits)


lemma eligible_reports_text:
  "r \<in> set (eligible_reports isoparse clock i items) \<Longrightarrow> take 3 (snd r) = bullet"
proof (induction items arbitrary: i)
  case Nil
  then show ?case by simp
next
  case (Cons item items)
  have "take 3 (snd x) = bullet" if "scan_item isoparse (clock i) item = Inr (Some x)" for x
    using that
    by (auto simp: scan_item_Some summarize_pool_cases rbind_eq_Inr_iff split: pyval.splits)
      (metis pool_text_bullet)
  with Cons show ?case by (auto split: sum.splits option.splits)
qed

lemma scan_spec_placeholder_iff:
  assumes "\<forall>r\<in>set rs. take 3 (snd r) = bullet"
  shows "scan_spec rs = [NO_CANDIDATES] \<longleftrightarrow> rs = []"
proof
  assume a: "scan_spec rs = [NO_CANDIDATES]"
  show "rs = []"
  proof (rule ccontr)
    assume n: "rs \<noteq> []"
    let ?ss = "sort_desc (\<lambda>r. the (rank_key r)) rs"
    from n have "?ss \<noteq> []" by simp
    with a have "take 10 (map snd ?ss) = [NO_CANDIDATES]"
      by (simp add: scan_spec_def top_picks_nonempty)
    then have "NO_CANDIDATES \<in> set (map snd ?ss)" by (metis in_set_takeD list.set_intros(1))
    with assms have "take 3 NO_CANDIDATES = bullet" by auto
    then show False by (simp add: NO_CANDIDATES_def bullet_def)
  qed
qed (simp add: scan_spec_def)

lemma length_scan_spec: "length (scan_spec rs) = min 10 (max 1 (length rs))"
  by (cases rs) (simp_all add: scan_spec_def length_top_picks)

text \<open>
  C5: the cap. A scan that completes returns ten entries as soon as ten pools are
  eligible, all of them when there are fewer, and one entry, the placeholder, when
  there is none.
\<close>

theorem scan_geckoterminal_length:
  assumes "fetched client (scan_url kind) scan_params = Inr (PDict env)"
    and "py_iter (lookup_or env ''data'' (PList [])) = Inr items"
    and "\<forall>j < length items. returns (scan_item isoparse (clock j) (items ! j))"
  shows "\<exists>out. run_state (scan_geckoterminal isoparse clock client kind) s =
     (Inr out, session (scan_url kind) scan_params s) \<and>
           length out = min 10 (max 1 (length (eligible_reports isoparse clock 0 items)))"
  using assms by (simp add: run_scan_geckoterminal scanned_unfold scan_loop_total0 length_scan_spec)

text \<open>
  C6: the placeholder means "none eligible" and nothing else: a completed scan returns
  the one-element list with the placeholder exactly when no pool of the response is
  eligible. No summary can be mistaken for it, since every summary starts with the
  bullet.
\<close>

theorem scan_placeholder_iff:
  assumes "fetched client (scan_url kind) scan_params = Inr (PDict env)"
    and "py_iter (lookup_or env ''data'' (PList [])) = Inr items"
    and "\<forall>j < length items. returns (scan_item isoparse (clock j) (items ! j))"
  shows "fst (run_state (scan_geckoterminal isoparse clock client kind) s) = Inr [NO_CANDIDATES] \<longleftrightarrow>
           eligible_reports isoparse clock 0 items = []"
proof -
  have "\<forall>r\<in>set (eligible_reports isoparse clock 0 items). take 3 (snd r) = bullet"
    by (blast dest: eligible_reports_text)
  from scan_spec_placeholder_iff [OF this] assms show ?thesis
    by (simp add: run_scan_geckoterminal scanned_unfold scan_loop_total0)
qed

text \<open>
  C24: an envelope whose \<open>data\<close> member is present but cannot be iterated (null, a
  number, a boolean) makes the scan raise; only an absent member is read as the empty
  list.
\<close>

theorem scan_bad_envelope:
  assumes "fetched client (scan_url kind) scan_params = Inr (PDict env)"
    and "py_iter (lookup_or env ''data'' (PList [])) = Inl e"
  shows "run_state (scan_geckoterminal isoparse clock client kind) s =
     (Inl e, session (scan_url kind) scan_params s)"
  using assms by (simp add: run_scan_geckoterminal scanned_unfold)

text \<open>
  C23: one record on which the summarizer or the filter raises ends the scan with that
  exception, whatever the records before and after it are: no partial result.
\<close>

theorem scan_aborts_on_bad_item:
  assumes "fetched client (scan_url kind) scan_params = Inr (PDict env)"
    and "py_iter (lookup_or env ''data'' (PList [])) = Inr items"
    and "\<forall>j < n. returns (scan_item isoparse (clock j) (items ! j))"
    and "n < length items"
    and "scan_item isoparse (clock n) (items ! n) = Inl e"
  shows "run_state (scan_geckoterminal isoparse clock client kind) s =
     (Inl e, session (scan_url kind) scan_params s)"
proof -
  from scan_loop_first_error [of n isoparse clock 0 items e] assms(3-5)
  have "scan_loop isoparse clock 0 items = Inl e" by simp
  with assms(1,2) show ?thesis by (simp add: run_scan_geckoterminal scanned_unfold)
qed


section \<open>A worked response\<close>

text \<open>
  One concrete run, used to instantiate the theorems above: a parser that reads every
  timestamp as the instant 0 (UTC), a clock that stands two hours later, and a response
  with three pools: an eligible one, one with too little liquidity, an eligible one
  with fewer transactions.
\<close>

definition ex_isoparse :: iso_parser where
  "ex_isoparse = (\<lambda>v. Some \<lparr>wall_us = 0, utcoffset_us = Some 0\<rparr>)"

definition ex_clock :: clock where
  "ex_clock = (\<lambda>i. 7200000000)"

definition ex_attrs :: "string \<Rightarrow> string \<Rightarrow> int \<Rightarrow> int \<Rightarrow> (string \<times> pyval) list" where
  "ex_attrs symbol reserve buys sells =
     [(''base_token_symbol'', PStr symbol), (''quote_token_symbol'', PStr ''WPLS''),
      (''reserve_in_usd'', PStr reserve), (''fdv_usd'', PInt 1000000),
      (''price_in_usd'', PStr ''0.5''),
      (''buys_1h'', PInt buys), (''sells_1h'', PInt sells),
      (''pool_created_at'', PStr ''2024-01-01T00:00:00Z''),
      (''url'', PStr ''https://example.org/p'')]"

definition ex_pool :: "string \<Rightarrow> string \<Rightarrow> int \<Rightarrow> int \<Rightarrow> pyval" where
  "ex_pool symbol reserve buys sells = PDict [(''attributes'', PDict (ex_attrs symbol reserve buys sells))]"

definition ex_items :: "pyval list" where
  "ex_items = [ex_pool ''AAA'' ''5000'' 15 10, ex_pool ''BBB'' ''1000'' 90 90,
               ex_pool ''CCC'' ''7000.5'' 30 10]"

definition ex_http :: client where
  "ex_http = ex_respond (PDict [(''data'', PList ex_items)])"

lemmas ex_defs = ex_isoparse_def ex_clock_def ex_items_def ex_http_def

lemma ex_pool_attributes [simp]:
  "pool_attributes (ex_pool symbol reserve buys sells) = Inr (PDict (ex_attrs symbol reserve buys sells))"
  by (simp add: ex_pool_def pool_attributes_def lookup_or_def)

abbreviation ex_text :: "string \<Rightarrow> string \<Rightarrow> int \<Rightarrow> int \<Rightarrow> string" where
  "ex_text symbol reserve buys sells \<equiv>
     pool_text ex_isoparse 7200000000 (ex_attrs symbol reserve buys sells) (PInt (buys + sells))"

lemmas ex_item_eval = scan_item_def summarize_pool_attrs [OF ex_pool_attributes] ex_defs
  ex_attrs_def pool_txs_def pool_metrics_def usd_eval age_eval filter_eval

lemma ex_scan_item_A:
  "scan_item ex_isoparse (ex_clock i) (ex_pool ''AAA'' ''5000'' 15 10) =
     Inr (Some (\<lparr>fdv = Finite 1000000, liq = Finite 5000, txs = PInt 25, age = Finite 2\<rparr>,
                ex_text ''AAA'' ''5000'' 15 10))"
  by (simp add: ex_item_eval)

lemma ex_scan_item_B:
  "scan_item ex_isoparse (ex_clock i) (ex_pool ''BBB'' ''1000'' 90 90) = Inr None"
  by (simp add: ex_item_eval)

lemma ex_scan_item_C:
  "scan_item ex_isoparse (ex_clock i) (ex_pool ''CCC'' ''7000.5'' 30 10) =
     Inr (Some (\<lparr>fdv = Finite 1000000, liq = Finite (14001 / 2), txs = PInt 40, age = Finite 2\<rparr>,
                ex_text ''CCC'' ''7000.5'' 30 10))"
  by (simp add: ex_item_eval)

lemmas ex_scan_items = ex_scan_item_A ex_scan_item_B ex_scan_item_C

lemma ex_eligible_reports:
  "eligible_reports ex_isoparse ex_clock 0 ex_items =
     [(\<lparr>fdv = Finite 1000000, liq = Finite 5000, txs = PInt 25, age = Finite 2\<rparr>,
       ex_text ''AAA'' ''5000'' 15 10),
      (\<lparr>fdv = Finite 1000000, liq = Finite (14001 / 2), txs = PInt 40, age = Finite 2\<rparr>,
       ex_text ''CCC'' ''7000.5'' 30 10)]"
  by (simp add: ex_items_def ex_scan_items)

lemma ex_scan_spec:
  "scan_spec (eligible_reports ex_isoparse ex_clock 0 ex_items) =
     [ex_text ''CCC'' ''7000.5'' 30 10, ex_text ''AAA'' ''5000'' 15 10]"
  by (simp add: ex_eligible_reports scan_spec_def sort_desc_def rank_key_def top_picks_def)

lemma ex_items_return:
  "\<forall>j < length ex_items. returns (scan_item ex_isoparse (ex_clock j) (ex_items ! j))"
  by (simp add: ex_items_def All_less_Suc ex_scan_items)

theorem scan_geckoterminal_refines_witness:
  "fetched ex_http (scan_url ''trending'') scan_params = Inr (PDict [(''data'', PList ex_items)]) \<and>
   py_iter (lookup_or [(''data'', PList ex_items)] ''data'' (PList [])) = Inr ex_items \<and>
   list_all (\<lambda>j. returns (scan_item ex_isoparse (ex_clock j) (ex_items ! j)))
     [0..<length ex_items] \<and>
   run_state (scan_geckoterminal ex_isoparse ex_clock ex_http ''trending'') ex_net =
     (Inr [ex_text ''CCC'' ''7000.5'' 30 10, ex_text ''AAA'' ''5000'' 15 10], session (scan_url ''trending'') scan_params ex_net)"
proof -
  have h1: "fetched ex_http (scan_url ''trending'') scan_params = Inr (PDict [(''data'', PList ex_items)])"
    by (simp add: ex_http_def)
  have h2: "py_iter (lookup_or [(''data'', PList ex_items)] ''data'' (PList [])) = Inr ex_items"
    by (simp add: lookup_or_def)
  have h3: "list_all (\<lambda>j. returns (scan_item ex_isoparse (ex_clock j) (ex_items ! j)))
      [0..<length ex_items]"
    using ex_items_return by (simp add: list_all_iff)
  from scan_geckoterminal_refines
    [where isoparse = ex_isoparse and clock = ex_clock and s = ex_net and client = ex_http
       and kind = "''trending''", OF h1 h2 ex_items_return]
    h1 h2 h3
  show ?thesis by (simp only: ex_scan_spec simp_thms)
qed

theorem scan_fetch_failure_witness:
  "(ex_status 429 (PDict [(''data'', PList ex_items)]) (scan_url ''trending'') scan_params HTTP_TIMEOUT
      = Inl (FetchFailed (BadStatus 429)) \<or>
    (\<exists>r. ex_status 429 (PDict [(''data'', PList ex_items)]) (scan_url ''trending'') scan_params HTTP_TIMEOUT
          = Inr r \<and>
       (status_error r = Some (FetchFailed (BadStatus 429)) \<or>
        status_error r = None \<and> payload r = Inl (FetchFailed (BadStatus 429))))) \<and>
   run_state (scan_geckoterminal ex_isoparse ex_clock (ex_status 429 (PDict [(''data'', PList ex_items)])) ''trending'') ex_net =
     (Inl (FetchFailed (BadStatus 429)), session (scan_url ''trending'') scan_params ex_net)"
proof -
  have h: "ex_status 429 (PDict [(''data'', PList ex_items)]) (scan_url ''trending'') scan_params HTTP_TIMEOUT
      = Inl (FetchFailed (BadStatus 429)) \<or>
    (\<exists>r. ex_status 429 (PDict [(''data'', PList ex_items)]) (scan_url ''trending'') scan_params HTTP_TIMEOUT
          = Inr r \<and>
       (status_error r = Some (FetchFailed (BadStatus 429)) \<or>
        status_error r = None \<and> payload r = Inl (FetchFailed (BadStatus 429))))"
    by (simp add: ex_status_def)
  from scan_fetch_failure [where client = "ex_status 429 (PDict [(''data'', PList ex_items)])"
      and kind = "''trending''" and e = "FetchFailed (BadStatus 429)" and isoparse = ex_isoparse
      and clock = ex_clock] h
  show ?thesis by blast
qed

text \<open>The ranking example of the design: A (50 transactions, liquidity 100),
  B (50, 200), C (10, 500) come out as B, A, C.\<close>

definition ex_rank :: "string \<Rightarrow> int \<Rightarrow> rat \<Rightarrow> metrics \<times> string" where
  "ex_rank name n l = (\<lparr>fdv = Finite 0, liq = Finite l, txs = PInt n, age = Finite 0\<rparr>, name)"

lemma ex_rank_key [simp]: "rank_key (ex_rank name n l) = Some (XFin (of_int n), XFin l)"
  by (simp add: rank_key_def ex_rank_def)

lemma ex_ranked_ABC:
  "ranked [ex_rank ''A'' 50 100, ex_rank ''B'' 50 200, ex_rank ''C'' 10 500] =
     Inr [ex_rank ''B'' 50 200, ex_rank ''A'' 50 100, ex_rank ''C'' 10 500]"
  by (simp add: ranked_def sort_desc_def)

theorem ranked_sorted_perm_witness:
  "ranked [ex_rank ''A'' 50 100, ex_rank ''B'' 50 200, ex_rank ''C'' 10 500] =
     Inr [ex_rank ''B'' 50 200, ex_rank ''A'' 50 100, ex_rank ''C'' 10 500] \<and>
   mset [ex_rank ''B'' 50 200, ex_rank ''A'' 50 100, ex_rank ''C'' 10 500] =
     mset [ex_rank ''A'' 50 100, ex_rank ''B'' 50 200, ex_rank ''C'' 10 500] \<and>
   sorted_wrt (\<lambda>x y. the (rank_key y) \<le> the (rank_key x))
     [ex_rank ''B'' 50 200, ex_rank ''A'' 50 100, ex_rank ''C'' 10 500]"
  using ranked_sorted_perm [OF ex_ranked_ABC] ex_ranked_ABC by blast

lemma ex_ranked_ties:
  "ranked [ex_rank ''A'' 50 100, ex_rank ''B'' 60 100, ex_rank ''C'' 50 100] =
     Inr [ex_rank ''B'' 60 100, ex_rank ''A'' 50 100, ex_rank ''C'' 50 100]"
  by (simp add: ranked_def sort_desc_def)

theorem ranked_stable_witness:
  "ranked [ex_rank ''A'' 50 100, ex_rank ''B'' 60 100, ex_rank ''C'' 50 100] =
     Inr [ex_rank ''B'' 60 100, ex_rank ''A'' 50 100, ex_rank ''C'' 50 100] \<and>
   filter (\<lambda>r. the (rank_key r) = (XFin 50, XFin 100))
     [ex_rank ''B'' 60 100, ex_rank ''A'' 50 100, ex_rank ''C'' 50 100] =
   filter (\<lambda>r. the (rank_key r) = (XFin 50, XFin 100))
     [ex_rank ''A'' 50 100, ex_rank ''B'' 60 100, ex_rank ''C'' 50 100]"
  using ranked_stable [OF ex_ranked_ties, of "(XFin 50, XFin 100)"] ex_ranked_ties by blast




text \<open>Further responses: fifteen eligible pools, none, a null list, a broken record.\<close>

definition ex_fifteen :: "pyval list" where
  "ex_fifteen = replicate 15 (ex_pool ''AAA'' ''5000'' 15 10)"

definition ex_broken :: "pyval list" where
  "ex_broken = [ex_pool ''AAA'' ''5000'' 15 10, PDict [(''attributes'', PNone)],
                ex_pool ''CCC'' ''7000.5'' 30 10]"

lemma ex_eligible_replicate:
  "eligible_reports ex_isoparse ex_clock i (replicate n (ex_pool ''AAA'' ''5000'' 15 10)) =
     replicate n (\<lparr>fdv = Finite 1000000, liq = Finite 5000, txs = PInt 25, age = Finite 2\<rparr>,
                  ex_text ''AAA'' ''5000'' 15 10)"
  by (induction n arbitrary: i) (simp_all add: ex_scan_item_A)

lemma ex_fifteen_return:
  "\<forall>j < length ex_fifteen. returns (scan_item ex_isoparse (ex_clock j) (ex_fifteen ! j))"
  by (simp add: ex_fifteen_def ex_scan_item_A del: replicate_numeral)

lemma ex_scan_item_broken:
  "scan_item ex_isoparse (ex_clock i) (PDict [(''attributes'', PNone)]) = Inl AttributeError"
  by (simp add: scan_item_def summarize_pool_cases lookup_or_def)

theorem scan_geckoterminal_length_witness:
  "fetched (ex_respond (PDict [(''data'', PList ex_fifteen)])) (scan_url ''new'') scan_params
     = Inr (PDict [(''data'', PList ex_fifteen)]) \<and>
   py_iter (lookup_or [(''data'', PList ex_fifteen)] ''data'' (PList [])) = Inr ex_fifteen \<and>
   list_all (\<lambda>j. returns (scan_item ex_isoparse (ex_clock j) (ex_fifteen ! j)))
     [0..<length ex_fifteen] \<and>
   (\<exists>out. run_state (scan_geckoterminal ex_isoparse ex_clock (ex_respond (PDict [(''data'', PList ex_fifteen)])) ''new'') ex_net =
     (Inr out, session (scan_url ''new'') scan_params ex_net) \<and>
     length out = min 10 (max 1 (length (eligible_reports ex_isoparse ex_clock 0 ex_fifteen)))) \<and>
   length (eligible_reports ex_isoparse ex_clock 0 ex_fifteen) = 15"
proof -
  have h1: "fetched (ex_respond (PDict [(''data'', PList ex_fifteen)])) (scan_url ''new'') scan_params
      = Inr (PDict [(''data'', PList ex_fifteen)])"
    by simp
  have h2: "py_iter (lookup_or [(''data'', PList ex_fifteen)] ''data'' (PList [])) = Inr ex_fifteen"
    by (simp add: lookup_or_def)
  have h3: "list_all (\<lambda>j. returns (scan_item ex_isoparse (ex_clock j) (ex_fifteen ! j)))
      [0..<length ex_fifteen]"
    using ex_fifteen_return by (simp add: list_all_iff)
  have h4: "length (eligible_reports ex_isoparse ex_clock 0 ex_fifteen) = 15"
    by (simp add: ex_fifteen_def ex_eligible_replicate del: replicate_numeral)
  from scan_geckoterminal_length
    [where client = "ex_respond (PDict [(''data'', PList ex_fifteen)])" and kind = "''new''"
       and isoparse = ex_isoparse and clock = ex_clock and s = ex_net, OF h1 h2 ex_fifteen_return]
    h1 h2 h3 h4
  show ?thesis by blast
qed

theorem scan_placeholder_iff_witness:
  "fetched (ex_respond (PDict [(''data'', PList [ex_pool ''BBB'' ''1000'' 90 90])])) (scan_url ''new'') scan_params
     = Inr (PDict [(''data'', PList [ex_pool ''BBB'' ''1000'' 90 90])]) \<and>
   py_iter (lookup_or [(''data'', PList [ex_pool ''BBB'' ''1000'' 90 90])] ''data'' (PList []))
     = Inr [ex_pool ''BBB'' ''1000'' 90 90] \<and>
   list_all (\<lambda>j. returns (scan_item ex_isoparse (ex_clock j) ([ex_pool ''BBB'' ''1000'' 90 90] ! j)))
     [0..<length [ex_pool ''BBB'' ''1000'' 90 90]] \<and>
   eligible_reports ex_isoparse ex_clock 0 [ex_pool ''BBB'' ''1000'' 90 90] = [] \<and>
   fst (run_state (scan_geckoterminal ex_isoparse ex_clock
       (ex_respond (PDict [(''data'', PList [ex_pool ''BBB'' ''1000'' 90 90])])) ''new'') ex_net)
     = Inr [NO_CANDIDATES]"
proof -
  let ?items = "[ex_pool ''BBB'' ''1000'' 90 90]"
  have h1: "fetched (ex_respond (PDict [(''data'', PList ?items)])) (scan_url ''new'') scan_params
      = Inr (PDict [(''data'', PList ?items)])"
    by simp
  have h2: "py_iter (lookup_or [(''data'', PList ?items)] ''data'' (PList [])) = Inr ?items"
    by (simp add: lookup_or_def)
  have h3: "\<forall>j < length ?items. returns (scan_item ex_isoparse (ex_clock j) (?items ! j))"
    by (simp add: ex_scan_item_B)
  have h4: "eligible_reports ex_isoparse ex_clock 0 ?items = []"
    by (simp add: ex_scan_item_B)
  from scan_placeholder_iff
    [where client = "ex_respond (PDict [(''data'', PList ?items)])" and kind = "''new''"
       and isoparse = ex_isoparse and clock = ex_clock and s = ex_net, OF h1 h2 h3]
    h1 h2 h3 h4
  show ?thesis
    by (simp add: list_all_iff)
qed

theorem scan_bad_envelope_witness:
  "fetched (ex_respond (PDict [(''data'', PNone)])) (scan_url ''trending'') scan_params
     = Inr (PDict [(''data'', PNone)]) \<and>
   py_iter (lookup_or [(''data'', PNone)] ''data'' (PList [])) = Inl TypeError \<and>
   run_state (scan_geckoterminal ex_isoparse ex_clock (ex_respond (PDict [(''data'', PNone)])) ''trending'') ex_net =
     (Inl TypeError, session (scan_url ''trending'') scan_params ex_net)"
  using scan_bad_envelope [of "ex_respond (PDict [(''data'', PNone)])" "''trending''"
      "[(''data'', PNone)]" TypeError ex_isoparse ex_clock]
  by (simp add: lookup_or_def)

theorem scan_aborts_on_bad_item_witness:
  "fetched (ex_respond (PDict [(''data'', PList ex_broken)])) (scan_url ''trending'') scan_params
     = Inr (PDict [(''data'', PList ex_broken)]) \<and>
   py_iter (lookup_or [(''data'', PList ex_broken)] ''data'' (PList [])) = Inr ex_broken \<and>
   list_all (\<lambda>j. returns (scan_item ex_isoparse (ex_clock j) (ex_broken ! j))) [0..<1] \<and>
   1 < length ex_broken \<and>
   scan_item ex_isoparse (ex_clock 1) (ex_broken ! 1) = Inl AttributeError \<and>
   run_state (scan_geckoterminal ex_isoparse ex_clock (ex_respond (PDict [(''data'', PList ex_broken)])) ''trending'') ex_net =
     (Inl AttributeError, session (scan_url ''trending'') scan_params ex_net)"
proof -
  have h1: "fetched (ex_respond (PDict [(''data'', PList ex_broken)])) (scan_url ''trending'') scan_params
      = Inr (PDict [(''data'', PList ex_broken)])"
    by simp
  have h2: "py_iter (lookup_or [(''data'', PList ex_broken)] ''data'' (PList [])) = Inr ex_broken"
    by (simp add: lookup_or_def)
  have h3: "\<forall>j < 1. returns (scan_item ex_isoparse (ex_clock j) (ex_broken ! j))"
    by (simp add: ex_broken_def ex_scan_item_A)
  have h4: "1 < length ex_broken" by (simp add: ex_broken_def)
  have h5: "scan_item ex_isoparse (ex_clock 1) (ex_broken ! 1) = Inl AttributeError"
    by (simp add: ex_broken_def ex_scan_item_broken)
  from scan_aborts_on_bad_item
    [where client = "ex_respond (PDict [(''data'', PList ex_broken)])" and kind = "''trending''"
       and isoparse = ex_isoparse and clock = ex_clock and s = ex_net, OF h1 h2 h3 h4 h5]
    h1 h2 h3 h4 h5
  show ?thesis
    by (simp add: list_all_iff)
qed

end
