(* ===== verification/Search.thy ===== *)
theory Search
  imports Scan
begin

text \<open>
  The search path of \<open>src/memecoin_bot.py\<close> without its replies: the split of the
  message (line 122), the request to DexScreener and the loop over the pairs (lines 129
  to 143), and the text sent for the lines (lines 144 to 147). The search path reads
  another API with its own extraction: mandatory subscripts for the two symbols,
  chained \<open>get\<close>s for liquidity and transactions, and \<open>float(price)\<close> without the
  normaliser.
\<close>

section \<open>Fixed texts\<close>

definition USAGE :: string where
  "USAGE = ''Usage: /search <token name>''"

definition NO_RESULTS :: string where
  "NO_RESULTS = ''(no PulseChain results found)''"

definition DEX_SEARCH :: string where
  "DEX_SEARCH = ''https://api.dexscreener.com/latest/dex/search''"

definition blank_line :: string where
  "blank_line = [CHR 0x0A, CHR 0x0A]"

section \<open>The message\<close>

text \<open>
  \<open>text.split(maxsplit=1)\<close>: leading whitespace is skipped, the first word ends at the
  next whitespace, and what follows the whitespace after it, up to the end of the
  string, is the second element; trailing whitespace of the string stays in it.
\<close>

fun take_word :: "string \<Rightarrow> string \<times> string" where
  "take_word [] = ([], [])"
| "take_word (c # s) =
     (if strip_prefix_of ws_seqs (c # s) \<noteq> None then ([], c # s)
      else (case take_word s of (w, r) \<Rightarrow> (c # w, r)))"

fun split_rest :: "string \<times> string \<Rightarrow> string list" where
  "split_rest (w, r) = (let r1 = lstrip r in if r1 = [] then [w] else [w, r1])"

definition split1 :: "string \<Rightarrow> string list" where
  "split1 s = (let s1 = lstrip s in if s1 = [] then [] else split_rest (take_word s1))"

declare split_rest.simps [simp del]

lemma split_rest_unfold [simp]:
  "split_rest (w, r) = (if lstrip r = [] then [w] else [w, lstrip r])"
  by (simp add: split_rest.simps Let_def)

lemma split1_unfold:
  "split1 s = (if lstrip s = [] then [] else split_rest (take_word (lstrip s)))"
  by (simp add: split1_def Let_def)

definition searching_text :: "string \<Rightarrow> string" where
  "searching_text term = ''Searching for '' @ [CHR 0x27] @ term @ [CHR 0x27] @ '' on PulseChain...''"

definition on_pulsechain :: "pyval \<Rightarrow> bool" where
  "on_pulsechain chain = (chain = PStr ''pulsechain'' \<or> chain = PStr ''pulse'')"

definition search_text :: "pyval \<Rightarrow> pyval \<Rightarrow> pyfloat \<Rightarrow> pyfloat \<Rightarrow> pyval \<Rightarrow> pyval \<Rightarrow> string" where
  "search_text base quote price liq_v tx url =
     bullet @ '' '' @ py_str base @ ''/'' @ py_str quote @ ''  $'' @ fmt_fixed True 8 price @
     ''  Liq $'' @ fmt_fixed True 0 liq_v @ ''  tx/hr '' @ py_str tx @ [CHR 0x0A] @ ''  '' @
     py_str url"

text \<open>The body of the loop: \<open>None\<close> for a pair of another chain (\<open>continue\<close>), the
  line of a PulseChain pair, or the exception of the first step that raises.\<close>

definition search_line :: "pyval \<Rightarrow> string option result" where
  "search_line p =
     rbind (dict_get p ''chainId'' PNone) (\<lambda>chain.
     if \<not> on_pulsechain chain then Inr None
     else
     rbind (subscript p ''baseToken'') (\<lambda>base_token.
     rbind (subscript base_token ''symbol'') (\<lambda>base.
     rbind (subscript p ''quoteToken'') (\<lambda>quote_token.
     rbind (subscript quote_token ''symbol'') (\<lambda>quote.
     rbind (dict_get p ''url'' PNone) (\<lambda>url.
     rbind (dict_get p ''liquidity'' (PDict [])) (\<lambda>liquidity.
     rbind (dict_get liquidity ''usd'' PNone) (\<lambda>liq_raw.
     let liq_v = usd liq_raw in
     rbind (dict_get p ''txns'' (PDict [])) (\<lambda>txns_b.
     rbind (dict_get txns_b ''h1'' (PDict [])) (\<lambda>h1_b.
     rbind (dict_get h1_b ''buys'' (PInt 0)) (\<lambda>buys.
     rbind (dict_get p ''txns'' (PDict [])) (\<lambda>txns_s.
     rbind (dict_get txns_s ''h1'' (PDict [])) (\<lambda>h1_s.
     rbind (dict_get h1_s ''sells'' (PInt 0)) (\<lambda>sells.
     rbind (py_add buys sells) (\<lambda>tx.
     rbind (dict_get p ''priceUsd'' PNone) (\<lambda>price.
     rbind (py_float price) (\<lambda>price_f.
     Inr (Some (search_text base quote price_f liq_v tx url)))))))))))))))))))"

fun search_loop :: "pyval list \<Rightarrow> string list result" where
  "search_loop [] = Inr []"
| "search_loop (p # pairs) =
     rbind (search_line p) (\<lambda>l.
     rbind (search_loop pairs) (\<lambda>ls.
     Inr (case l of None \<Rightarrow> ls | Some x \<Rightarrow> x # ls)))"

definition search_reply :: "string list \<Rightarrow> string" where
  "search_reply ls = (if ls = [] then NO_RESULTS else join blank_line (take 10 ls))"

text \<open>The body of the \<open>try\<close> block up to the replies: the request in its session,
  the list of pairs, the loop.\<close>

definition search_fetch :: "client \<Rightarrow> string \<Rightarrow> ('a net_scheme, string list) task" where
  "search_fetch client term =
     task_bind (async_client client (\<lambda>c. fetch_json c DEX_SEARCH [(''q'', term)])) (\<lambda>js.
     task_lift (
       rbind (dict_get js ''pairs'' (PList [])) (\<lambda>pairs.
       rbind (py_iter pairs) (\<lambda>ps.
       search_loop ps))))"

text \<open>What it returns, as a function of what the network answers.\<close>

definition searched :: "client \<Rightarrow> string \<Rightarrow> string list result" where
  "searched client term =
     rbind (fetched client DEX_SEARCH [(''q'', term)]) (\<lambda>js.
     rbind (dict_get js ''pairs'' (PList [])) (\<lambda>pairs.
     rbind (py_iter pairs) (\<lambda>ps.
     search_loop ps)))"

lemma run_search_fetch:
  "run_state (search_fetch client term) s =
     (searched client term, session DEX_SEARCH [(''q'', term)] s)"
  by (simp add: search_fetch_def searched_def run_session split: sum.split)

lemma acts_search_fetch:
  "acts (search_fetch client term) (searched client term) (session DEX_SEARCH [(''q'', term)])"
  by (simp add: acts_def run_search_fetch)

lemmas search_eval = split1_unfold searching_text_def on_pulsechain_def search_text_def
  search_reply_def searched_def blank_line_def USAGE_def NO_RESULTS_def

lemma split1_ex1: "split1 ''/search doge  '' = [''/search'', ''doge  '']"
  by (simp add: split1_unfold text_eval)

lemma split1_ex2: "split1 ''  /search   '' = [''/search'']"
  by (simp add: split1_unfold text_eval)

lemma split1_ex3: "split1 ''/search  pepe coin'' = [''/search'', ''pepe coin'']"
  by (simp add: split1_unfold text_eval)

section \<open>Splitting the message\<close>

lemma take_word_plain:
  "\<forall>c\<in>set w. \<not> ws_edge c \<Longrightarrow> take_word (w @ CHR 0x20 # r) = (w, CHR 0x20 # r)"
proof (induction w)
  case Nil
  show ?case by (simp add: ws_seqs_def)
next
  case (Cons c w)
  then have "strip_prefix_of ws_seqs (c # w @ CHR 0x20 # r) = None"
    by (intro strip_prefix_of_None) (auto simp: ws_edge_def)
  with Cons show ?case by simp
qed

lemma lstrip_space: "r \<noteq> [] \<Longrightarrow> \<not> ws_edge (hd r) \<Longrightarrow> lstrip (CHR 0x20 # r) = r"
proof -
  assume r: "r \<noteq> []" "\<not> ws_edge (hd r)"
  have "strip_prefix_of ws_seqs (CHR 0x20 # r) = Some r" by (simp add: ws_seqs_def)
  then have "lstrip (CHR 0x20 # r) = lstrip r"
    by (simp add: lstrip_def strip_left_unfold [of _ "CHR 0x20 # r"])
  with r show ?thesis by (simp add: lstrip_id)
qed

lemma length_split1: "length (split1 s) \<le> 2"
  by (cases "take_word (lstrip s)") (simp add: split1_unfold)

section \<open>The search loop\<close>

fun search_lines :: "pyval list \<Rightarrow> string list" where
  "search_lines [] = []"
| "search_lines (p # ps) =
     (case search_line p of Inr (Some l) \<Rightarrow> l # search_lines ps | _ \<Rightarrow> search_lines ps)"

lemma search_loop_total:
  "list_all (\<lambda>p. returns (search_line p)) ps \<Longrightarrow> search_loop ps = Inr (search_lines ps)"
  by (induction ps) (auto simp: returns_iff split: option.splits)


lemma search_line_other_chain:
  "dict_get p ''chainId'' PNone = Inr chain \<Longrightarrow> \<not> on_pulsechain chain \<Longrightarrow> search_line p = Inr None"
  by (simp add: search_line_def)

lemma search_line_not_dict: "\<forall>kvs. p \<noteq> PDict kvs \<Longrightarrow> search_line p = Inl AttributeError"
  by (cases p) (simp_all add: search_line_def)

section \<open>Properties of the search path\<close>

text \<open>
  C33: the command and its term are read back from the message: for a command word and
  a term that neither contain nor start with whitespace bytes, the message made of the
  word, a space and the term splits into exactly these two.
\<close>

theorem split1_command:
  assumes "w \<noteq> []" "\<forall>c\<in>set w. \<not> ws_edge c" "r \<noteq> []" "\<not> ws_edge (hd r)"
  shows "split1 (w @ CHR 0x20 # r) = [w, r]"
proof -
  from assms(1,2) have "lstrip (w @ CHR 0x20 # r) = w @ CHR 0x20 # r"
    by (intro lstrip_id) (cases w, auto)
  with assms show ?thesis
    by (simp add: split1_unfold take_word_plain lstrip_space)
qed

theorem split1_command_witness:
  "''/search'' \<noteq> [] \<and> list_all (\<lambda>c. \<not> ws_edge c) ''/search'' \<and> ''doge'' \<noteq> [] \<and>
   \<not> ws_edge (hd ''doge'') \<and> split1 (''/search'' @ CHR 0x20 # ''doge'') = [''/search'', ''doge'']"
proof -
  have a: "\<forall>c\<in>set ''/search''. \<not> ws_edge c" and b: "\<not> ws_edge (hd ''doge'')"
    by (simp_all add: ws_edge_def ws_seqs_def)
  from split1_command [OF _ a _ b] a b show ?thesis by (simp add: list_all_iff)
qed

text \<open>
  C30: a pair of another chain is skipped, whatever else it holds: it contributes no
  line and cannot make the search fail.
\<close>

theorem search_other_chain:
  "dict_get p ''chainId'' PNone = Inr chain \<Longrightarrow> \<not> on_pulsechain chain
     \<Longrightarrow> search_loop (p # ps) = search_loop ps"
  by (simp add: search_line_other_chain)

theorem search_other_chain_witness:
  "dict_get (PDict [(''chainId'', PStr ''ethereum''), (''priceUsd'', PStr ''abc'')]) ''chainId'' PNone
     = Inr (PStr ''ethereum'') \<and>
   \<not> on_pulsechain (PStr ''ethereum'') \<and>
   search_loop [PDict [(''chainId'', PStr ''ethereum''), (''priceUsd'', PStr ''abc'')]] = search_loop []"
  using search_other_chain
    [of "PDict [(''chainId'', PStr ''ethereum''), (''priceUsd'', PStr ''abc'')]" "PStr ''ethereum''" "[]"]
  by (simp add: lookup_or_def on_pulsechain_def)

text \<open>
  Only the first ten lines reach the reply, and without a line the reply is the
  placeholder.
\<close>

lemma search_reply_first_ten:
  "search_reply ls = search_reply (take 10 ls) \<and> (search_reply [] = NO_RESULTS)"
  by (cases ls) (auto simp: search_reply_def)



end
