(* ===== verification/Commands.thy ===== *)
theory Commands
  imports Search
begin

text \<open>
  The Telegram commands of \<open>src/memecoin_bot.py\<close>: the handlers \<open>start\<close>, \<open>trending\<close>,
  \<open>new\<close> and \<open>search\<close> (lines 95 to 149), and \<open>handle\<close>, the call of the handler
  that was registered for a command (lines 156 to 159).

  A handler acts on the network, through the scan or the search it runs, and on a
  chat. The chat is state: the messages delivered so far, and what the coming calls of
  \<open>reply_text\<close> will end in, which is the part of the future that the network decides.
  \<open>reply_text\<close> either delivers its message or raises. A handler is a task over the
  record \<open>world\<close>, which extends the network by the chat; what was delivered and
  requested before an exception stays so.

  An update carries a new message in \<open>update.message\<close> or an edited one in
  \<open>update.edited_message\<close>, and the library hands both kinds to a command handler.
  The handlers read \<open>update.message\<close> only; when it is \<open>None\<close>,
  \<open>update.message.reply_text\<close> and \<open>update.message.text\<close> raise \<open>AttributeError\<close>.

  The text of an exception is not modelled, so the reply of an \<open>except\<close> branch is the
  value \<open>ErrorReport e\<close>, standing for the warning sign, \<open>Error:\<close> and the message of
  \<open>e\<close>.
\<close>

section \<open>The world of a handler\<close>

datatype reply = Text string | ErrorReport exn

record world = net +
  sent :: "reply list"
  outcomes :: "exn option list"

text \<open>The next call of \<open>reply_text\<close> succeeds when nothing is said about it.\<close>

definition reply_text :: "reply \<Rightarrow> (world, unit) task" where
  "reply_text r = State (\<lambda>c.
     case outcomes c of
       [] \<Rightarrow> (Inr (), c\<lparr>sent := sent c @ [r]\<rparr>)
     | None # os \<Rightarrow> (Inr (), c\<lparr>sent := sent c @ [r], outcomes := os\<rparr>)
     | Some e # os \<Rightarrow> (Inl e, c\<lparr>outcomes := os\<rparr>))"

section \<open>Updates\<close>

record message =
  message_text :: "string option"

record update =
  message :: "message option"
  edited_message :: "message option"

text \<open>\<open>update.message.reply_text(...)\<close>\<close>

definition reply_to :: "update \<Rightarrow> reply \<Rightarrow> (world, unit) task" where
  "reply_to upd r = (case message upd of
       None \<Rightarrow> task_lift (Inl AttributeError)
     | Some m \<Rightarrow> reply_text r)"

text \<open>\<open>(update.message.text or "").split(maxsplit=1)\<close>\<close>

definition message_words :: "update \<Rightarrow> string list result" where
  "message_words upd = (case message upd of
       None \<Rightarrow> Inl AttributeError
     | Some m \<Rightarrow> Inr (split1 (case message_text m of None \<Rightarrow> [] | Some t \<Rightarrow> t)))"

section \<open>Fixed texts\<close>

definition WELCOME :: string where
  "WELCOME = [CHR 0xF0, CHR 0x9F, CHR 0x91, CHR 0x8B] @
     '' Welcome to the PulseChain Memecoin Finder Bot!'' @ [CHR 0x0A, CHR 0x0A] @
     ''Use these commands:'' @ [CHR 0x0A] @ ''/trending '' @
     [CHR 0xE2, CHR 0x80, CHR 0x93] @
     '' Top trending PulseChain meme-like tokens'' @ [CHR 0x0A] @ ''/new '' @
     [CHR 0xE2, CHR 0x80, CHR 0x93] @ '' Newest PulseChain pools'' @ [CHR 0x0A] @
     ''/search <name> '' @ [CHR 0xE2, CHR 0x80, CHR 0x93] @
     '' Search for a token (e.g. /search doge)'' @
     [CHR 0x0A, CHR 0x0A, CHR 0xE2, CHR 0x9A, CHR 0xA0, CHR 0xEF, CHR 0xB8, CHR 0x8F] @
     '' This bot only provides public data. Always DYOR!''"

definition SCANNING_TRENDING :: string where
  "SCANNING_TRENDING = ''Scanning trending PulseChain pools...''"

definition SCANNING_NEW :: string where
  "SCANNING_NEW = ''Scanning new PulseChain pools...''"

section \<open>The handlers\<close>

definition start :: "update \<Rightarrow> (world, unit) task" where
  "start upd = reply_to upd (Text WELCOME)"

definition trending :: "iso_parser \<Rightarrow> clock \<Rightarrow> client \<Rightarrow> update \<Rightarrow> (world, unit) task" where
  "trending isoparse clock client upd =
     task_bind (reply_to upd (Text SCANNING_TRENDING)) (\<lambda>u.
     task_try
       (task_bind (scan_geckoterminal isoparse clock client ''trending'') (\<lambda>picks.
        reply_to upd (Text (join blank_line picks))))
       (\<lambda>e. reply_to upd (ErrorReport e)))"

definition new :: "iso_parser \<Rightarrow> clock \<Rightarrow> client \<Rightarrow> update \<Rightarrow> (world, unit) task" where
  "new isoparse clock client upd =
     task_bind (reply_to upd (Text SCANNING_NEW)) (\<lambda>u.
     task_try
       (task_bind (scan_geckoterminal isoparse clock client ''new'') (\<lambda>picks.
        reply_to upd (Text (join blank_line picks))))
       (\<lambda>e. reply_to upd (ErrorReport e)))"

definition search :: "client \<Rightarrow> update \<Rightarrow> (world, unit) task" where
  "search client upd =
     task_bind (task_lift (message_words upd)) (\<lambda>msg.
     if length msg < 2 then reply_to upd (Text USAGE)
     else
       let term = msg ! 1 in
       task_bind (reply_to upd (Text (searching_text term))) (\<lambda>u.
       task_try
         (task_bind (search_fetch client term) (\<lambda>lines.
          reply_to upd (Text (search_reply lines))))
         (\<lambda>e. reply_to upd (ErrorReport e))))"

section \<open>The registered callbacks\<close>

text \<open>The four callbacks that \<open>main\<close> registers, and the call of one of them.\<close>

datatype command = Start | Trending | New | Search

definition handle :: "iso_parser \<Rightarrow> clock \<Rightarrow> client \<Rightarrow> command \<Rightarrow> update \<Rightarrow> (world, unit) task" where
  "handle isoparse clock client c upd =
     (case c of
        Start \<Rightarrow> start upd
      | Trending \<Rightarrow> trending isoparse clock client upd
      | New \<Rightarrow> new isoparse clock client upd
      | Search \<Rightarrow> search client upd)"

section \<open>One reply\<close>

text \<open>One call of \<open>reply_text\<close>, by what the chat holds for it.\<close>

definition next_outcome :: "world \<Rightarrow> exn option" where
  "next_outcome c = (case outcomes c of [] \<Rightarrow> None | x # os \<Rightarrow> x)"

definition delivered :: "reply \<Rightarrow> world \<Rightarrow> world" where
  "delivered r c = c\<lparr>sent := sent c @ [r], outcomes := tl (outcomes c)\<rparr>"

definition dropped :: "world \<Rightarrow> world" where
  "dropped c = c\<lparr>outcomes := tl (outcomes c)\<rparr>"

lemma run_reply_text:
  "run_state (reply_text r) c =
     (case next_outcome c of None \<Rightarrow> (Inr (), delivered r c) | Some e \<Rightarrow> (Inl e, dropped c))"
  by (simp add: reply_text_def next_outcome_def delivered_def dropped_def
      split: list.split option.split)

lemma run_reply_to:
  "run_state (reply_to upd r) c =
     (case message upd of
        None \<Rightarrow> (Inl AttributeError, c)
      | Some m \<Rightarrow> (case next_outcome c of
                     None \<Rightarrow> (Inr (), delivered r c)
                   | Some e \<Rightarrow> (Inl e, dropped c)))"
  by (simp add: reply_to_def run_reply_text split: option.split)

lemma chat_simps [simp]:
  "sent (delivered r c) = sent c @ [r]" "outcomes (delivered r c) = tl (outcomes c)"
  "sent (dropped c) = sent c" "outcomes (dropped c) = tl (outcomes c)"
  "next_outcome (c\<lparr>outcomes := []\<rparr>) = None" "next_outcome (c\<lparr>outcomes := x # os\<rparr>) = x"
  by (simp_all add: delivered_def dropped_def next_outcome_def)

lemma next_outcome_Nil [simp]: "outcomes c = [] \<Longrightarrow> next_outcome c = None"
  by (simp add: next_outcome_def)

lemma next_outcome_Cons [simp]: "outcomes c = x # os \<Longrightarrow> next_outcome c = x"
  by (simp add: next_outcome_def)

text \<open>The chat and the network do not touch each other.\<close>

lemma reply_frame [simp]:
  "opened (delivered r c) = opened c" "closed (delivered r c) = closed c"
  "requests (delivered r c) = requests c"
  "opened (dropped c) = opened c" "closed (dropped c) = closed c"
  "requests (dropped c) = requests c"
  by (simp_all add: delivered_def dropped_def)

lemma session_frame [simp]:
  "sent (session url params c) = sent c" "outcomes (session url params c) = outcomes c"
  "next_outcome (session url params c) = next_outcome c"
  by (simp_all add: session_def next_outcome_def)

lemmas command_eval = start_def trending_def new_def search_def handle_def message_words_def
  run_reply_to search_eval SCANNING_TRENDING_def SCANNING_NEW_def

section \<open>Announce, try, report\<close>

text \<open>
  Three handlers have one shape: an announcement, then a \<open>try\<close> block that runs a
  task for a text and sends it, and an \<open>except\<close> branch that sends the report of the
  exception. \<open>respond\<close> is that shape. The task of the three handlers is one session
  with one request, whatever the network answers.
\<close>

definition respond :: "update \<Rightarrow> string \<Rightarrow> (world, string) task \<Rightarrow> (world, unit) task" where
  "respond upd a m =
     task_bind (reply_to upd (Text a)) (\<lambda>u.
     task_try (task_bind m (\<lambda>x. reply_to upd (Text x)))
              (\<lambda>e. reply_to upd (ErrorReport e)))"

definition result_reply :: "string result \<Rightarrow> reply" where
  "result_reply r = (case r of Inl e \<Rightarrow> ErrorReport e | Inr x \<Rightarrow> Text x)"

lemma result_reply_simps [simp]:
  "result_reply (Inl e) = ErrorReport e" "result_reply (Inr x) = Text x"
  by (simp_all add: result_reply_def)

definition scan_text :: "iso_parser \<Rightarrow> clock \<Rightarrow> client \<Rightarrow> string \<Rightarrow> (world, string) task" where
  "scan_text isoparse clock client kind =
     task_bind (scan_geckoterminal isoparse clock client kind) (\<lambda>picks.
     task_lift (Inr (join blank_line picks)))"

definition search_text_of :: "client \<Rightarrow> string \<Rightarrow> (world, string) task" where
  "search_text_of client term =
     task_bind (search_fetch client term) (\<lambda>lines. task_lift (Inr (search_reply lines)))"

lemma acts_scan_text:
  "acts (scan_text isoparse clock client kind)
     (rbind (scanned isoparse clock client kind) (\<lambda>picks. Inr (join blank_line picks)))
     (session (scan_url kind) scan_params)"
  unfolding scan_text_def by (rule acts_bind_lift [OF acts_scan_geckoterminal])

lemma acts_search_text_of:
  "acts (search_text_of client term)
     (rbind (searched client term) (\<lambda>lines. Inr (search_reply lines)))
     (session DEX_SEARCH [(''q'', term)])"
  unfolding search_text_of_def by (rule acts_bind_lift [OF acts_search_fetch])

lemma trending_respond:
  "trending isoparse clock client upd =
     respond upd SCANNING_TRENDING (scan_text isoparse clock client ''trending'')"
  by (rule state_ext)
     (simp add: trending_def respond_def scan_text_def split: prod.split sum.split)

lemma new_respond:
  "new isoparse clock client upd = respond upd SCANNING_NEW (scan_text isoparse clock client ''new'')"
  by (rule state_ext)
     (simp add: new_def respond_def scan_text_def split: prod.split sum.split)

lemma search_respond:
  "message upd = Some m \<Longrightarrow> split1 (case message_text m of None \<Rightarrow> [] | Some t \<Rightarrow> t) = [w, term] \<Longrightarrow>
     search client upd = respond upd (searching_text term) (search_text_of client term)"
  by (rule state_ext)
     (simp add: search_def respond_def message_words_def search_text_of_def
      split: prod.split sum.split)

lemma search_short:
  "message upd = Some m \<Longrightarrow> length (split1 (case message_text m of None \<Rightarrow> [] | Some t \<Rightarrow> t)) < 2 \<Longrightarrow>
     search client upd = reply_to upd (Text USAGE)"
  by (rule state_ext) (simp add: search_def message_words_def)

text \<open>Without a message nothing is sent, nothing is requested and \<open>AttributeError\<close>
  leaves the handler.\<close>

lemma reply_to_no_message:
  "message upd = None \<Longrightarrow> run_state (reply_to upd r) c = (Inl AttributeError, c)"
  by (simp add: run_reply_to)

lemma respond_no_message:
  "message upd = None \<Longrightarrow> run_state (respond upd a m) c = (Inl AttributeError, c)"
  by (simp add: respond_def run_reply_to)

text \<open>The runs of \<open>respond\<close> on a message, by the outcomes of its calls.\<close>

lemma respond_announce_failed:
  "message upd = Some m' \<Longrightarrow> next_outcome c = Some e \<Longrightarrow>
     run_state (respond upd a m) c = (Inl e, dropped c)"
  by (simp add: respond_def run_reply_to)

lemma respond_delivered:
  "message upd = Some m' \<Longrightarrow> acts m r (session url params) \<Longrightarrow> next_outcome c = None
     \<Longrightarrow> next_outcome (delivered (Text a) c) = None \<Longrightarrow>
     run_state (respond upd a m) c =
       (Inr (), delivered (result_reply r) (session url params (delivered (Text a) c)))"
  by (cases r) (simp_all add: respond_def run_reply_to actsD)

lemma respond_result_failed:
  "message upd = Some m' \<Longrightarrow> acts m (Inr x) (session url params) \<Longrightarrow> next_outcome c = None
     \<Longrightarrow> next_outcome (delivered (Text a) c) = Some e \<Longrightarrow>
     run_state (respond upd a m) c =
       run_state (reply_to upd (ErrorReport e)) (dropped (session url params (delivered (Text a) c)))"
  by (simp add: respond_def run_reply_to actsD)

lemma respond_report_failed:
  "message upd = Some m' \<Longrightarrow> acts m (Inl e) (session url params) \<Longrightarrow> next_outcome c = None
     \<Longrightarrow> next_outcome (delivered (Text a) c) = Some e' \<Longrightarrow>
     run_state (respond upd a m) c = (Inl e', dropped (session url params (delivered (Text a) c)))"
  by (simp add: respond_def run_reply_to actsD)

lemma respond_reliable:
  "message upd = Some m' \<Longrightarrow> acts m r (session url params) \<Longrightarrow> outcomes c = [] \<Longrightarrow>
     run_state (respond upd a m) c =
       (Inr (), (session url params c)\<lparr>sent := sent c @ [Text a, result_reply r]\<rparr>)"
  by (simp add: respond_delivered [where r = r] delivered_def session_def)

text \<open>What a run can do to the chat: it appends at most \<open>n\<close> messages to those sent and
  consumes at most \<open>k\<close> outcomes.\<close>

definition extends :: "nat \<Rightarrow> nat \<Rightarrow> world \<Rightarrow> world \<Rightarrow> bool" where
  "extends n k c c' \<longleftrightarrow>
     (\<exists>new j. sent c' = sent c @ new \<and> length new \<le> n \<and> j \<le> k \<and> outcomes c' = drop j (outcomes c))"

lemma extends_refl [simp]: "extends n k c c"
  by (auto simp: extends_def intro: exI [of _ 0])

lemma extends_mono: "extends n k c c' \<Longrightarrow> n \<le> n' \<Longrightarrow> k \<le> k' \<Longrightarrow> extends n' k' c c'"
  unfolding extends_def by (meson order_trans)

lemma extends_trans:
  "extends n k c c' \<Longrightarrow> extends n' k' c' c'' \<Longrightarrow> extends (n + n') (k + k') c c''"
  unfolding extends_def
  by clarsimp (metis add_mono add.commute)

lemma extends_delivered [simp]: "extends (Suc 0) (Suc 0) c (delivered r c)"
  unfolding extends_def by (auto simp: drop_Suc intro!: exI [of _ "[r]"] exI [of _ 1])

lemma extends_dropped [simp]: "extends 0 (Suc 0) c (dropped c)"
  unfolding extends_def by (auto simp: drop_Suc intro!: exI [of _ 1])

lemma extends_session [simp]: "extends 0 0 c (session url params c)"
  by (simp add: extends_def)

lemma extends_session_iff [simp]: "extends n k c (session url params c') \<longleftrightarrow> extends n k c c'"
  by (simp add: extends_def)

lemma reply_to_extends:
  "run_state (reply_to upd r) c = (res, c') \<Longrightarrow> extends (Suc 0) (Suc 0) c c'"
  by (auto simp: run_reply_to intro: extends_mono [OF extends_dropped] split: option.splits)

lemma respond_extends:
  assumes "run_state (respond upd a m) c = (res, c')" "acts m r (session url params)"
  shows "extends 2 3 c c'"
proof (cases "message upd")
  case None
  with assms show ?thesis by (simp add: respond_no_message)
next
  case (Some m')
  let ?c1 = "delivered (Text a) c"
  let ?c2 = "session url params ?c1"
  have e2: "extends (Suc 0) (Suc 0) c ?c2" by simp
  have c2: "extends 1 2 c (dropped ?c2)"
    by (rule extends_mono [OF extends_trans [OF e2 extends_dropped]]) simp_all
  consider e where "next_outcome c = Some e"
    | "next_outcome c = None" "next_outcome ?c1 = None"
    | e e0 where "next_outcome c = None" "next_outcome ?c1 = Some e" "r = Inl e0"
    | e x where "next_outcome c = None" "next_outcome ?c1 = Some e" "r = Inr x"
    by (cases "next_outcome c"; cases "next_outcome ?c1"; cases r) auto
  then show ?thesis
  proof cases
    case 1
    with assms Some show ?thesis
      by (auto simp: respond_announce_failed intro: extends_mono [OF extends_dropped])
  next
    case 2
    with assms Some have "c' = delivered (result_reply r) ?c2"
      by (simp add: respond_delivered [where r = r])
    then show ?thesis
      by (auto intro: extends_mono [OF extends_trans [OF e2 extends_delivered]])
  next
    case 3
    with assms Some c2 show ?thesis
      by (auto simp: respond_report_failed intro: extends_mono)
  next
    case 4
    with assms Some
    have last: "run_state (reply_to upd (ErrorReport e)) (dropped ?c2) = (res, c')"
      by (simp add: respond_result_failed)
    show ?thesis
      by (rule extends_mono [OF extends_trans [OF c2 reply_to_extends [OF last]]]) simp_all
  qed
qed

section \<open>The shape of a handler\<close>

lemma reply_to_reliable:
  "message upd = Some m \<Longrightarrow> outcomes c = [] \<Longrightarrow>
     run_state (reply_to upd r) c = (Inr (), c\<lparr>sent := sent c @ [r]\<rparr>)"
  by (simp add: run_reply_to delivered_def)

lemma reply_to_failed:
  "message upd = Some m \<Longrightarrow> next_outcome c = Some e \<Longrightarrow>
     run_state (reply_to upd r) c = (Inl e, dropped c)"
  by (simp add: run_reply_to)

lemma search_no_message: "message upd = None \<Longrightarrow> search client upd = reply_to upd (Text USAGE)"
  by (rule state_ext) (simp add: search_def message_words_def run_reply_to)

text \<open>Every handler is a single reply, or an announcement with a guarded session.\<close>

definition guarded_session :: "(world, unit) task \<Rightarrow> update \<Rightarrow> bool" where
  "guarded_session h upd \<longleftrightarrow>
     (\<exists>a m r url params. h = respond upd a m \<and> acts m r (session url params) \<and>
        url \<in> {GT_TRENDING, GT_NEW, DEX_SEARCH})"

lemma guarded_sessionI:
  "h = respond upd a m \<Longrightarrow> acts m r (session url params) \<Longrightarrow>
     url \<in> {GT_TRENDING, GT_NEW, DEX_SEARCH} \<Longrightarrow> guarded_session h upd"
  unfolding guarded_session_def by blast

lemma search_shape:
  "search client upd = reply_to upd (Text USAGE) \<or> guarded_session (search client upd) upd"
proof (cases "message upd")
  case None
  then show ?thesis by (simp add: search_no_message)
next
  case (Some m)
  let ?ws = "split1 (case message_text m of None \<Rightarrow> [] | Some t \<Rightarrow> t)"
  show ?thesis
  proof (cases "length ?ws < 2")
    case True
    with Some show ?thesis by (simp add: search_short)
  next
    case False
    with length_split1 [of "case message_text m of None \<Rightarrow> [] | Some t \<Rightarrow> t"]
    have "length ?ws = 2" by simp
    then obtain w q where "?ws = [w, q]"
      by (auto simp: length_Suc_conv numeral_2_eq_2)
    from guarded_sessionI [OF search_respond [OF Some this] acts_search_text_of] show ?thesis
      by simp
  qed
qed

lemma handle_shape:
  "(\<exists>t. handle isoparse clock client cmd upd = reply_to upd (Text t)) \<or>
   guarded_session (handle isoparse clock client cmd upd) upd"
proof (cases cmd)
  case Start
  then show ?thesis by (auto simp: handle_def start_def)
next
  case Trending
  then show ?thesis
    by (auto simp: handle_def scan_url_def intro: guarded_sessionI [OF trending_respond acts_scan_text])
next
  case New
  then show ?thesis
    by (auto simp: handle_def scan_url_def intro: guarded_sessionI [OF new_respond acts_scan_text])
next
  case Search
  with search_shape [of client upd] show ?thesis by (auto simp: handle_def)
qed

section \<open>Examples\<close>

definition ex_update :: "string \<Rightarrow> update" where
  "ex_update t = \<lparr>message = Some \<lparr>message_text = Some t\<rparr>, edited_message = None\<rparr>"

definition ex_edited :: "string \<Rightarrow> update" where
  "ex_edited t = \<lparr>message = None, edited_message = Some \<lparr>message_text = Some t\<rparr>\<rparr>"

definition ex_chat :: "exn option list \<Rightarrow> world" where
  "ex_chat os = \<lparr>opened = 0, closed = 0, requests = [], sent = [], outcomes = os\<rparr>"

lemmas ex_command_defs = ex_update_def ex_edited_def ex_chat_def

lemma ex_chat_simps [simp]:
  "sent (ex_chat os) = []" "outcomes (ex_chat os) = os" "opened (ex_chat os) = 0"
  "closed (ex_chat os) = 0" "requests (ex_chat os) = []"
  by (simp_all add: ex_chat_def)

section \<open>What a handler does to the world\<close>

text \<open>A handler only adds to the chat: whether it returns or raises, the messages
  sent before stay, at most two are appended, and \<open>reply_text\<close> is called at most
  three times.\<close>

lemma handle_extends:
  assumes "run_state (handle isoparse clock client cmd upd) c = (res, c')"
  shows "extends 2 3 c c'"
proof -
  from handle_shape [of isoparse clock client cmd upd]
  consider t where "handle isoparse clock client cmd upd = reply_to upd (Text t)"
    | "guarded_session (handle isoparse clock client cmd upd) upd"
    by blast
  then show ?thesis
  proof cases
    case 1
    with assms have "run_state (reply_to upd (Text t)) c = (res, c')" by simp
    from extends_mono [OF reply_to_extends [OF this]] show ?thesis by simp
  next
    case 2
    with assms show ?thesis by (auto simp: guarded_session_def dest: respond_extends)
  qed
qed

text \<open>A handler leaves the network as it is, or it has added one session, opened and
  closed, with one request to one of the three endpoints.\<close>

definition net_of :: "world \<Rightarrow> net" where
  "net_of c = \<lparr>opened = opened c, closed = closed c, requests = requests c\<rparr>"

lemma net_of_simps [simp]:
  "net_of (delivered r c) = net_of c" "net_of (dropped c) = net_of c"
  "net_of (session url params c) = session url params (net_of c)"
  "net_of (c\<lparr>sent := ms\<rparr>) = net_of c" "net_of (c\<lparr>outcomes := os\<rparr>) = net_of c"
  "opened (net_of c) = opened c" "closed (net_of c) = closed c"
  "requests (net_of c) = requests c"
  by (simp_all add: net_of_def delivered_def dropped_def session_def)

lemma reply_to_net: "run_state (reply_to upd r) c = (res, c') \<Longrightarrow> net_of c' = net_of c"
  by (auto simp: run_reply_to split: option.splits)

lemma respond_net:
  assumes "run_state (respond upd a m) c = (res, c')" "acts m r (session url params)"
  shows "net_of c' = net_of c \<or> net_of c' = session url params (net_of c)"
proof (cases "message upd")
  case None
  with assms show ?thesis by (simp add: respond_no_message)
next
  case (Some m')
  with assms show ?thesis
    by (cases r) (auto simp: respond_def run_reply_to actsD split: option.splits)
qed

lemma handle_net:
  assumes "run_state (handle isoparse clock client cmd upd) c = (res, c')"
  shows "net_of c' = net_of c \<or>
         (\<exists>url params. url \<in> {GT_TRENDING, GT_NEW, DEX_SEARCH} \<and>
            net_of c' = session url params (net_of c))"
proof -
  from handle_shape [of isoparse clock client cmd upd]
  consider t where "handle isoparse clock client cmd upd = reply_to upd (Text t)"
    | "guarded_session (handle isoparse clock client cmd upd) upd"
    by blast
  then show ?thesis
  proof cases
    case 1
    with assms show ?thesis by (auto dest: reply_to_net)
  next
    case 2
    then obtain a m r url params
      where "handle isoparse clock client cmd upd = respond upd a m"
        and "acts m r (session url params)" and "url \<in> {GT_TRENDING, GT_NEW, DEX_SEARCH}"
      by (auto simp: guarded_session_def)
    with assms respond_net [of upd a m c res c' r url params] show ?thesis by auto
  qed
qed

text \<open>A polite client: no session is open, and every request made went to one of the
  three endpoints with the timeout of the configuration.\<close>

definition polite :: "'a net_scheme \<Rightarrow> bool" where
  "polite n \<longleftrightarrow>
     opened n = closed n \<and>
     list_all (\<lambda>q. fst q \<in> {GT_TRENDING, GT_NEW, DEX_SEARCH} \<and> snd (snd q) = HTTP_TIMEOUT)
       (requests n)"

lemma polite_session [simp]:
  "url \<in> {GT_TRENDING, GT_NEW, DEX_SEARCH} \<Longrightarrow> polite (session url params n) \<longleftrightarrow> polite n"
  by (auto simp: polite_def)

lemma handle_polite:
  "run_state (handle isoparse clock client cmd upd) c = (res, c') \<Longrightarrow> polite (net_of c)
     \<Longrightarrow> polite (net_of c')"
  by (drule handle_net) auto

text \<open>With a chat that delivers, a handler is the list of its replies and the requests
  it makes.\<close>

definition replies :: "iso_parser \<Rightarrow> clock \<Rightarrow> client \<Rightarrow> command \<Rightarrow> update \<Rightarrow> reply list" where
  "replies isoparse clock client cmd upd =
     sent (snd (run_state (handle isoparse clock client cmd upd)
       \<lparr>opened = 0, closed = 0, requests = [], sent = [], outcomes = []\<rparr>))"

definition calls ::
  "iso_parser \<Rightarrow> clock \<Rightarrow> client \<Rightarrow> command \<Rightarrow> update \<Rightarrow> (string \<times> params \<times> int) list" where
  "calls isoparse clock client cmd upd =
     requests (snd (run_state (handle isoparse clock client cmd upd)
       \<lparr>opened = 0, closed = 0, requests = [], sent = [], outcomes = []\<rparr>))"

definition after :: "reply list \<Rightarrow> (string \<times> params \<times> int) list \<Rightarrow> world \<Rightarrow> world" where
  "after rs qs c =
     c\<lparr>opened := opened c + length qs, closed := closed c + length qs,
       requests := requests c @ qs, sent := sent c @ rs\<rparr>"

lemma world_eqI:
  "opened c = opened c' \<Longrightarrow> closed c = closed c' \<Longrightarrow> requests c = requests c' \<Longrightarrow>
     sent c = sent c' \<Longrightarrow> outcomes c = outcomes c' \<Longrightarrow> (c::world) = c'"
  by (rule world.equality) simp_all

lemma after_Nil [simp]: "after [] [] c = c"
  by (simp add: after_def)

lemma after_simps [simp]:
  "sent (after rs qs c) = sent c @ rs" "outcomes (after rs qs c) = outcomes c"
  "opened (after rs qs c) = opened c + length qs" "closed (after rs qs c) = closed c + length qs"
  "requests (after rs qs c) = requests c @ qs"
  by (simp_all add: after_def)

lemma after_after: "after rs' qs' (after rs qs c) = after (rs @ rs') (qs @ qs') c"
  by (simp add: after_def)

lemma handle_reliable:
  assumes "outcomes c = []"
  shows "run_state (handle isoparse clock client cmd upd) c =
     (if message upd = None then Inl AttributeError else Inr (),
      after (replies isoparse clock client cmd upd) (calls isoparse clock client cmd upd) c)"
proof -
  from handle_shape [of isoparse clock client cmd upd]
  consider t where "handle isoparse clock client cmd upd = reply_to upd (Text t)"
    | a m r url params where "handle isoparse clock client cmd upd = respond upd a m"
      "acts m r (session url params)"
    by (auto simp: guarded_session_def)
  then show ?thesis
  proof cases
    case 1
    with assms show ?thesis
      by (cases "message upd")
         (simp_all add: replies_def calls_def reply_to_reliable reply_to_no_message after_def)
  next
    case 2
    with assms show ?thesis
      by (cases "message upd")
         (simp_all add: replies_def calls_def respond_reliable [where r = r] respond_no_message
           after_def session_def)
  qed
qed

lemma length_replies:
  assumes "message upd = Some m"
  shows "1 \<le> length (replies isoparse clock client cmd upd) \<and>
         length (replies isoparse clock client cmd upd) \<le> 2"
  using handle_shape [of isoparse clock client cmd upd] assms
  by (auto simp: replies_def reply_to_reliable guarded_session_def respond_reliable)

lemma no_message_quiet [simp]:
  "message upd = None \<Longrightarrow> replies isoparse clock client cmd upd = []"
  "message upd = None \<Longrightarrow> calls isoparse clock client cmd upd = []"
  using handle_shape [of isoparse clock client cmd upd]
  by (auto simp: replies_def calls_def reply_to_no_message respond_no_message guarded_session_def)

section \<open>Properties of the commands\<close>

text \<open>
  C34: a failure of the request is reported to the user after the announcement, and
  nothing else is done: no retry, no partial list. With a chat that delivers, the
  handler returns; the chat holds the announcement and the report of the failure, and
  the network has seen one session with the one request.
\<close>

theorem trending_fetch_failure:
  assumes "fetched client (scan_url ''trending'') scan_params = Inl e"
    and "message upd = Some m" "outcomes c = []"
  shows "run_state (trending isoparse clock client upd) c =
     (Inr (), after [Text SCANNING_TRENDING, ErrorReport e] [(GT_TRENDING, scan_params, 15)] c)"
  using assms
  by (simp add: trending_respond respond_reliable [OF _ acts_scan_text] scanned_unfold)
     (simp add: after_def session_def scan_url_def HTTP_TIMEOUT_def)

theorem trending_fetch_failure_witness:
  "fetched (ex_status 429 PNone) (scan_url ''trending'') scan_params
     = Inl (FetchFailed (BadStatus 429)) \<and>
   message (ex_update ''/trending'') = Some \<lparr>message_text = Some ''/trending''\<rparr> \<and>
   outcomes (ex_chat []) = [] \<and>
   run_state (trending ex_isoparse ex_clock (ex_status 429 PNone) (ex_update ''/trending'')) (ex_chat [])
     = (Inr (), \<lparr>opened = 1, closed = 1, requests = [(GT_TRENDING, scan_params, 15)],
                 sent = [Text SCANNING_TRENDING, ErrorReport (FetchFailed (BadStatus 429))],
                 outcomes = []\<rparr>)"
  using trending_fetch_failure [where client = "ex_status 429 PNone" and isoparse = ex_isoparse
      and clock = ex_clock and upd = "ex_update ''/trending''" and c = "ex_chat []"
      and e = "FetchFailed (BadStatus 429)"]
  by (simp add: ex_command_defs after_def)

text \<open>
  C31: a search without a term is answered with the usage line, and the network is not
  consulted: the handler is the single reply, for every behaviour of the network.
\<close>

theorem search_usage:
  assumes "message upd = Some m"
    and "length (split1 (case message_text m of None \<Rightarrow> [] | Some t \<Rightarrow> t)) < 2"
  shows "search client upd = reply_text (Text USAGE)"
  using assms by (simp add: search_short reply_to_def)

theorem search_usage_witness:
  "message (ex_update ''/search   '') = Some \<lparr>message_text = Some ''/search   ''\<rparr> \<and>
   length (split1 (case message_text \<lparr>message_text = Some ''/search   ''\<rparr> of
      None \<Rightarrow> [] | Some t \<Rightarrow> t)) < 2 \<and>
   search ex_unreachable (ex_update ''/search   '') = reply_text (Text USAGE)"
  using search_usage [where upd = "ex_update ''/search   ''" and client = ex_unreachable
      and m = "\<lparr>message_text = Some ''/search   ''\<rparr>"]
  by (simp add: ex_command_defs split1_unfold text_eval)

text \<open>
  C19: a reply that fails before anything was sent is not caught. When the first call
  of \<open>reply_text\<close> raises, the exception leaves the handler, whichever command it is;
  nothing was sent and nothing else is attempted, so the network is not consulted.
\<close>

theorem first_reply_failure:
  assumes "message upd = Some m" "next_outcome c = Some e"
  shows "run_state (handle isoparse clock client cmd upd) c = (Inl e, dropped c)"
  using handle_shape [of isoparse clock client cmd upd] assms
  by (auto simp: reply_to_failed respond_announce_failed guarded_session_def)

theorem first_reply_failure_witness:
  "message (ex_update ''/new'') = Some \<lparr>message_text = Some ''/new''\<rparr> \<and>
   next_outcome (ex_chat [Some TelegramError, None]) = Some TelegramError \<and>
   run_state (handle ex_isoparse ex_clock ex_unreachable New (ex_update ''/new''))
     (ex_chat [Some TelegramError, None]) = (Inl TelegramError, ex_chat [None])"
  using first_reply_failure [where upd = "ex_update ''/new''" and e = TelegramError
      and c = "ex_chat [Some TelegramError, None]" and isoparse = ex_isoparse and clock = ex_clock
      and client = ex_unreachable and cmd = New]
  by (simp add: ex_command_defs dropped_def)

text \<open>
  C18: the result reply is inside the \<open>try\<close> block, so its failure is handled like a
  failure of the scan. When the announcement is delivered, the scan returns and the
  reply with the result raises \<open>e\<close>, the handler goes on to send the report of \<open>e\<close>;
  the result of the scan is lost, and no second request is made for it.
\<close>

theorem result_reply_failure:
  assumes "message upd = Some m" "outcomes c = None # Some e # os"
    and "scanned isoparse clock client ''trending'' = Inr picks"
  shows "run_state (trending isoparse clock client upd) c =
     run_state (reply_text (ErrorReport e))
       ((after [Text SCANNING_TRENDING] [(GT_TRENDING, scan_params, 15)] c)\<lparr>outcomes := os\<rparr>)"
proof -
  have "acts (scan_text isoparse clock client ''trending'') (Inr (join blank_line picks))
     (session (scan_url ''trending'') scan_params)"
    using assms(3) acts_scan_text [of isoparse clock client "''trending''"] by simp
  moreover
  have "dropped (session (scan_url ''trending'') scan_params (delivered (Text SCANNING_TRENDING) c))
      = (after [Text SCANNING_TRENDING] [(GT_TRENDING, scan_params, 15)] c)\<lparr>outcomes := os\<rparr>"
    using assms(2) by (intro world_eqI) (simp_all add: scan_url_def HTTP_TIMEOUT_def)
  ultimately show ?thesis
    using respond_result_failed [OF assms(1), of _ _ _ _ c SCANNING_TRENDING e] assms(1,2)
    by (simp add: trending_respond reply_to_def)
qed

theorem result_reply_failure_witness:
  "message (ex_update ''/trending'') = Some \<lparr>message_text = Some ''/trending''\<rparr> \<and>
   outcomes (ex_chat [None, Some TelegramError]) = None # Some TelegramError # [] \<and>
   scanned ex_isoparse ex_clock (ex_respond (PDict [])) ''trending'' = Inr [NO_CANDIDATES] \<and>
   run_state (trending ex_isoparse ex_clock (ex_respond (PDict [])) (ex_update ''/trending''))
     (ex_chat [None, Some TelegramError]) =
     (Inr (), \<lparr>opened = 1, closed = 1, requests = [(GT_TRENDING, scan_params, 15)],
                sent = [Text SCANNING_TRENDING, ErrorReport TelegramError], outcomes = []\<rparr>)"
proof -
  have s: "scanned ex_isoparse ex_clock (ex_respond (PDict [])) ''trending'' = Inr [NO_CANDIDATES]"
    by (simp add: scanned_unfold lookup_or_def scan_spec_def)
  from result_reply_failure [where upd = "ex_update ''/trending''" and e = TelegramError
      and c = "ex_chat [None, Some TelegramError]", OF _ _ s] s
  show ?thesis by (simp add: ex_command_defs reply_text_def after_def)
qed

text \<open>
  C17: an update without a message is not answered. Every handler reads
  \<open>update.message\<close> first, so for an update that carries none (an edited message, which
  the command handlers of the library also receive) \<open>AttributeError\<close> leaves the handler
  and the chat is as before.
\<close>

theorem no_message_raises:
  "message upd = None \<Longrightarrow>
     run_state (handle isoparse clock client cmd upd) c = (Inl AttributeError, c)"
  using handle_shape [of isoparse clock client cmd upd]
  by (auto simp: reply_to_no_message respond_no_message guarded_session_def)

theorem no_message_raises_witness:
  "message (ex_edited ''/search doge'') = None \<and>
   run_state (handle ex_isoparse ex_clock ex_unreachable Search (ex_edited ''/search doge''))
     (ex_chat []) = (Inl AttributeError, ex_chat [])"
  using no_message_raises [where upd = "ex_edited ''/search doge''" and c = "ex_chat []" and cmd = Search
      and isoparse = ex_isoparse and clock = ex_clock and client = ex_unreachable]
  by (simp add: ex_command_defs)

end
