(* ===== verification/Bot.thy ===== *)
theory Bot
  imports Commands
begin

text \<open>
  The process of \<open>src/memecoin_bot.py\<close>: the token read from the environment (line 10),
  \<open>main\<close> (lines 154 to 161) and its call (lines 163 and 164).

  \<open>main\<close> builds the application, registers the four command handlers, prints one
  line and hands control to \<open>run_polling\<close>, which belongs to the
  \<open>python-telegram-bot\<close> library. What the source relies on is written out here:
  updates are processed one after the other; an update goes to the first registered
  handler that accepts it and to none when no handler does; an exception that leaves
  a handler is logged by the application, and the next update is processed.
  Whether a command handler accepts an update is decided by the library from the
  entities of the message and the name of the bot, so it is an input, \<open>matcher\<close>.

  Every update arrives in its own world: the readings of the clock and the behaviour
  of the network while it is handled are part of the \<open>event\<close>. The updates come from
  a source, \<open>source i\<close> being the \<open>i\<close>-th update or nothing when the process is told
  to stop. \<open>run_polling\<close> may run forever, so it is a partial function with an
  optional result.
\<close>

section \<open>Startup\<close>

type_synonym environ = "(string \<times> string) list"

text \<open>\<open>os.environ["TELEGRAM_BOT_TOKEN"]\<close>\<close>

definition BOT_TOKEN :: "environ \<Rightarrow> string result" where
  "BOT_TOKEN environ =
     (case map_of environ ''TELEGRAM_BOT_TOKEN'' of
        None \<Rightarrow> Inl (KeyError ''TELEGRAM_BOT_TOKEN'')
      | Some t \<Rightarrow> Inr t)"

definition RUNNING :: string where
  "RUNNING = [CHR 0xF0, CHR 0x9F, CHR 0xA4, CHR 0x96] @ '' Bot is running...''"

section \<open>The application\<close>

record application =
  token :: string
  registered :: "(string \<times> command) list"

definition build :: "string \<Rightarrow> application" where
  "build tok = \<lparr>token = tok, registered = []\<rparr>"

definition add_handler :: "string \<Rightarrow> command \<Rightarrow> application \<Rightarrow> application" where
  "add_handler name cmd app = app\<lparr>registered := registered app @ [(name, cmd)]\<rparr>"

record bot =
  world :: world
  logged :: "exn list"
  console :: "string list"

definition print :: "string \<Rightarrow> bot \<Rightarrow> bot" where
  "print line s = s\<lparr>console := console s @ [line]\<rparr>"

section \<open>Processing updates\<close>

record event =
  arriving :: update
  readings :: clock
  network :: client

type_synonym matcher = "string \<Rightarrow> update \<Rightarrow> bool"

text \<open>The first registered handler that accepts the update.\<close>

fun dispatch :: "matcher \<Rightarrow> (string \<times> command) list \<Rightarrow> update \<Rightarrow> command option" where
  "dispatch matches [] upd = None"
| "dispatch matches ((name, cmd) # hs) upd =
     (if matches name upd then Some cmd else dispatch matches hs upd)"

definition process_update :: "iso_parser \<Rightarrow> matcher \<Rightarrow> application \<Rightarrow> event \<Rightarrow> bot \<Rightarrow> bot" where
  "process_update isoparse matches app ev s =
     (case dispatch matches (registered app) (arriving ev) of
        None \<Rightarrow> s
      | Some cmd \<Rightarrow>
          (case run_state (handle isoparse (readings ev) (network ev) cmd (arriving ev))
                  (world s) of
             (Inr u, c) \<Rightarrow> s\<lparr>world := c\<rparr>
           | (Inl e, c) \<Rightarrow> s\<lparr>world := c, logged := logged s @ [e]\<rparr>))"

partial_function (option) run_polling ::
  "iso_parser \<Rightarrow> matcher \<Rightarrow> application \<Rightarrow> (nat \<Rightarrow> event option) \<Rightarrow> nat \<Rightarrow> bot \<Rightarrow> bot option"
where
  "run_polling isoparse matches app source i s =
     (case source i of
        None \<Rightarrow> Some s
      | Some ev \<Rightarrow> run_polling isoparse matches app source (Suc i)
                    (process_update isoparse matches app ev s))"

section \<open>The program\<close>

definition main ::
  "iso_parser \<Rightarrow> matcher \<Rightarrow> string \<Rightarrow> (nat \<Rightarrow> event option) \<Rightarrow> bot \<Rightarrow> bot option" where
  "main isoparse matches tok source s =
     (let app = build tok;
          app = add_handler ''start'' Start app;
          app = add_handler ''trending'' Trending app;
          app = add_handler ''new'' New app;
          app = add_handler ''search'' Search app;
          s = print RUNNING s
      in run_polling isoparse matches app source 0 s)"

text \<open>The module: the token is read when the module is loaded, then \<open>main\<close> runs.\<close>

definition program ::
  "iso_parser \<Rightarrow> matcher \<Rightarrow> environ \<Rightarrow> (nat \<Rightarrow> event option) \<Rightarrow> bot \<Rightarrow> bot option result" where
  "program isoparse matches environ source s =
     rbind (BOT_TOKEN environ) (\<lambda>tok. Inr (main isoparse matches tok source s))"

section \<open>Runs over a list of updates\<close>

text \<open>The reference for the loop: the updates of a list, processed in order.\<close>

fun serve :: "iso_parser \<Rightarrow> matcher \<Rightarrow> application \<Rightarrow> event list \<Rightarrow> bot \<Rightarrow> bot" where
  "serve isoparse matches app [] s = s"
| "serve isoparse matches app (ev # evs) s =
     serve isoparse matches app evs (process_update isoparse matches app ev s)"

text \<open>The updates \<open>i, \<dots>, i + n - 1\<close> of a source.\<close>

definition pending :: "(nat \<Rightarrow> event option) \<Rightarrow> nat \<Rightarrow> nat \<Rightarrow> event list" where
  "pending source i n = map (\<lambda>j. the (source j)) [i..<i + n]"

lemma pending_0 [simp]: "pending source i 0 = []"
  by (simp add: pending_def)

lemma pending_Suc: "pending source i (Suc n) = the (source i) # pending source (Suc i) n"
  by (simp add: pending_def upt_rec)

lemma serve_append:
  "serve isoparse matches app (evs @ evs') s =
     serve isoparse matches app evs' (serve isoparse matches app evs s)"
  by (induction evs arbitrary: s) simp_all

lemma run_polling_stops:
  "\<forall>j < n. source (i + j) \<noteq> None \<Longrightarrow> source (i + n) = None \<Longrightarrow>
     run_polling isoparse matches app source i s =
       Some (serve isoparse matches app (pending source i n) s)"
proof (induction n arbitrary: i s)
  case 0
  then show ?case by (simp add: run_polling.simps)
next
  case (Suc n)
  from Suc.prems(1) obtain ev where ev: "source i = Some ev" by force
  from Suc.prems have "\<forall>j < n. source (Suc i + j) \<noteq> None" "source (Suc i + n) = None"
    by auto
  from Suc.IH [OF this] ev show ?case
    by (subst run_polling.simps) (simp add: pending_Suc)
qed

lemma run_polling_returns:
  assumes "run_polling isoparse matches app source i s = Some r"
  shows "\<exists>n. source (i + n) = None"
proof (rule run_polling.raw_induct
    [where P = "\<lambda>isoparse matches app source i s r. \<exists>n. source (i + n) = None", OF _ assms])
  fix f isoparse matches app and source :: "nat \<Rightarrow> event option" and i s r
  assume IH: "\<And>isoparse matches app source i s r.
      f isoparse matches app source i s = Some r \<Longrightarrow> \<exists>n. source (i + n) = None"
    and eq: "(case source i of None \<Rightarrow> Some s
       | Some ev \<Rightarrow> f isoparse matches app source (Suc i)
           (process_update isoparse matches app ev s)) = Some r"
  show "\<exists>n. source (i + n) = None"
  proof (cases "source i")
    case None
    then show ?thesis by (auto intro: exI [of _ 0])
  next
    case (Some ev)
    with eq IH obtain n where "source (Suc i + n) = None" by fastforce
    then show ?thesis by (auto intro: exI [of _ "Suc n"])
  qed
qed

lemma run_polling_result:
  assumes "run_polling isoparse matches app source i s = Some r"
  shows "\<exists>n. source (i + n) = None \<and> r = serve isoparse matches app (pending source i n) s"
proof -
  define n where "n = (LEAST n. source (i + n) = None)"
  from run_polling_returns [OF assms] have "source (i + n) = None"
    unfolding n_def by (rule LeastI_ex)
  moreover have "\<forall>j < n. source (i + j) \<noteq> None"
    unfolding n_def by (auto dest: not_less_Least)
  ultimately show ?thesis
    using run_polling_stops [of n source i isoparse matches app s] assms by auto
qed

section \<open>One update\<close>

text \<open>What an update adds to the chat and to the log when the chat delivers.\<close>

definition answers :: "iso_parser \<Rightarrow> matcher \<Rightarrow> application \<Rightarrow> event \<Rightarrow> reply list" where
  "answers isoparse matches app ev =
     (case dispatch matches (registered app) (arriving ev) of
        None \<Rightarrow> []
      | Some cmd \<Rightarrow> replies isoparse (readings ev) (network ev) cmd (arriving ev))"

definition faults :: "matcher \<Rightarrow> application \<Rightarrow> event \<Rightarrow> exn list" where
  "faults matches app ev =
     (case dispatch matches (registered app) (arriving ev) of
        None \<Rightarrow> []
      | Some cmd \<Rightarrow> if message (arriving ev) = None then [AttributeError] else [])"

definition traffic ::
  "iso_parser \<Rightarrow> matcher \<Rightarrow> application \<Rightarrow> event \<Rightarrow> (string \<times> params \<times> int) list" where
  "traffic isoparse matches app ev =
     (case dispatch matches (registered app) (arriving ev) of
        None \<Rightarrow> []
      | Some cmd \<Rightarrow> calls isoparse (readings ev) (network ev) cmd (arriving ev))"

lemma process_update_ignored:
  "dispatch matches (registered app) (arriving ev) = None \<Longrightarrow>
     process_update isoparse matches app ev s = s"
  by (simp add: process_update_def)

lemma process_update_reliable:
  "outcomes (world s) = [] \<Longrightarrow>
     process_update isoparse matches app ev s =
       s\<lparr>world := after (answers isoparse matches app ev) (traffic isoparse matches app ev) (world s),
         logged := logged s @ faults matches app ev\<rparr>"
  by (simp add: process_update_def answers_def faults_def traffic_def handle_reliable
      split: option.split)

lemma process_update_console [simp]:
  "console (process_update isoparse matches app ev s) = console s"
  by (simp add: process_update_def split: option.split prod.split sum.split)

lemma process_update_extends:
  "extends 2 3 (world s) (world (process_update isoparse matches app ev s))"
  by (auto simp: process_update_def dest: handle_extends split: option.split prod.split sum.split)

lemma process_update_net:
  "net_of (world (process_update isoparse matches app ev s)) = net_of (world s) \<or>
   (\<exists>url params. url \<in> {GT_TRENDING, GT_NEW, DEX_SEARCH} \<and>
      net_of (world (process_update isoparse matches app ev s)) = session url params (net_of (world s)))"
proof (cases "dispatch matches (registered app) (arriving ev)")
  case None
  then show ?thesis by (simp add: process_update_def)
next
  case (Some cmd)
  obtain res c where r: "run_state (handle isoparse (readings ev) (network ev) cmd (arriving ev))
      (world s) = (res, c)"
    by (cases "run_state (handle isoparse (readings ev) (network ev) cmd (arriving ev)) (world s)")
  from handle_net [OF r] Some r show ?thesis
    by (cases res) (simp_all add: process_update_def)
qed

lemma process_update_logged:
  "\<exists>es. logged (process_update isoparse matches app ev s) = logged s @ es \<and> length es \<le> 1"
  by (simp add: process_update_def split: option.split prod.split sum.split)

lemma serve_console [simp]: "console (serve isoparse matches app evs s) = console s"
  by (induction evs arbitrary: s) simp_all

section \<open>Steps and reachable states\<close>

text \<open>
  One update is one step of the process, and a step is of one of three kinds: no
  handler accepts the update, the handler returns, or an exception leaves the handler.
  \<open>process_update\<close> computes the step: for every update and state there is exactly
  one.
\<close>

inductive bot_step :: "iso_parser \<Rightarrow> matcher \<Rightarrow> application \<Rightarrow> event \<Rightarrow> bot \<Rightarrow> bot \<Rightarrow> bool"
  for isoparse matches app ev s
where
  ignored: "dispatch matches (registered app) (arriving ev) = None \<Longrightarrow>
     bot_step isoparse matches app ev s s"
| returned: "dispatch matches (registered app) (arriving ev) = Some cmd \<Longrightarrow>
     run_state (handle isoparse (readings ev) (network ev) cmd (arriving ev)) (world s)
       = (Inr u, c) \<Longrightarrow>
     bot_step isoparse matches app ev s (s\<lparr>world := c\<rparr>)"
| raised: "dispatch matches (registered app) (arriving ev) = Some cmd \<Longrightarrow>
     run_state (handle isoparse (readings ev) (network ev) cmd (arriving ev)) (world s)
       = (Inl e, c) \<Longrightarrow>
     bot_step isoparse matches app ev s (s\<lparr>world := c, logged := logged s @ [e]\<rparr>)"

inductive_simps bot_step_simps: "bot_step isoparse matches app ev s s'"

code_pred bot_step .

lemma bot_step_iff:
  "bot_step isoparse matches app ev s s' \<longleftrightarrow> s' = process_update isoparse matches app ev s"
  by (auto simp: bot_step_simps process_update_def split: option.split prod.split sum.split)

lemma bot_step_deterministic:
  "bot_step isoparse matches app ev s s' \<Longrightarrow> bot_step isoparse matches app ev s s'' \<Longrightarrow> s' = s''"
  by (simp add: bot_step_iff)

inductive reachable :: "iso_parser \<Rightarrow> matcher \<Rightarrow> application \<Rightarrow> bot \<Rightarrow> bot \<Rightarrow> bool"
  for isoparse matches app s0
where
  start: "reachable isoparse matches app s0 s0"
| step: "reachable isoparse matches app s0 s \<Longrightarrow> bot_step isoparse matches app ev s s' \<Longrightarrow>
     reachable isoparse matches app s0 s'"

lemma reachable_process_update:
  "reachable isoparse matches app s0 s \<Longrightarrow>
     reachable isoparse matches app s0 (process_update isoparse matches app ev s)"
  by (erule reachable.step) (simp add: bot_step_iff)

lemma reachable_serve: "reachable isoparse matches app s0 (serve isoparse matches app evs s0)"
proof (induction evs rule: rev_induct)
  case Nil
  show ?case by (simp add: reachable.start)
next
  case (snoc ev evs)
  then show ?case by (simp add: serve_append reachable_process_update)
qed

lemma reachable_iff_serve:
  "reachable isoparse matches app s0 s \<longleftrightarrow> (\<exists>evs. s = serve isoparse matches app evs s0)"
proof
  assume "reachable isoparse matches app s0 s"
  then show "\<exists>evs. s = serve isoparse matches app evs s0"
  proof (induction rule: reachable.induct)
    case start
    show ?case by (rule exI [of _ "[]"]) simp
  next
    case (step s ev s')
    then obtain evs where "s = serve isoparse matches app evs s0" by blast
    with step.hyps(2) show ?case
      by (auto simp: serve_append bot_step_iff intro!: exI [of _ "evs @ [ev]"])
  qed
qed (auto simp: reachable_serve)

section \<open>Examples\<close>

text \<open>A matcher in the manner of the library: the first word of the new or edited
  message is the command.\<close>

definition ex_matches :: matcher where
  "ex_matches name upd =
     (case (case message upd of None \<Rightarrow> edited_message upd | Some m \<Rightarrow> Some m) of
        None \<Rightarrow> False
      | Some m \<Rightarrow> (case message_text m of
                     None \<Rightarrow> False
                   | Some t \<Rightarrow> take 1 (split1 t) = [CHR 0x2F # name]))"

definition ex_app :: application where
  "ex_app = \<lparr>token = ''t'', registered = [(''start'', Start), (''trending'', Trending),
     (''new'', New), (''search'', Search)]\<rparr>"

definition ex_event :: "update \<Rightarrow> event" where
  "ex_event upd = \<lparr>arriving = upd, readings = ex_clock, network = ex_http\<rparr>"

definition ex_bot :: bot where
  "ex_bot = \<lparr>world = ex_chat [], logged = [], console = []\<rparr>"

text \<open>A \<open>/start\<close>, an edited \<open>/start\<close>, a message that is no command, then the stop.\<close>

definition ex_source :: "nat \<Rightarrow> event option" where
  "ex_source i =
     (if i = 0 then Some (ex_event (ex_update ''/start''))
      else if i = 1 then Some (ex_event (ex_edited ''/start''))
      else if i = 2 then Some (ex_event (ex_update ''hello''))
      else None)"

lemmas ex_bot_defs = ex_matches_def ex_app_def ex_event_def ex_bot_def ex_source_def
  ex_command_defs

lemma ex_dispatch [simp]:
  "dispatch ex_matches (registered ex_app) (ex_update ''/start'') = Some Start"
  "dispatch ex_matches (registered ex_app) (ex_edited ''/start'') = Some Start"
  "dispatch ex_matches (registered ex_app) (ex_update ''hello'') = None"
  by (simp_all add: ex_bot_defs split1_unfold text_eval)

lemma ex_process [simp]:
  "process_update ex_isoparse ex_matches ex_app (ex_event (ex_update ''/start'')) s =
     (case run_state (reply_text (Text WELCOME)) (world s) of
        (Inr u, c) \<Rightarrow> s\<lparr>world := c\<rparr>
      | (Inl e, c) \<Rightarrow> s\<lparr>world := c, logged := logged s @ [e]\<rparr>)"
  "process_update ex_isoparse ex_matches ex_app (ex_event (ex_edited ''/start'')) s =
     s\<lparr>logged := logged s @ [AttributeError]\<rparr>"
  "process_update ex_isoparse ex_matches ex_app (ex_event (ex_update ''hello'')) s = s"
  by (simp_all add: process_update_def ex_event_def handle_def start_def reply_to_def)
     (simp_all add: ex_command_defs)

lemma ex_pending:
  "pending ex_source 0 3 = [ex_event (ex_update ''/start''), ex_event (ex_edited ''/start''),
     ex_event (ex_update ''hello'')]"
  by (simp add: pending_def ex_source_def upt_rec)


lemma main_unfold:
  "main isoparse matches tok source s =
     run_polling isoparse matches
       \<lparr>token = tok, registered = [(''start'', Start), (''trending'', Trending),
          (''new'', New), (''search'', Search)]\<rparr>
       source 0 (s\<lparr>console := console s @ [RUNNING]\<rparr>)"
  by (simp add: main_def build_def add_handler_def print_def)

section \<open>Properties of the process\<close>





text \<open>
  C9: with a chat that delivers, a run is the list of its answers and of its requests.
  After any list of updates the chat holds what it held before followed by the replies
  to each update in the order of arrival, the network has seen one closed session with
  one request for every scan and search that was run, in that order, and the log has
  grown by one \<open>AttributeError\<close> for every accepted update without a message;
  nothing else is ever logged, because every failure of a scan or a search is caught
  and reported in the chat.
\<close>

theorem serve_reliable:
  "outcomes (world s) = [] \<Longrightarrow>
     serve isoparse matches app evs s =
       s\<lparr>world := after (concat (map (answers isoparse matches app) evs))
                        (concat (map (traffic isoparse matches app) evs)) (world s),
         logged := logged s @ concat (map (faults matches app) evs)\<rparr>"
proof (induction evs arbitrary: s)
  case Nil
  show ?case by simp
next
  case (Cons ev evs)
  let ?s = "process_update isoparse matches app ev s"
  from Cons.prems have "outcomes (world ?s) = []"
    by (simp add: process_update_reliable)
  from Cons.IH [OF this] Cons.prems show ?case
    by (simp add: process_update_reliable after_after)
qed

theorem serve_reliable_witness:
  "outcomes (world ex_bot) = [] \<and>
   serve ex_isoparse ex_matches ex_app (pending ex_source 0 3) ex_bot =
     ex_bot\<lparr>world := after (concat (map (answers ex_isoparse ex_matches ex_app) (pending ex_source 0 3)))
          (concat (map (traffic ex_isoparse ex_matches ex_app) (pending ex_source 0 3))) (world ex_bot),
       logged := logged ex_bot @ concat (map (faults ex_matches ex_app) (pending ex_source 0 3))\<rparr>"
  using serve_reliable [of ex_bot ex_isoparse ex_matches ex_app "pending ex_source 0 3"]
  by (simp add: ex_bot_def ex_chat_def)

text \<open>
  An accepted command with a message is answered. When the chat delivers, the
  handler of an update that a registered handler accepts and that carries a message
  sends one or two replies and nothing is logged.
\<close>

lemma accepted_command_answered:
  assumes "dispatch matches (registered app) (arriving ev) = Some cmd"
    and "message (arriving ev) = Some m"
  shows "1 \<le> length (answers isoparse matches app ev) \<and>
         length (answers isoparse matches app ev) \<le> 2 \<and> faults matches app ev = []"
  using assms length_replies [OF assms(2)] by (simp add: answers_def faults_def)

text \<open>
  C27: a run only adds to the chat, whatever the chat and the network do. After
  \<open>n\<close> updates at most \<open>2 n\<close> messages have been appended to those sent before,
  \<open>reply_text\<close> has been called at most \<open>3 n\<close> times, at most \<open>n\<close> exceptions have
  been logged, at most \<open>n\<close> requests have been made (nothing is retried), and nothing
  was printed.
\<close>

theorem serve_extends:
  "extends (2 * length evs) (3 * length evs) (world s)
     (world (serve isoparse matches app evs s)) \<and>
   length (logged (serve isoparse matches app evs s)) \<le> length (logged s) + length evs \<and>
   length (requests (world (serve isoparse matches app evs s)))
     \<le> length (requests (world s)) + length evs \<and>
   console (serve isoparse matches app evs s) = console s"
proof (induction evs arbitrary: s)
  case Nil
  show ?case by simp
next
  case (Cons ev evs)
  let ?s = "process_update isoparse matches app ev s"
  from process_update_logged [of isoparse matches app ev s]
  have "length (logged ?s) \<le> length (logged s) + 1" by auto
  moreover from process_update_net [of isoparse matches app ev s]
  have "length (requests (world ?s)) \<le> length (requests (world s)) + 1"
    by (auto dest: arg_cong [where f = requests])
  ultimately show ?case
    using Cons [of ?s] extends_trans [OF process_update_extends [of s isoparse matches app ev]]
    by (auto elim: extends_mono)
qed

text \<open>
  C11: with a chat that delivers, the only exception a handler lets through is the
  \<open>AttributeError\<close> of an update without a message. In every state the process can
  reach from a state with such a chat, the chat still delivers, the log holds nothing
  but what it held at the start and \<open>AttributeError\<close>, and the console is untouched.
\<close>

theorem reachable_reliable:
  assumes "reachable isoparse matches app s0 s" "outcomes (world s0) = []"
  shows "outcomes (world s) = [] \<and> set (logged s) \<subseteq> set (logged s0) \<union> {AttributeError} \<and>
         console s = console s0"
  using assms
proof (induction rule: reachable.induct)
  case start
  then show ?case by auto
next
  case (step s ev s')
  then show ?case
    by (auto simp: bot_step_iff process_update_def handle_reliable split: option.splits if_splits)
qed

theorem reachable_reliable_witness:
  "reachable ex_isoparse ex_matches ex_app ex_bot
     (ex_bot\<lparr>logged := logged ex_bot @ [AttributeError]\<rparr>) \<and>
   outcomes (world ex_bot) = [] \<and>
   outcomes (world (ex_bot\<lparr>logged := logged ex_bot @ [AttributeError]\<rparr>)) = [] \<and>
   set (logged (ex_bot\<lparr>logged := logged ex_bot @ [AttributeError]\<rparr>))
     \<subseteq> set (logged ex_bot) \<union> {AttributeError} \<and>
   console (ex_bot\<lparr>logged := logged ex_bot @ [AttributeError]\<rparr>) = console ex_bot"
proof -
  have r: "reachable ex_isoparse ex_matches ex_app ex_bot
     (ex_bot\<lparr>logged := logged ex_bot @ [AttributeError]\<rparr>)"
    using reachable_process_update [OF reachable.start, of ex_isoparse ex_matches ex_app ex_bot
        "ex_event (ex_edited ''/start'')"]
    by simp
  have o: "outcomes (world ex_bot) = []" by (simp add: ex_bot_def)
  from reachable_reliable [OF r o] r o show ?thesis by simp
qed

text \<open>
  C13: the process is a polite client of the three APIs, whatever they and the chat
  do. In every state it can reach, every session that was opened has been closed, on
  every way a handler can end, and every request made went to one of the three
  endpoints with the timeout of 15 seconds.
\<close>

theorem reachable_polite:
  assumes "reachable isoparse matches app s0 s" "polite (net_of (world s0))"
  shows "polite (net_of (world s))"
  using assms
proof (induction rule: reachable.induct)
  case start
  then show ?case by simp
next
  case (step s ev s')
  with process_update_net [of isoparse matches app ev s] show ?case
    by (auto simp: bot_step_iff)
qed

theorem reachable_polite_witness:
  "reachable ex_isoparse ex_matches ex_app ex_bot
     (process_update ex_isoparse ex_matches ex_app (ex_event (ex_update ''/trending'')) ex_bot) \<and>
   polite (net_of (world ex_bot)) \<and>
   polite (net_of (world
     (process_update ex_isoparse ex_matches ex_app (ex_event (ex_update ''/trending'')) ex_bot)))"
proof -
  have r: "reachable ex_isoparse ex_matches ex_app ex_bot
     (process_update ex_isoparse ex_matches ex_app (ex_event (ex_update ''/trending'')) ex_bot)"
    by (rule reachable_process_update [OF reachable.start])
  have p: "polite (net_of (world ex_bot))"
    by (simp add: polite_def ex_bot_def)
  from reachable_polite [OF r p] r p show ?thesis by simp
qed

text \<open>
  C28: what a run that ends has done. When \<open>main\<close> returns, the line that announces the
  bot is on the console, once and after what was there before, and the state is one
  that the four registered handlers reach from the state after that line by processing
  updates: the loop does nothing else to the chat, the log or the console.
\<close>

theorem main_returns:
  assumes "main isoparse matches tok source s = Some r"
  shows "console r = console s @ [RUNNING] \<and>
         reachable isoparse matches
           \<lparr>token = tok, registered = [(''start'', Start), (''trending'', Trending),
              (''new'', New), (''search'', Search)]\<rparr>
           (s\<lparr>console := console s @ [RUNNING]\<rparr>) r"
  using run_polling_result [OF assms [unfolded main_unfold]]
  by (auto simp: reachable_serve)

theorem main_returns_witness:
  "main ex_isoparse ex_matches ''t'' ex_source ex_bot =
     Some \<lparr>world = (ex_chat [])\<lparr>sent := [Text WELCOME]\<rparr>, logged = [AttributeError],
           console = [RUNNING]\<rparr> \<and>
   console \<lparr>world = (ex_chat [])\<lparr>sent := [Text WELCOME]\<rparr>, logged = [AttributeError],
           console = [RUNNING]\<rparr> = console ex_bot @ [RUNNING] \<and>
   reachable ex_isoparse ex_matches ex_app (ex_bot\<lparr>console := console ex_bot @ [RUNNING]\<rparr>)
     \<lparr>world = (ex_chat [])\<lparr>sent := [Text WELCOME]\<rparr>, logged = [AttributeError],
       console = [RUNNING]\<rparr>"
proof -
  have "\<forall>j < 3. ex_source (0 + j) \<noteq> None" "ex_source (0 + 3) = None"
    by (simp_all add: ex_source_def)
  from run_polling_stops [OF this]
  have m: "main ex_isoparse ex_matches ''t'' ex_source ex_bot =
     Some \<lparr>world = (ex_chat [])\<lparr>sent := [Text WELCOME]\<rparr>, logged = [AttributeError],
           console = [RUNNING]\<rparr>"
    by (simp add: main_unfold ex_app_def [symmetric] ex_pending) (simp add: ex_bot_def ex_chat_def reply_text_def)
  from main_returns [OF m] m show ?thesis by (simp add: ex_app_def ex_bot_def ex_chat_def)
qed

text \<open>
  Without the token the process does not start. When the environment has no
  \<open>TELEGRAM_BOT_TOKEN\<close>, loading the module raises \<open>KeyError\<close>: \<open>main\<close> is not
  entered, so nothing is printed and no update is processed, whatever the source holds.
\<close>

lemma program_without_token:
  "map_of environ ''TELEGRAM_BOT_TOKEN'' = None \<Longrightarrow>
     program isoparse matches environ source s = Inl (KeyError ''TELEGRAM_BOT_TOKEN'')"
  by (simp add: program_def BOT_TOKEN_def)

end
