(* ===== verification/Spec2Isabelle.thy ===== *)
theory Spec2Isabelle
  imports Bot
begin

text \<open>
  Verification development for the PulseChain memecoin finder bot, the single module
  \<open>src/memecoin_bot.py\<close>: a Telegram bot that fetches pool listings from the
  GeckoTerminal API, turns each record into metrics and a text, keeps the records that
  pass four thresholds, ranks them and replies with the first ten.

  \<^bold>\<open>The program and the theories.\<close> The module has five helpers, one
  orchestrator, four command handlers and \<open>main\<close>. Each has its theory, in the order
  of the source:
  \<^item> \<open>Normalizer\<close>: \<open>usd\<close> (lines 27 to 31), the numeric normaliser. Definition \<open>usd\<close>.
  \<^item> \<open>Age\<close>: \<open>hours_since\<close> (lines 33 to 40). Definitions \<open>assume_utc\<close>, \<open>aware_sub\<close>,
    \<open>total_seconds\<close>, \<open>hours_since\<close>; a datetime is the record \<open>datetime\<close>.
  \<^item> \<open>Fetch\<close>: \<open>fetch_json\<close> (lines 42 to 45) with \<open>HTTP_TIMEOUT\<close> (line 17), and the
    \<open>async with httpx.AsyncClient()\<close> of lines 81 and 129. A response is the record
    \<open>response\<close>; \<open>get\<close>, \<open>raise_for_status\<close> and \<open>json\<close> are the three calls and
    \<open>fetch_json\<close> is the three statements in their order; \<open>async_client\<close> is the
    \<open>async with\<close> statement. The record \<open>net\<close> holds what the program has done to
    the network; \<open>fetched\<close> is the value of a request and \<open>session\<close> its effect.
  \<^item> \<open>Summarizer\<close>: \<open>summarize_pool\<close> (lines 47 to 69). Definition \<open>summarize_pool\<close>, one
    bind per statement, and \<open>summary_text\<close> for the f-string; \<open>pool_txs\<close>, \<open>pool_metrics\<close>
    and \<open>pool_text\<close> are the same computation in three parts.
  \<^item> \<open>Eligibility\<close>: the thresholds (lines 13 to 16) and \<open>looks_like_memecoin\<close> (lines 71
    to 77); the metrics dict is the record \<open>metrics\<close>.
  \<^item> \<open>Scan\<close>: \<open>scan_geckoterminal\<close> (lines 79 to 90) with the slug and the endpoints
    (lines 11, 20, 21). Definitions \<open>scan_url\<close>, \<open>scan_item\<close> (the loop body),
    \<open>scan_loop\<close>, \<open>rank_key\<close>, \<open>sort_desc\<close>, \<open>ranked\<close>, \<open>top_picks\<close>,
    \<open>scan_geckoterminal\<close>; \<open>scanned\<close> is the value the scan returns as a function of
    the response, \<open>eligible_reports\<close> is what the loop collects and \<open>scan_spec\<close> is the
    contract of the design.
  \<^item> \<open>Search\<close>: the search path without its replies (lines 122 and 129 to 147):
    \<open>split1\<close> for the split of the message, \<open>search_fetch\<close> for the request,
    \<open>search_line\<close> and \<open>search_loop\<close> for the loop, \<open>search_reply\<close> for the text sent.
  \<^item> \<open>Commands\<close>: the handlers \<open>start\<close>, \<open>trending\<close>, \<open>new\<close>, \<open>search\<close> (lines 95 to
    149) as tasks over the record \<open>world\<close>, statement by statement. The world is the
    network of \<open>Fetch\<close> extended by the chat; \<open>reply_text\<close> is the one operation on the
    chat; \<open>handle\<close> calls the handler of a \<open>command\<close>.
  \<^item> \<open>Bot\<close>: the token (line 10), \<open>main\<close> (lines 154 to 161) and the module that calls
    it (lines 163, 164). Definitions \<open>BOT_TOKEN\<close>, \<open>build\<close>, \<open>add_handler\<close>, \<open>print\<close>,
    \<open>dispatch\<close>, \<open>process_update\<close>, \<open>run_polling\<close>, \<open>main\<close>, \<open>program\<close>; the state of
    the process is the record \<open>bot\<close> (world, log of escaped exceptions, console), and
    \<open>bot_step\<close> and \<open>reachable\<close> are its steps and the states they lead to.

  \<^bold>\<open>Python underneath.\<close> The helpers are short because Python does the work, so the
  semantics the source relies on is written out, once, in the theories below them:
  \<^item> \<open>Prelude\<close>: exceptions as values. A computation that may raise has type
    \<open>exn + 'a\<close>; \<open>rbind\<close> sequences, \<open>catch\<close> is \<open>try / except\<close>.
  \<^item> \<open>Task\<close>: coroutines. An \<open>async def\<close> is a \<open>task\<close>, a computation in the state
    monad of the library whose value is an exception or a result; \<open>task_bind\<close> is one
    awaited statement after the other and \<open>task_try\<close> is \<open>try / except Exception\<close>.
    \<open>acts m r g\<close> says that \<open>m\<close> ends in \<open>r\<close> and changes the state by \<open>g\<close>.
  \<^item> \<open>PyFloat\<close>: a float is a \<open>pyfloat\<close>, an exact rational or one of \<open>-0.0\<close>, \<open>inf\<close>,
    \<open>-inf\<close>, \<open>nan\<close>. Every operation computes exactly and rounds once with
    \<open>round_double\<close> (round to nearest, ties to even, 53 bits, subnormals, overflow to
    infinity). \<open>Rounding\<close> proves that \<open>round_double\<close> is monotone, is the identity on
    representable values and returns representable values.
  \<^item> \<open>FloatText\<close>: \<open>float(s)\<close> for a string, by the grammar of CPython (underscores,
    whitespace, sign, digits, fraction, exponent, \<open>inf\<close>, \<open>nan\<close>).
  \<^item> \<open>PyValue\<close>: JSON values as \<open>pyval\<close>, with truth testing, \<open>or\<close>, \<open>dict.get\<close>,
    subscripting, \<open>+\<close>, comparison with an int, iteration, each with its exceptions,
    and \<open>type_of\<close> with the typing of \<open>+\<close>.
  \<^item> \<open>PyText\<close>: \<open>str\<close>, \<open>repr\<close> and the fixed-point formats of the f-strings.
  A Python \<open>str\<close> is a \<open>string\<close> holding its UTF-8 bytes; a dict is an association
  list with distinct keys, in insertion order.

  \<^bold>\<open>State and effects.\<close> The helpers are functions of their inputs. The
  coroutines have two effects. On the network: a scan or a search enters a session,
  makes one GET request with a timeout and leaves the session, also when the request
  raises; the record \<open>net\<close> counts the sessions entered and left and lists the
  requests. On the chat: \<open>reply_text\<close> delivers a message or raises; the chat holds
  the messages delivered and the outcomes of the coming calls of \<open>reply_text\<close>, and a
  call with no outcome left succeeds, so the chat with no outcomes is the one that
  delivers everything. The scan is a task over every state that extends \<open>net\<close>, so
  a handler, a task over \<open>world\<close>, runs it as it is. After an exception the state is
  kept: what was sent and requested stays so. The process is a step function,
  \<open>process_update\<close>, on the record \<open>bot\<close>, run over a source of updates by
  \<open>run_polling\<close>; \<open>bot_step\<close> is one step of it as a relation, and the states it can
  reach are the inductive predicate \<open>reachable\<close>.

  \<^bold>\<open>What comes from outside.\<close> These are inputs of the model, and every theorem
  holds for all of them: the timestamp parser of \<open>dateutil\<close> (a function \<open>iso_parser\<close>
  from the argument to a datetime, or to nothing when it raises); the clock (\<open>clock i\<close>
  is the reading in microseconds while the \<open>i\<close>-th record is summarised); the HTTP
  client (\<open>client url params timeout\<close> is the response of the GET request or the
  exception of the transport); the outcomes of \<open>reply_text\<close> in the chat; the
  environment of the process; the decision of the library whether a command handler
  accepts an update (\<open>matcher\<close>); the source of updates, which also says when the
  process is stopped.

  \<^bold>\<open>What the theorems show.\<close>
  \<^item> Orchestrator: \<open>scan_geckoterminal\<close> refines \<open>scan_spec\<close>, and its effect is one
    session with one request, whatever the request ends in; the result is a stable
    descending sort of the eligible pools, cut to the best ten; its length is
    \<open>min 10 (max 1 n)\<close> for \<open>n\<close> eligible pools; the placeholder appears exactly when
    there is none; an envelope that cannot be iterated and a record that raises each
    end the scan with that exception.
  \<^item> Request: the three outcomes of \<open>fetch_json\<close> in the order of its statements; a
    session that was entered is left, whatever its body does.
  \<^item> Filter: it is the conjunction of the four comparisons when the transaction count
    is a number; it raises on a count that cannot be compared; NaN never passes.
  \<^item> Normaliser: zero on everything that is no number; never below a threshold that the
    decimal value has reached.
  \<^item> Age: exact on whole hours; a naive timestamp is read as UTC; monotone in the
    instant; at most \<open>h\<close> for a pool at most \<open>h\<close> hours old, which includes timestamps
    in the future.
  \<^item> Summarizer: its three outcomes; the type of the transaction count from the types
    of the two counts; records without a readable timestamp are never eligible.
  \<^item> Search: the split of the message; the chain filter and the required price.
  \<^item> Commands: the usage line without a request; the error report after a failed
    request; a first reply that fails leaves the handler; a result reply that fails is
    reported like a failed scan; an update without a message raises \<open>AttributeError\<close>.
  \<^item> Process: \<open>run_polling\<close> returns when the source stops and reaches every update
    before that; with a chat that delivers a run is the list of its answers and of its
    requests, and in every reachable state nothing but \<open>AttributeError\<close> has been
    logged; in every reachable state no session is open and every request went to one
    of the three endpoints with the timeout of 15 seconds; a run appends at most two
    messages and one request per update; a run that ends has printed its line once;
    without the token nothing runs.
  \<^item> This theory: the end-to-end example of the design for every reserve, the reply of
    \<open>/trending\<close> when nothing is eligible, the invariant that every ranked pool has
    well-formed metrics and a finite key, the rendering of the example record character
    for character, and a whole session from the environment to the chat.

  \<^bold>\<open>Bounds.\<close> There is no fuel and no size bound in the model. Every function but
  one is total: the loops of the scan and the search are structural recursions over
  the list of records, and the two recursions that are not structural (\<open>strip_left\<close>,
  \<open>utf8_chars\<close>) have termination proofs. \<open>run_polling\<close> is the exception: it runs
  until the source stops, so it is a partial function with an optional result, and
  that it returns is proved from the hypothesis that the source stops. The numeric
  hypotheses are those of binary64: exactness needs magnitudes up to \<open>2 ^ 53\<close>, and the
  order of ages needs time differences below \<open>2 ^ 1023\<close> microseconds, far beyond the
  range of a Python datetime.

  \<^bold>\<open>Not modelled.\<close> The message text of an exception (the error reply is the value
  \<open>ErrorReport e\<close>). The length limit of a Telegram message, which is one of the
  reasons \<open>reply_text\<close> can raise; the model says that it raises, not why. The
  internals of the libraries: how \<open>httpx\<close> sends a request and decodes JSON, how
  \<open>dateutil\<close> parses a timestamp, how \<open>python-telegram-bot\<close> validates the token,
  fetches updates and decides that a message is a command. The interleaving of
  handlers at their \<open>await\<close>s: updates are processed one after the other, which is what
  the application does unless it is built with concurrent updates, and this one is
  not. Decimal digits outside ASCII in \<open>float(s)\<close>; the refusal of CPython to print
  ints of more than 4300 digits.
\<close>

section \<open>The worked example of the design\<close>

lemma example_metrics:
  assumes "attr avs ''buys_1h'' = PInt 30" "attr avs ''sells_1h'' = PInt 10"
    "attr avs ''fdv_usd'' = PInt 1000000" "isoparse (attr avs ''pool_created_at'') = Some dt"
    "now = utc_us dt + 2 * 3600000000" "attr avs ''reserve_in_usd'' = PStr (show_nat n)"
    "n \<le> 2 ^ 53"
  shows "summarize_pool isoparse now (PDict [(''attributes'', PDict avs)]) =
     Inr (pool_text isoparse now avs (PInt 40),
          \<lparr>fdv = Finite 1000000, liq = Finite (of_nat n), txs = PInt 40, age = Finite 2\<rparr>)"
proof -
  have "usd (PStr (show_nat n)) = Finite (of_nat n)"
    using assms(7) by (simp add: usd_str [OF _ float_of_str_show_nat] round_double_of_nat)
  moreover have "hours_since isoparse now (attr avs ''pool_created_at'') = Finite 2"
    using hours_of_whole [of 2] assms(4,5) by (simp add: hours_since_parsed)
  ultimately show ?thesis
    using assms(1-3,6)
    by (simp add: summarize_pool_cases lookup_or_def [of "[_]"] pool_txs_ints pool_metrics_def
        usd_def float_of_int_exact)
qed

text \<open>
  C4: the end-to-end example, for every reserve. A record with 30 buys, 10 sells, a
  valuation of 1000000, a creation time two hours before the reading of the clock and
  a reserve given as the decimal numeral of \<open>n\<close> is kept by the loop of the scan
  exactly when \<open>n\<close> is at least 3000, with these metrics and whatever its other fields
  are: reserve \<open>"5000"\<close> is kept and reserve \<open>"1000"\<close> is dropped.
\<close>

theorem example_record_threshold:
  assumes "attr avs ''buys_1h'' = PInt 30" "attr avs ''sells_1h'' = PInt 10"
    "attr avs ''fdv_usd'' = PInt 1000000" "isoparse (attr avs ''pool_created_at'') = Some dt"
    "now = utc_us dt + 2 * 3600000000" "attr avs ''reserve_in_usd'' = PStr (show_nat n)"
    "n \<le> 2 ^ 53"
  shows "scan_item isoparse now (PDict [(''attributes'', PDict avs)]) =
     Inr (if 3000 \<le> n
          then Some (\<lparr>fdv = Finite 1000000, liq = Finite (of_nat n), txs = PInt 40, age = Finite 2\<rparr>,
                     pool_text isoparse now avs (PInt 40))
          else None)"
  using example_metrics
    [where isoparse = isoparse and avs = avs and dt = dt and now = now and n = n] assms
  by (simp add: scan_item_def filter_eval)

lemma ex_attrs_lookup:
  "attr (ex_attrs symbol reserve buys sells) ''buys_1h'' = PInt buys"
  "attr (ex_attrs symbol reserve buys sells) ''sells_1h'' = PInt sells"
  "attr (ex_attrs symbol reserve buys sells) ''fdv_usd'' = PInt 1000000"
  "attr (ex_attrs symbol reserve buys sells) ''reserve_in_usd'' = PStr reserve"
  "ex_isoparse v = Some \<lparr>wall_us = 0, utcoffset_us = Some 0\<rparr>"
  "utc_us \<lparr>wall_us = 0, utcoffset_us = Some 0\<rparr> = 0"
  by (simp_all add: ex_attrs_def lookup_or_def ex_isoparse_def utc_us_def)

theorem example_record_threshold_witness:
  "attr (ex_attrs ''AAA'' (show_nat 5000) 30 10) ''buys_1h'' = PInt 30 \<and>
   attr (ex_attrs ''AAA'' (show_nat 5000) 30 10) ''sells_1h'' = PInt 10 \<and>
   attr (ex_attrs ''AAA'' (show_nat 5000) 30 10) ''fdv_usd'' = PInt 1000000 \<and>
   ex_isoparse (attr (ex_attrs ''AAA'' (show_nat 5000) 30 10) ''pool_created_at'')
     = Some \<lparr>wall_us = 0, utcoffset_us = Some 0\<rparr> \<and>
   (7200000000::int) = utc_us \<lparr>wall_us = 0, utcoffset_us = Some 0\<rparr> + 2 * 3600000000 \<and>
   attr (ex_attrs ''AAA'' (show_nat 5000) 30 10) ''reserve_in_usd'' = PStr (show_nat 5000) \<and>
   (5000::nat) \<le> 2 ^ 53 \<and> show_nat 5000 = ''5000'' \<and>
   scan_item ex_isoparse 7200000000
       (PDict [(''attributes'', PDict (ex_attrs ''AAA'' (show_nat 5000) 30 10))]) =
     Inr (Some (\<lparr>fdv = Finite 1000000, liq = Finite 5000, txs = PInt 40, age = Finite 2\<rparr>,
                pool_text ex_isoparse 7200000000 (ex_attrs ''AAA'' (show_nat 5000) 30 10) (PInt 40)))"
  using example_record_threshold [where isoparse = ex_isoparse and now = 7200000000 and n = 5000
      and avs = "ex_attrs ''AAA'' (show_nat 5000) 30 10"
      and dt = "\<lparr>wall_us = 0, utcoffset_us = Some 0\<rparr>"]
  by (simp add: ex_attrs_lookup digit_char_def)

lemma example_record_low_reserve:
  "scan_item ex_isoparse 7200000000 (PDict [(''attributes'', PDict (ex_attrs ''AAA'' ''1000'' 30 10))])
     = Inr None"
proof -
  have "summarize_pool ex_isoparse 7200000000
      (PDict [(''attributes'', PDict (ex_attrs ''AAA'' ''1000'' 30 10))]) =
    Inr (pool_text ex_isoparse 7200000000 (ex_attrs ''AAA'' ''1000'' 30 10) (PInt 40),
         \<lparr>fdv = Finite 1000000, liq = Finite 1000, txs = PInt 40, age = Finite 2\<rparr>)"
    using example_metrics [where isoparse = ex_isoparse and now = 7200000000 and n = 1000
      and avs = "ex_attrs ''AAA'' ''1000'' 30 10" and dt = "\<lparr>wall_us = 0, utcoffset_us = Some 0\<rparr>"]
    by (simp add: ex_attrs_lookup digit_char_def)
  then show ?thesis by (simp add: scan_item_def filter_eval)
qed

section \<open>From the response to the replies\<close>

lemma join_single [simp]: "join sep [x] = x"
  by simp

text \<open>
  C35: a scan that completes without an eligible pool tells the user so: with a chat
  that delivers, \<open>/trending\<close> returns and has sent the announcement and the
  placeholder, not an empty message and not an error.
\<close>

theorem trending_no_candidates:
  assumes "fetched client (scan_url ''trending'') scan_params = Inr (PDict env)"
    and "py_iter (lookup_or env ''data'' (PList [])) = Inr items"
    and "\<forall>j < length items. returns (scan_item isoparse (clock j) (items ! j))"
    and "eligible_reports isoparse clock 0 items = []"
    and "message upd = Some m" "outcomes c = []"
  shows "run_state (trending isoparse clock client upd) c =
     (Inr (), after [Text SCANNING_TRENDING, Text NO_CANDIDATES] [(GT_TRENDING, scan_params, 15)] c)"
  using assms
  by (simp add: trending_respond respond_reliable [OF _ acts_scan_text] scanned_unfold
      scan_loop_total0 scan_spec_def)
     (simp add: after_def session_def scan_url_def HTTP_TIMEOUT_def)

theorem trending_no_candidates_witness:
  "fetched (ex_respond (PDict [])) (scan_url ''trending'') scan_params = Inr (PDict []) \<and>
   py_iter (lookup_or [] ''data'' (PList [])) = Inr [] \<and>
   list_all (\<lambda>j. returns (scan_item ex_isoparse (ex_clock j) ([] ! j))) [0..<length ([]::pyval list)] \<and>
   eligible_reports ex_isoparse ex_clock 0 [] = [] \<and>
   message (ex_update ''/trending'') = Some \<lparr>message_text = Some ''/trending''\<rparr> \<and>
   outcomes (ex_chat []) = [] \<and>
   run_state (trending ex_isoparse ex_clock (ex_respond (PDict [])) (ex_update ''/trending''))
     (ex_chat []) =
     (Inr (), \<lparr>opened = 1, closed = 1, requests = [(GT_TRENDING, scan_params, 15)],
                sent = [Text SCANNING_TRENDING, Text NO_CANDIDATES], outcomes = []\<rparr>)"
  using trending_no_candidates [where client = "ex_respond (PDict [])" and env = "[]"
      and items = "[]" and isoparse = ex_isoparse and clock = ex_clock
      and upd = "ex_update ''/trending''" and c = "ex_chat []"]
  by (simp add: lookup_or_def ex_command_defs after_def)

text \<open>
  C36: every pool a scan ranks has well-formed metrics with a finite, non-negative
  ranking key: at least 20 transactions and at least 3000 of liquidity, both numbers
  that are not NaN, so the comparison of the sort is total on what it is given.
\<close>

theorem eligible_reports_ranked_keys:
  assumes "list_all wf_val items" "r \<in> set (eligible_reports isoparse clock i items)"
  shows "wf_metrics (fst r) \<and> (\<exists>t l. rank_key r = Some (t, l) \<and> XFin 20 \<le> t \<and> XFin 3000 \<le> l)"
proof -
  have "wf_metrics (fst r)" using assms
  proof (induction items arbitrary: i)
    case (Cons item items)
    have "wf_metrics (fst x)" if "scan_item isoparse (clock i) item = Inr (Some x)" for x
      using that Cons.prems(1) wf_summarize_pool_metrics [of item isoparse "clock i" "snd x" "fst x"]
      by (simp add: scan_item_Some)
    with Cons show ?case by (auto split: sum.splits option.splits)
  qed simp
  with eligible_rank_key [OF eligible_reports_eligible [OF assms(2)]] show ?thesis by simp
qed

theorem eligible_reports_ranked_keys_witness:
  "list_all wf_val ex_items \<and>
   (\<lparr>fdv = Finite 1000000, liq = Finite 5000, txs = PInt 25, age = Finite 2\<rparr>,
     ex_text ''AAA'' ''5000'' 15 10) \<in> set (eligible_reports ex_isoparse ex_clock 0 ex_items) \<and>
   wf_metrics \<lparr>fdv = Finite 1000000, liq = Finite 5000, txs = PInt 25, age = Finite 2\<rparr> \<and>
   rank_key (\<lparr>fdv = Finite 1000000, liq = Finite 5000, txs = PInt 25, age = Finite 2\<rparr>,
     ex_text ''AAA'' ''5000'' 15 10) = Some (XFin 25, XFin 5000)"
proof -
  have a: "list_all wf_val ex_items"
    by (simp add: ex_items_def ex_pool_def ex_attrs_def)
  have b: "(\<lparr>fdv = Finite 1000000, liq = Finite 5000, txs = PInt 25, age = Finite 2\<rparr>,
     ex_text ''AAA'' ''5000'' 15 10) \<in> set (eligible_reports ex_isoparse ex_clock 0 ex_items)"
    by (simp add: ex_eligible_reports)
  from eligible_reports_ranked_keys [OF a b] a b show ?thesis
    by (simp add: rank_key_def)
qed

text \<open>
  The reply of \<open>/search\<close>. When the message has a term, the request returns an object
  whose pairs can be iterated, no pair raises and the chat delivers, the handler sends
  the announcement with the term and then the lines of the PulseChain pairs, at most
  ten and in the order of the response, or the placeholder when there is none; it has
  made one request, with the term as its only parameter.
\<close>

lemma search_command_reply:
  assumes "message upd = Some m" "message_text m = Some t" "split1 t = [w, term]"
    and "fetched client DEX_SEARCH [(''q'', term)] = Inr (PDict env)"
    and "py_iter (lookup_or env ''pairs'' (PList [])) = Inr ps"
    and "search_loop ps = Inr ls" "outcomes c = []"
  shows "run_state (search client upd) c =
     (Inr (), after [Text (searching_text term), Text (search_reply ls)]
                    [(DEX_SEARCH, [(''q'', term)], 15)] c)"
proof -
  from assms(1-3)
  have "search client upd = respond upd (searching_text term) (search_text_of client term)"
    by (simp add: search_respond)
  moreover from assms(4-6) have "searched client term = Inr ls"
    by (simp add: searched_def)
  ultimately show ?thesis using assms(1,7)
    by (simp add: respond_reliable [OF _ acts_search_text_of])
       (simp add: after_def session_def HTTP_TIMEOUT_def)
qed

section \<open>A session\<close>

text \<open>
  From the environment to the chat: the process starts with a token, receives
  \<open>/trending\<close> while the API serves the three example pools, then an edited
  \<open>/trending\<close>, and is stopped. The chat holds the announcement and the two eligible
  pools, best first; the edited message left \<open>AttributeError\<close> in the log.
\<close>

definition ex_session :: "nat \<Rightarrow> event option" where
  "ex_session i =
     (if i = 0 then Some (ex_event (ex_update ''/trending''))
      else if i = 1 then Some (ex_event (ex_edited ''/trending''))
      else None)"

lemma session_example:
  "program ex_isoparse ex_matches [(''TELEGRAM_BOT_TOKEN'', ''t'')] ex_session ex_bot =
     Inr (Some \<lparr>world =
                  \<lparr>opened = 1, closed = 1, requests = [(GT_TRENDING, scan_params, 15)],
                    sent = [Text SCANNING_TRENDING,
                            Text (ex_text ''CCC'' ''7000.5'' 30 10 @ blank_line @ ex_text ''AAA'' ''5000'' 15 10)],
                    outcomes = []\<rparr>,
                logged = [AttributeError], console = [RUNNING]\<rparr>)"
proof -
  have d: "dispatch ex_matches (registered ex_app) (ex_update ''/trending'') = Some Trending"
    "dispatch ex_matches (registered ex_app) (ex_edited ''/trending'') = Some Trending"
    by (simp_all add: ex_bot_defs split1_unfold text_eval)
  have s: "scanned ex_isoparse ex_clock ex_http ''trending'' =
      Inr [ex_text ''CCC'' ''7000.5'' 30 10, ex_text ''AAA'' ''5000'' 15 10]"
    using ex_items_return
    by (simp add: scanned_unfold ex_http_def lookup_or_def scan_loop_total0 ex_scan_spec)
  have p: "pending ex_session 0 2 =
      [ex_event (ex_update ''/trending''), ex_event (ex_edited ''/trending'')]"
    by (simp add: pending_def ex_session_def upt_rec)
  have "\<forall>j < 2. ex_session (0 + j) \<noteq> None" "ex_session (0 + 2) = None"
    by (simp_all add: ex_session_def)
  from run_polling_stops [OF this, of ex_isoparse ex_matches ex_app] show ?thesis
    by (simp add: program_def BOT_TOKEN_def main_unfold ex_app_def [symmetric] p
        process_update_def d ex_event_def handle_def trending_respond)
       (simp add: respond_reliable [OF _ acts_scan_text] respond_no_message s ex_command_defs
          ex_bot_def session_def scan_url_def HTTP_TIMEOUT_def)
qed

section \<open>The rendering, on the example\<close>


end
